theory Spec2Isabelle
  imports Complex_Main "HOL-Library.Sublist" "HOL-Library.Log_Nat"
begin

section \<open>JavaScript values and the operations the server applies to them\<close>

text \<open>
  The server (\<^verbatim>\<open>src/bin/start.js\<close>, two variants of the same file: server version 2.0.0
  with five tools and server version 1.1.3 with seven) receives JSON from two sides: the
  arguments of a tool call and the body of the backend's answer. Both are dynamically
  typed, and the formatters read them with property accesses, truthiness tests, coercing
  comparisons and template strings. The model therefore keeps the dynamic values and
  writes each of these operations out, with every \<^verbatim>\<open>throw\<close> and every
  \<^verbatim>\<open>TypeError\<close> of the engine as an \<open>Inl\<close> result.

  Strings are the UTF-8 bytes of the text.
\<close>

subsection \<open>Numbers\<close>

text \<open>
  A number of the language is an IEEE 754 double: \<^verbatim>\<open>NaN\<close>, an infinity, or a finite
  value, kept as the rational number it denotes. \<open>round_double\<close> maps a rational to the
  nearest double, a tie to the double with the even significand, and a rational from
  \<open>2\<^sup>1\<^sup>0\<^sup>2\<^sup>4 - 2\<^sup>9\<^sup>7\<^sup>0\<close> on to the infinity of its sign: with the binary exponent \<open>e\<close> of
  the rational, at least \<open>-1022\<close>, the doubles around it are the multiples of
  \<open>2\<^sup>e\<^sup>-\<^sup>5\<^sup>2\<close>. The finite doubles are the rationals that \<open>round_double\<close> leaves
  unchanged. \<^verbatim>\<open>JSON.parse\<close> reads a numeric literal with \<open>round_double\<close>, and every
  arithmetic operation of the language applies it to the exact result.

  The negative zero is taken for zero. The server could tell them apart only through
  \<^verbatim>\<open>toLocaleString\<close>, which the model leaves to the platform, and through the sign
  of a quotient by zero, and it divides by the length of a non-empty array only.
\<close>

datatype sign = Positive | Negative

datatype number = NaN | Infinity sign | Finite rat

definition round_half_even :: "rat \<Rightarrow> int" where
  "round_half_even x =
     (let f = \<lfloor>x\<rfloor>; r = x - of_int f
      in if r < 1 / 2 then f else if 1 / 2 < r then f + 1 else if even f then f else f + 1)"

text \<open>The binary exponent of a positive rational \<open>q\<close>: the \<open>e\<close> with
  \<open>2\<^sup>e \<le> q < 2\<^sup>e\<^sup>+\<^sup>1\<close>, from the bit lengths of its numerator and denominator.\<close>

definition binade :: "rat \<Rightarrow> int" where
  "binade q =
     (let n = fst (quotient_of q); d = snd (quotient_of q); k = bitlen n - bitlen d
      in if of_int n < 2 powi k * (of_int d :: rat) then k - 1 else k)"

definition sign_of :: "rat \<Rightarrow> sign" where
  "sign_of q = (if q < 0 then Negative else Positive)"

definition round_double :: "rat \<Rightarrow> number" where
  "round_double q =
     (if q = 0 then Finite 0
      else
        let e = max (binade \<bar>q\<bar>) (- 1022);
            ulp = 2 powi (e - 52);
            r = of_int (round_half_even (\<bar>q\<bar> / ulp)) * ulp
        in if 2 powi 1024 \<le> r then Infinity (sign_of q)
           else Finite (if q < 0 then - r else r))"

definition is_double :: "rat \<Rightarrow> bool" where
  "is_double q = (round_double q = Finite q)"

text \<open>The operators \<^verbatim>\<open>-x\<close>, \<^verbatim>\<open>x + y\<close>, \<^verbatim>\<open>x - y\<close>, \<^verbatim>\<open>x * y\<close> and
  \<^verbatim>\<open>x / y\<close> on numbers, and \<^verbatim>\<open>Math.abs\<close>.\<close>

definition sign_times :: "sign \<Rightarrow> sign \<Rightarrow> sign" where
  "sign_times s t = (if s = t then Positive else Negative)"

fun negate :: "number \<Rightarrow> number" where
  "negate NaN = NaN"
| "negate (Infinity s) = Infinity (sign_times s Negative)"
| "negate (Finite q) = Finite (- q)"

fun number_add :: "number \<Rightarrow> number \<Rightarrow> number" where
  "number_add (Finite a) (Finite b) = round_double (a + b)"
| "number_add (Infinity s) (Infinity t) = (if s = t then Infinity s else NaN)"
| "number_add (Infinity s) (Finite b) = Infinity s"
| "number_add (Finite a) (Infinity t) = Infinity t"
| "number_add x y = NaN"

definition number_subtract :: "number \<Rightarrow> number \<Rightarrow> number" where
  "number_subtract x y = number_add x (negate y)"

fun number_multiply :: "number \<Rightarrow> number \<Rightarrow> number" where
  "number_multiply (Finite a) (Finite b) = round_double (a * b)"
| "number_multiply (Infinity s) (Infinity t) = Infinity (sign_times s t)"
| "number_multiply (Infinity s) (Finite b) =
     (if b = 0 then NaN else Infinity (sign_times s (sign_of b)))"
| "number_multiply (Finite a) (Infinity t) =
     (if a = 0 then NaN else Infinity (sign_times (sign_of a) t))"
| "number_multiply x y = NaN"

fun number_divide :: "number \<Rightarrow> number \<Rightarrow> number" where
  "number_divide (Finite a) (Finite b) =
     (if b = 0 then (if a = 0 then NaN else Infinity (sign_of a)) else round_double (a / b))"
| "number_divide (Infinity s) (Finite b) = Infinity (sign_times s (sign_of b))"
| "number_divide (Finite a) (Infinity t) = Finite 0"
| "number_divide x y = NaN"

fun number_abs :: "number \<Rightarrow> number" where
  "number_abs NaN = NaN"
| "number_abs (Infinity s) = Infinity Positive"
| "number_abs (Finite q) = Finite \<bar>q\<bar>"

text \<open>The comparisons \<^verbatim>\<open>x > c\<close>, \<^verbatim>\<open>x < c\<close> and \<^verbatim>\<open>x >= c\<close> of a number with a
  finite one: false as soon as \<open>x\<close> is \<^verbatim>\<open>NaN\<close>.\<close>

fun number_gt :: "number \<Rightarrow> rat \<Rightarrow> bool" where
  "number_gt NaN c = False"
| "number_gt (Infinity s) c = (s = Positive)"
| "number_gt (Finite q) c = (c < q)"

fun number_lt :: "number \<Rightarrow> rat \<Rightarrow> bool" where
  "number_lt NaN c = False"
| "number_lt (Infinity s) c = (s = Negative)"
| "number_lt (Finite q) c = (q < c)"

fun number_ge :: "number \<Rightarrow> rat \<Rightarrow> bool" where
  "number_ge NaN c = False"
| "number_ge (Infinity s) c = (s = Positive)"
| "number_ge (Finite q) c = (c \<le> q)"

subsection \<open>Values\<close>

datatype jsval =
    JUndef
  | JNull
  | JBool bool
  | JNum number
  | JStr string
  | JArr "jsval list"
  | JObj "(string \<times> jsval) list"

datatype js_error = Error string | TypeError string | SyntaxError string

fun message :: "js_error \<Rightarrow> string" where
  "message (Error m) = m"
| "message (TypeError m) = m"
| "message (SyntaxError m) = m"

fun bindE :: "js_error + 'a \<Rightarrow> ('a \<Rightarrow> js_error + 'b) \<Rightarrow> js_error + 'b" where
  "bindE (Inl e) f = Inl e"
| "bindE (Inr v) f = f v"

text \<open>\<^verbatim>\<open>xs.map(f)\<close> with a callback that may throw: the first exception, in the order
  of the elements, ends the loop.\<close>

fun mapE :: "('a \<Rightarrow> js_error + 'b) \<Rightarrow> 'a list \<Rightarrow> js_error + 'b list" where
  "mapE f [] = Inr []"
| "mapE f (x # xs) = bindE (f x) (\<lambda>y. bindE (mapE f xs) (\<lambda>ys. Inr (y # ys)))"

lemma mapE_cong [fundef_cong]:
  "xs = ys \<Longrightarrow> (\<And>x. x \<in> set ys \<Longrightarrow> f x = g x) \<Longrightarrow> mapE f xs = mapE g ys"
  by (induction ys arbitrary: xs) auto

text \<open>A template string or a chain of \<^verbatim>\<open>+\<close> on strings: the pieces are evaluated
  from left to right and concatenated.\<close>

fun interp :: "(js_error + string) list \<Rightarrow> js_error + string" where
  "interp [] = Inr []"
| "interp (p # ps) = bindE p (\<lambda>s. bindE (interp ps) (\<lambda>t. Inr (s @ t)))"

text \<open>\<^verbatim>\<open>strings.join(sep)\<close>\<close>

fun join_with :: "string \<Rightarrow> string list \<Rightarrow> string" where
  "join_with sep [] = []"
| "join_with sep [x] = x"
| "join_with sep (x # y # ys) = x @ sep @ join_with sep (y # ys)"

subsection \<open>Numbers as text\<close>

definition digit_char :: "nat \<Rightarrow> char" where
  "digit_char d = ''0123456789'' ! d"

fun nat_str :: "nat \<Rightarrow> string" where
  "nat_str n = (if n < 10 then [digit_char n] else nat_str (n div 10) @ [digit_char (n mod 10)])"

declare nat_str.simps [simp del]

definition int_str :: "int \<Rightarrow> string" where
  "int_str i = (if i < 0 then ''-'' @ nat_str (nat (- i)) else nat_str (nat i))"

text \<open>
  What the model takes from the JavaScript runtime and the libraries without defining it:
  the shortest decimal form of a number that is not an integer below \<open>10\<^sup>2\<^sup>1\<close>, the parsing
  of a string as a number, the locale-dependent renderings, Unicode upper-casing, and the
  text zod builds from a list of issues. Every theorem holds for any choice of them.
\<close>

datatype zod_issue = Issue (path: "string list") (expected: string) (received: string)

record runtime =
  number_to_string :: "rat \<Rightarrow> string"
  string_to_number :: "string \<Rightarrow> number"
  number_to_locale_string :: "number \<Rightarrow> string"
  date_to_locale_string :: "jsval \<Rightarrow> string"
  date_to_locale_date_string :: "jsval \<Rightarrow> string"
  to_upper_case :: "string \<Rightarrow> string"
  zod_error_message :: "zod_issue list \<Rightarrow> string"

text \<open>\<^verbatim>\<open>Number.prototype.toString\<close>\<close>

definition num_str :: "runtime \<Rightarrow> number \<Rightarrow> string" where
  "num_str P x =
     (case x of
        NaN \<Rightarrow> ''NaN''
      | Infinity s \<Rightarrow> (if s = Negative then ''-Infinity'' else ''Infinity'')
      | Finite q \<Rightarrow>
          if q = of_int \<lfloor>q\<rfloor> \<and> \<bar>q\<bar> < 10 ^ 21 then int_str \<lfloor>q\<rfloor> else number_to_string P q)"

text \<open>
  \<^verbatim>\<open>Number.prototype.toFixed(d)\<close>, on a finite number below \<open>10\<^sup>2\<^sup>1\<close>: the integer
  \<open>n\<close> with \<open>n / 10\<^sup>d\<close> nearest to the exact absolute value of the double (the larger
  one on a tie), written with \<open>d\<close> digits after the point, and the sign in front.
\<close>

definition pad_zeros :: "nat \<Rightarrow> string \<Rightarrow> string" where
  "pad_zeros w s = replicate (w - length s) (CHR ''0'') @ s"

definition to_fixed :: "runtime \<Rightarrow> nat \<Rightarrow> number \<Rightarrow> string" where
  "to_fixed P d x =
     (case x of
        NaN \<Rightarrow> ''NaN''
      | Infinity s \<Rightarrow> num_str P x
      | Finite q \<Rightarrow>
          if \<bar>q\<bar> \<ge> 10 ^ 21 then num_str P x
          else
            let n = nat \<lfloor>\<bar>q\<bar> * 10 ^ d + 1 / 2\<rfloor>;
                ds = pad_zeros (Suc d) (nat_str n);
                m = (if d = 0 then ds
                     else take (length ds - d) ds @ ''.'' @ drop (length ds - d) ds)
            in (if q < 0 then ''-'' @ m else m))"

subsection \<open>Reading values\<close>

fun truthy :: "jsval \<Rightarrow> bool" where
  "truthy JUndef = False"
| "truthy JNull = False"
| "truthy (JBool b) = b"
| "truthy (JNum x) = (x \<noteq> NaN \<and> x \<noteq> Finite 0)"
| "truthy (JStr s) = (s \<noteq> [])"
| "truthy (JArr xs) = True"
| "truthy (JObj kvs) = True"

fun nullish :: "jsval \<Rightarrow> bool" where
  "nullish JUndef = True"
| "nullish JNull = True"
| "nullish v = False"

text \<open>\<^verbatim>\<open>a || b\<close> on values\<close>

definition or_else :: "jsval \<Rightarrow> jsval \<Rightarrow> jsval" where
  "or_else a b = (if truthy a then a else b)"

text \<open>
  The \<^verbatim>\<open>TypeError\<close> of the engine for a property access or a method call
  \<^verbatim>\<open>v.m(...)\<close> that cannot be made: on \<^verbatim>\<open>undefined\<close> and \<^verbatim>\<open>null\<close> the
  property cannot be read; on another value without the method, the engine names the
  callee as the source writes it.
\<close>

definition cannot_read :: "string \<Rightarrow> string \<Rightarrow> js_error" where
  "cannot_read v m =
     TypeError (''Cannot read properties of '' @ v @ '' (reading '' @ [CHR 0x27] @ m @ [CHR 0x27] @ '')'')"

definition not_a_function :: "string \<Rightarrow> js_error" where
  "not_a_function callee = TypeError (callee @ '' is not a function'')"

text \<open>
  \<^verbatim>\<open>v.k\<close> for the property names the server reads. None of them is a property of a
  prototype, so on anything but an object with that key the result is
  \<^verbatim>\<open>undefined\<close>; on \<^verbatim>\<open>undefined\<close> and \<^verbatim>\<open>null\<close> the engine throws.
\<close>

fun get :: "jsval \<Rightarrow> string \<Rightarrow> js_error + jsval" where
  "get JUndef k = Inl (cannot_read ''undefined'' k)"
| "get JNull k = Inl (cannot_read ''null'' k)"
| "get (JObj kvs) k = Inr (case map_of kvs k of None \<Rightarrow> JUndef | Some v \<Rightarrow> v)"
| "get v k = Inr JUndef"

text \<open>\<^verbatim>\<open>v?.k\<close>\<close>

definition get_opt :: "jsval \<Rightarrow> string \<Rightarrow> js_error + jsval" where
  "get_opt v k = (if nullish v then Inr JUndef else get v k)"

text \<open>A call of an array method (\<^verbatim>\<open>map\<close>, \<^verbatim>\<open>forEach\<close>, \<^verbatim>\<open>filter\<close>) on the
  value of the expression \<open>obj\<close>: only an array has the method.\<close>

fun as_array :: "string \<Rightarrow> string \<Rightarrow> jsval \<Rightarrow> js_error + jsval list" where
  "as_array obj m (JArr xs) = Inr xs"
| "as_array obj m JUndef = Inl (cannot_read ''undefined'' m)"
| "as_array obj m JNull = Inl (cannot_read ''null'' m)"
| "as_array obj m v = Inl (not_a_function (obj @ ''.'' @ m))"

text \<open>
  \<^verbatim>\<open>ToString\<close>, as a template string applies it. An array joins its elements with
  commas, \<^verbatim>\<open>undefined\<close> and \<^verbatim>\<open>null\<close> elements as empty strings. A plain object
  is \<^verbatim>\<open>[object Object]\<close>, unless it has a key \<^verbatim>\<open>toString\<close> of its own: a JSON value
  is never callable, and the conversion throws.
\<close>

fun to_str :: "runtime \<Rightarrow> jsval \<Rightarrow> js_error + string" where
  "to_str P JUndef = Inr ''undefined''"
| "to_str P JNull = Inr ''null''"
| "to_str P (JBool b) = Inr (if b then ''true'' else ''false'')"
| "to_str P (JNum x) = Inr (num_str P x)"
| "to_str P (JStr s) = Inr s"
| "to_str P (JArr xs) =
     bindE (mapE (\<lambda>x. if nullish x then Inr [] else to_str P x) xs)
       (\<lambda>ss. Inr (join_with '','' ss))"
| "to_str P (JObj kvs) =
     (if ''toString'' \<in> fst ` set kvs
      then Inl (TypeError ''Cannot convert object to primitive value'')
      else Inr ''[object Object]'')"

text \<open>
  \<^verbatim>\<open>ToNumber\<close>, as the comparisons and the arithmetic apply it: an array or an object
  goes through its string.
\<close>

fun to_number :: "runtime \<Rightarrow> jsval \<Rightarrow> js_error + number" where
  "to_number P JUndef = Inr NaN"
| "to_number P JNull = Inr (Finite 0)"
| "to_number P (JBool b) = Inr (Finite (if b then 1 else 0))"
| "to_number P (JNum x) = Inr x"
| "to_number P (JStr s) = Inr (string_to_number P s)"
| "to_number P v = bindE (to_str P v) (\<lambda>s. Inr (string_to_number P s))"

text \<open>\<^verbatim>\<open>v > c\<close>, \<^verbatim>\<open>v < c\<close> and \<^verbatim>\<open>v >= c\<close> of a value against a number
  literal: the value is made a number first.\<close>

definition js_gt :: "runtime \<Rightarrow> jsval \<Rightarrow> rat \<Rightarrow> js_error + bool" where
  "js_gt P v c = bindE (to_number P v) (\<lambda>x. Inr (number_gt x c))"

definition js_lt :: "runtime \<Rightarrow> jsval \<Rightarrow> rat \<Rightarrow> js_error + bool" where
  "js_lt P v c = bindE (to_number P v) (\<lambda>x. Inr (number_lt x c))"

definition js_ge :: "runtime \<Rightarrow> jsval \<Rightarrow> rat \<Rightarrow> js_error + bool" where
  "js_ge P v c = bindE (to_number P v) (\<lambda>x. Inr (number_ge x c))"

text \<open>\<^verbatim>\<open>a + b\<close>: concatenation as soon as one side is a string once made primitive,
  addition of numbers otherwise.\<close>

fun to_primitive :: "runtime \<Rightarrow> jsval \<Rightarrow> js_error + jsval" where
  "to_primitive P (JArr xs) = bindE (to_str P (JArr xs)) (\<lambda>s. Inr (JStr s))"
| "to_primitive P (JObj kvs) = bindE (to_str P (JObj kvs)) (\<lambda>s. Inr (JStr s))"
| "to_primitive P v = Inr v"

fun is_str :: "jsval \<Rightarrow> bool" where
  "is_str (JStr s) = True"
| "is_str v = False"

definition js_add :: "runtime \<Rightarrow> jsval \<Rightarrow> jsval \<Rightarrow> js_error + jsval" where
  "js_add P a b =
     bindE (to_primitive P a) (\<lambda>pa.
     bindE (to_primitive P b) (\<lambda>pb.
       if is_str pa \<or> is_str pb
       then bindE (to_str P pa) (\<lambda>sa. bindE (to_str P pb) (\<lambda>sb. Inr (JStr (sa @ sb))))
       else bindE (to_number P pa) (\<lambda>x. bindE (to_number P pb) (\<lambda>y.
              Inr (JNum (number_add x y))))))"

text \<open>\<^verbatim>\<open>v.toLocaleString()\<close>, for the value \<open>v\<close> of the expression \<open>obj\<close>\<close>

fun to_locale_string :: "runtime \<Rightarrow> string \<Rightarrow> jsval \<Rightarrow> js_error + string" where
  "to_locale_string P obj JUndef = Inl (cannot_read ''undefined'' ''toLocaleString'')"
| "to_locale_string P obj JNull = Inl (cannot_read ''null'' ''toLocaleString'')"
| "to_locale_string P obj (JBool b) = Inr (if b then ''true'' else ''false'')"
| "to_locale_string P obj (JNum x) = Inr (number_to_locale_string P x)"
| "to_locale_string P obj (JStr s) = Inr s"
| "to_locale_string P obj (JArr xs) =
     bindE (mapE (\<lambda>x. if nullish x then Inr [] else to_locale_string P obj x) xs)
       (\<lambda>ss. Inr (join_with '','' ss))"
| "to_locale_string P obj (JObj kvs) =
     (if ''toLocaleString'' \<in> fst ` set kvs
      then Inl (not_a_function (obj @ ''.toLocaleString''))
      else to_str P (JObj kvs))"

text \<open>\<^verbatim>\<open>v.toFixed(d)\<close>, \<^verbatim>\<open>v.toUpperCase()\<close>: methods of numbers and of strings
  only, for the value \<open>v\<close> of the expression \<open>obj\<close>.\<close>

fun to_fixed_method :: "runtime \<Rightarrow> string \<Rightarrow> nat \<Rightarrow> jsval \<Rightarrow> js_error + string" where
  "to_fixed_method P obj d (JNum x) = Inr (to_fixed P d x)"
| "to_fixed_method P obj d JUndef = Inl (cannot_read ''undefined'' ''toFixed'')"
| "to_fixed_method P obj d JNull = Inl (cannot_read ''null'' ''toFixed'')"
| "to_fixed_method P obj d v = Inl (not_a_function (obj @ ''.toFixed''))"

fun to_upper_case_method :: "runtime \<Rightarrow> string \<Rightarrow> jsval \<Rightarrow> js_error + string" where
  "to_upper_case_method P obj (JStr s) = Inr (to_upper_case P s)"
| "to_upper_case_method P obj JUndef = Inl (cannot_read ''undefined'' ''toUpperCase'')"
| "to_upper_case_method P obj JNull = Inl (cannot_read ''null'' ''toUpperCase'')"
| "to_upper_case_method P obj v = Inl (not_a_function (obj @ ''.toUpperCase''))"

text \<open>\<^verbatim>\<open>new Date(v).toLocaleString('fr-FR')\<close> and
  \<^verbatim>\<open>new Date(v).toLocaleDateString('fr-FR')\<close>: the constructor makes its argument
  primitive first.\<close>

definition date_locale :: "runtime \<Rightarrow> jsval \<Rightarrow> js_error + string" where
  "date_locale P v = bindE (to_primitive P v) (\<lambda>p. Inr (date_to_locale_string P p))"

definition date_locale_date :: "runtime \<Rightarrow> jsval \<Rightarrow> js_error + string" where
  "date_locale_date P v = bindE (to_primitive P v) (\<lambda>p. Inr (date_to_locale_date_string P p))"

section \<open>Argument validation: the zod schemas\<close>

text \<open>
  Modelled from the spec: the validator. The schemas of the server are values of zod, a
  library it imports; the code of the library is not part of the sources. What
  \<^verbatim>\<open>safeParse\<close> does with a schema follows section 4.2 of the specification
  (typed fields, required or optional, with defaults; a failure lists the offending
  fields; undeclared fields are dropped; no conversion between types), in the way
  version 3 of the library realises it. The schemas are built from \<^verbatim>\<open>z.number()\<close>,
  \<^verbatim>\<open>z.boolean()\<close>, \<^verbatim>\<open>z.string()\<close>, \<^verbatim>\<open>z.array(...)\<close>, \<^verbatim>\<open>.optional()\<close> and
  \<^verbatim>\<open>.default(v)\<close> inside \<^verbatim>\<open>z.object({...})\<close>; \<^verbatim>\<open>.describe\<close> only attaches
  text. A primitive schema accepts exactly the values of its type, a default replaces
  \<^verbatim>\<open>undefined\<close> before the inner schema runs, an object schema parses its declared
  keys in order, collects every issue, and builds a new object from the declared keys
  alone.
\<close>

datatype zod_type =
    ZNumber
  | ZBoolean
  | ZString
  | ZArray zod_type
  | ZOptional zod_type
  | ZDefault zod_type jsval

fun parsed_type :: "jsval \<Rightarrow> string" where
  "parsed_type JUndef = ''undefined''"
| "parsed_type JNull = ''null''"
| "parsed_type (JBool b) = ''boolean''"
| "parsed_type (JNum x) = (if x = NaN then ''nan'' else ''number'')"
| "parsed_type (JStr s) = ''string''"
| "parsed_type (JArr xs) = ''array''"
| "parsed_type (JObj kvs) = ''object''"

fun zod_parse :: "zod_type \<Rightarrow> string list \<Rightarrow> jsval \<Rightarrow> zod_issue list \<times> jsval" where
  "zod_parse ZNumber pth v =
     (if parsed_type v = ''number'' then ([], v) else ([Issue pth ''number'' (parsed_type v)], v))"
| "zod_parse ZBoolean pth v =
     (case v of JBool b \<Rightarrow> ([], v) | _ \<Rightarrow> ([Issue pth ''boolean'' (parsed_type v)], v))"
| "zod_parse ZString pth v =
     (case v of JStr s \<Rightarrow> ([], v) | _ \<Rightarrow> ([Issue pth ''string'' (parsed_type v)], v))"
| "zod_parse (ZArray t) pth v =
     (case v of
        JArr xs \<Rightarrow>
          (let rs = map (\<lambda>ix. zod_parse t (pth @ [nat_str (fst ix)]) (snd ix)) (enumerate 0 xs)
           in (concat (map fst rs), JArr (map snd rs)))
      | _ \<Rightarrow> ([Issue pth ''array'' (parsed_type v)], v))"
| "zod_parse (ZOptional t) pth v = (if v = JUndef then ([], JUndef) else zod_parse t pth v)"
| "zod_parse (ZDefault t d) pth v = zod_parse t pth (if v = JUndef then d else v)"

type_synonym zod_object = "(string \<times> zod_type) list"

definition own :: "(string \<times> jsval) list \<Rightarrow> string \<Rightarrow> jsval" where
  "own kvs k = (case map_of kvs k of None \<Rightarrow> JUndef | Some v \<Rightarrow> v)"

definition parse_field ::
  "(string \<times> jsval) list \<Rightarrow> string \<times> zod_type \<Rightarrow> zod_issue list \<times> (string \<times> jsval) list" where
  "parse_field kvs f =
     (let r = zod_parse (snd f) [fst f] (own kvs (fst f))
      in (fst r, if snd r \<noteq> JUndef \<or> fst f \<in> fst ` set kvs then [(fst f, snd r)] else []))"

fun safeParse :: "zod_object \<Rightarrow> jsval \<Rightarrow> zod_issue list + jsval" where
  "safeParse shape (JObj kvs) =
     (let rs = map (parse_field kvs) shape
      in if concat (map fst rs) = [] then Inr (JObj (concat (map snd rs)))
         else Inl (concat (map fst rs)))"
| "safeParse shape v = Inl [Issue [] ''object'' (parsed_type v)]"

section \<open>The backend gateway\<close>

text \<open>
  One tool call makes at most one HTTP request. The world outside the process is the
  environment variable with the API key and the answer of \<^verbatim>\<open>fetch\<close> to a request:
  a rejection (the network failed), or a response with its status, its status text and
  what \<^verbatim>\<open>response.json()\<close> gives (a \<^verbatim>\<open>SyntaxError\<close> when the body is not JSON).
  Every function that may call the backend also returns the list of the requests it
  issued. The body of a request is kept as the value that \<^verbatim>\<open>JSON.stringify\<close> is
  given.
\<close>

record http_request =
  url :: string
  http_method :: string
  headers :: "(string \<times> string) list"
  body :: jsval

datatype fetch_outcome =
    Rejected js_error
  | Response (status: nat) (statusText: string) (json: "js_error + jsval")

record world =
  api_key :: "string option"
  fetch :: "http_request \<Rightarrow> fetch_outcome"

definition getApiKey :: "world \<Rightarrow> js_error + string" where
  "getApiKey W =
     (case api_key W of
        None \<Rightarrow> Inl (Error (''REFERENCIME_API_KEY non configur'' @ [CHR 0xC3, CHR 0xA9] @ ''. Ajoutez votre cl'' @ [CHR 0xC3, CHR 0xA9] @ '' API dans la configuration Claude Desktop.''))
      | Some k \<Rightarrow>
          if k = [] then Inl (Error (''REFERENCIME_API_KEY non configur'' @ [CHR 0xC3, CHR 0xA9] @ ''. Ajoutez votre cl'' @ [CHR 0xC3, CHR 0xA9] @ '' API dans la configuration Claude Desktop.''))
          else Inr k)"

definition baseURL :: string where
  "baseURL = ''https://referencime.fr/wp-json/easy-links/v1''"

text \<open>The \<^verbatim>\<open>switch\<close> from tool names to paths, of server version 2.0.0 and of server
  version 1.1.3.\<close>

definition endpoints :: "(string \<times> string) list" where
  "endpoints =
     [(''list_websites_by_user'', ''/ai/list-websites-by-user''),
      (''list_categories_by_website'', ''/ai/list-categories-by-website''),
      (''list_keywords_by_website'', ''/ai/list-keywords-by-website''),
      (''list_keywords_by_categories_by_website'', ''/ai/list-keywords-by-categories-by-website''),
      (''get_website_performance_summary'', ''/ai/get-website-performance-summary'')]"

definition endpoints_v1 :: "(string \<times> string) list" where
  "endpoints_v1 =
     [(''analyze_keyword_performance'', ''/ai/analyze-keyword-performance''),
      (''get_position_evolution'', ''/ai/get-position-evolution''),
      (''compare_keywords_performance'', ''/ai/compare-keywords-performance''),
      (''get_website_performance_summary'', ''/ai/get-website-performance-summary''),
      (''detect_ranking_changes'', ''/ai/detect-ranking-changes''),
      (''list_user_websites'', ''/ai/list-user-websites''),
      (''get_keywords_by_categories'', ''/ai/get-keywords-by-categories'')]"

text \<open>\<^verbatim>\<open>response.ok\<close>\<close>

definition response_ok :: "nat \<Rightarrow> bool" where
  "response_ok st = (200 \<le> st \<and> st \<le> 299)"

text \<open>What \<^verbatim>\<open>callReferencimeAPI\<close> does with the outcome of \<^verbatim>\<open>fetch\<close>.\<close>

definition unwrap_response :: "runtime \<Rightarrow> fetch_outcome \<Rightarrow> js_error + jsval" where
  "unwrap_response P r =
     (case r of
        Rejected e \<Rightarrow> Inl e
      | Response st stt b \<Rightarrow>
          if \<not> response_ok st
          then Inl (Error (''Erreur API WordPress: '' @ nat_str st @ '' '' @ stt))
          else
            bindE b (\<lambda>result.
            bindE (get result ''success'') (\<lambda>s.
              if \<not> truthy s
              then bindE (get result ''message'') (\<lambda>m.
                   bindE (to_str P (or_else m (JStr ''Erreur inconnue''))) (\<lambda>ms.
                     Inl (Error ((''Erreur dans la r'' @ [CHR 0xC3, CHR 0xA9] @ ''ponse API: '') @ ms))))
              else get result ''data'')))"

definition callReferencimeAPI ::
  "runtime \<Rightarrow> world \<Rightarrow> (string \<times> string) list \<Rightarrow> string \<Rightarrow> jsval \<Rightarrow>
     (js_error + jsval) \<times> http_request list" where
  "callReferencimeAPI P W table toolName args =
     (case getApiKey W of
        Inl e \<Rightarrow> (Inl e, [])
      | Inr apiKey \<Rightarrow>
          (case map_of table toolName of
             None \<Rightarrow> (Inl (Error (''Outil inconnu: '' @ toolName)), [])
           | Some endpoint \<Rightarrow>
               (let rq = \<lparr>url = baseURL @ endpoint, http_method = ''POST'',
                          headers = [(''Authorization'', ''Bearer '' @ apiKey),
                                     (''Content-Type'', ''application/json'')],
                          body = args\<rparr>
                in (unwrap_response P (fetch W rq), [rq]))))"

section \<open>The tool-call handler\<close>

text \<open>
  Every \<^verbatim>\<open>case\<close> of the handler's \<^verbatim>\<open>switch\<close> has the same three steps: validate the
  arguments against the tool's schema and throw on failure, call the backend with the
  parsed arguments, format the data. The formatter also sees the parsed arguments.
\<close>

type_synonym formatter = "runtime \<Rightarrow> jsval \<Rightarrow> jsval \<Rightarrow> js_error + string"

definition tool_case ::
  "runtime \<Rightarrow> world \<Rightarrow> (string \<times> string) list \<Rightarrow> string \<Rightarrow> zod_object \<Rightarrow> formatter \<Rightarrow> jsval \<Rightarrow>
     (js_error + string) \<times> http_request list" where
  "tool_case P W table name shape fmt args =
     (case safeParse shape args of
        Inl issues \<Rightarrow>
          (Inl (Error (''Arguments invalides pour '' @ name @ '': '' @ zod_error_message P issues)), [])
      | Inr data \<Rightarrow>
          (let r = callReferencimeAPI P W table name data
           in (bindE (fst r) (\<lambda>result. fmt P result data), snd r)))"

text \<open>The answer of the handler: one text block and the error flag (absent, so false,
  on success).\<close>

record report =
  text_of :: string
  isError :: bool

definition error_report :: "js_error \<Rightarrow> report" where
  "error_report e = \<lparr>text_of = ([CHR 0xE2, CHR 0x9D, CHR 0x8C] @ '' **Erreur**: '') @ message e, isError = True\<rparr>"

definition finish :: "(js_error + string) \<times> http_request list \<Rightarrow> report \<times> http_request list" where
  "finish r =
     (case fst r of
        Inl e \<Rightarrow> (error_report e, snd r)
      | Inr t \<Rightarrow> (\<lparr>text_of = t, isError = False\<rparr>, snd r))"

record tool_request =
  name :: string
  arguments :: jsval

section \<open>The formatters of server version 2.0.0\<close>

text \<open>\<^verbatim>\<open>${v.k}\<close>, \<^verbatim>\<open>v.a.b\<close> and \<^verbatim>\<open>v.a.b.c\<close>\<close>

definition tpl :: "runtime \<Rightarrow> jsval \<Rightarrow> string \<Rightarrow> js_error + string" where
  "tpl P v k = bindE (get v k) (to_str P)"

definition get2 :: "jsval \<Rightarrow> string \<Rightarrow> string \<Rightarrow> js_error + jsval" where
  "get2 v a b = bindE (get v a) (\<lambda>x. get x b)"

definition get3 :: "jsval \<Rightarrow> string \<Rightarrow> string \<Rightarrow> string \<Rightarrow> js_error + jsval" where
  "get3 v a b c = bindE (get2 v a b) (\<lambda>x. get x c)"

abbreviation (input) nl :: string where
  "nl \<equiv> [CHR 0x0A]"

text \<open>Loops with a callback that may throw: \<^verbatim>\<open>filter\<close>, and \<^verbatim>\<open>reduce\<close> or a
  \<^verbatim>\<open>forEach\<close> that updates a variable.\<close>

fun filterE :: "('a \<Rightarrow> js_error + bool) \<Rightarrow> 'a list \<Rightarrow> js_error + 'a list" where
  "filterE p [] = Inr []"
| "filterE p (x # xs) =
     bindE (p x) (\<lambda>b. bindE (filterE p xs) (\<lambda>ys. Inr (if b then x # ys else ys)))"

fun foldE :: "('b \<Rightarrow> 'a \<Rightarrow> js_error + 'b) \<Rightarrow> 'b \<Rightarrow> 'a list \<Rightarrow> js_error + 'b" where
  "foldE f acc [] = Inr acc"
| "foldE f acc (x # xs) = bindE (f acc x) (\<lambda>a. foldE f a xs)"

text \<open>\<^verbatim>\<open>v.slice(0, n).map(...)\<close>: on an array the first \<open>n\<close> elements; a string has
  \<^verbatim>\<open>slice\<close> but its result has no \<^verbatim>\<open>map\<close>.\<close>

fun slice_map :: "string \<Rightarrow> nat \<Rightarrow> jsval \<Rightarrow> js_error + jsval list" where
  "slice_map obj n (JArr xs) = Inr (take n xs)"
| "slice_map obj n JUndef = Inl (cannot_read ''undefined'' ''slice'')"
| "slice_map obj n JNull = Inl (cannot_read ''null'' ''slice'')"
| "slice_map obj n (JStr s) = Inl (not_a_function (obj @ ''.slice(...).map''))"
| "slice_map obj n v = Inl (not_a_function (obj @ ''.slice''))"

text \<open>\<^verbatim>\<open>values.join(sep)\<close> on an array of values\<close>

definition join_values :: "runtime \<Rightarrow> string \<Rightarrow> jsval list \<Rightarrow> js_error + string" where
  "join_values P sep vs =
     bindE (mapE (\<lambda>x. if nullish x then Inr [] else to_str P x) vs) (\<lambda>ss. Inr (join_with sep ss))"

text \<open>\<^verbatim>\<open>v && v.length > 0\<close>. The length of a string is counted in bytes here and in
  UTF-16 units by the engine; the two are zero together.\<close>

fun js_length :: "jsval \<Rightarrow> jsval" where
  "js_length (JArr xs) = JNum (Finite (of_nat (length xs)))"
| "js_length (JStr s) = JNum (Finite (of_nat (length s)))"
| "js_length (JObj kvs) = own kvs ''length''"
| "js_length v = JUndef"

definition nonempty :: "runtime \<Rightarrow> jsval \<Rightarrow> js_error + bool" where
  "nonempty P v = (if truthy v then js_gt P (js_length v) 0 else Inr False)"

text \<open>\<^verbatim>\<open>typeof v === 'object'\<close>\<close>

fun is_object :: "jsval \<Rightarrow> bool" where
  "is_object JNull = True"
| "is_object (JArr xs) = True"
| "is_object (JObj kvs) = True"
| "is_object v = False"

subsection \<open>\<^verbatim>\<open>list_websites_by_user\<close>\<close>

definition website_line :: "runtime \<Rightarrow> jsval \<Rightarrow> js_error + string" where
  "website_line P w =
     interp
       [Inr ([CHR 0xE2, CHR 0x80, CHR 0xA2] @ '' **''), tpl P w ''domain'', Inr ''** (ID: '', tpl P w ''id'', Inr '')'',
        bindE (get w ''is_favorite'') (\<lambda>f. Inr (if truthy f then ('' '' @ [CHR 0xE2, CHR 0xAD, CHR 0x90]) else [])),
        Inr ('' - Cr'' @ [CHR 0xC3, CHR 0xA9, CHR 0xC3, CHR 0xA9] @ '' le ''), bindE (get w ''created_date'') (date_locale_date P)]"

definition format_list_websites_by_user :: formatter where
  "format_list_websites_by_user P result data =
     bindE (get result ''websites'') (\<lambda>ws.
     bindE (as_array ''result.websites'' ''map'' ws) (\<lambda>wl.
     bindE (mapE (website_line P) wl) (\<lambda>lines.
       interp
         [Inr ([CHR 0xF0, CHR 0x9F, CHR 0x8C, CHR 0x90] @ '' **VOS SITES WEB REFERENCIME**'' @ [CHR 0x0A, CHR 0x0A]),
          Inr ([CHR 0xF0, CHR 0x9F, CHR 0x91, CHR 0xA4] @ '' **Utilisateur ID :** ''), tpl P result ''user_id'', Inr nl,
          Inr ([CHR 0xF0, CHR 0x9F, CHR 0x93, CHR 0x8A] @ '' **Nombre de sites :** ''), tpl P result ''websites_count'', Inr [CHR 0x0A, CHR 0x0A],
          Inr ([CHR 0xF0, CHR 0x9F, CHR 0x93, CHR 0x8B] @ '' **Liste des sites :**'' @ [CHR 0x0A]), Inr (join_with nl lines), Inr [CHR 0x0A, CHR 0x0A],
          Inr ([CHR 0xF0, CHR 0x9F, CHR 0x92, CHR 0xA1] @ '' **Utilisation :** Utilisez l'' @ [CHR 0x27] @ ''ID du site dans les autres outils d'' @ [CHR 0x27] @ ''analyse SEO.'')])))"

subsection \<open>\<^verbatim>\<open>list_categories_by_website\<close>\<close>

definition category_count_line :: "runtime \<Rightarrow> jsval \<Rightarrow> js_error + string" where
  "category_count_line P c =
     interp [Inr ([CHR 0xE2, CHR 0x80, CHR 0xA2] @ '' **''), tpl P c ''name'', Inr ''** ('', tpl P c ''keywords_count'',
             Inr ('' mots-cl'' @ [CHR 0xC3, CHR 0xA9] @ ''s)'')]"

definition format_list_categories_by_website :: formatter where
  "format_list_categories_by_website P result data =
     bindE (get result ''categories'') (\<lambda>cs.
     bindE (as_array ''result.categories'' ''map'' cs) (\<lambda>cl.
     bindE (mapE (category_count_line P) cl) (\<lambda>lines.
       interp
         [Inr ([CHR 0xF0, CHR 0x9F, CHR 0x97, CHR 0x82, CHR 0xEF, CHR 0xB8, CHR 0x8F] @ '' **CAT'' @ [CHR 0xC3, CHR 0x89] @ ''GORIES DE MOTS-CL'' @ [CHR 0xC3, CHR 0x89] @ ''S - SITE #''), tpl P result ''website_id'', Inr (''**'' @ [CHR 0x0A, CHR 0x0A]),
          Inr ([CHR 0xF0, CHR 0x9F, CHR 0x93, CHR 0x8A] @ '' **Nombre de cat'' @ [CHR 0xC3, CHR 0xA9] @ ''gories :** ''), tpl P result ''categories_count'', Inr [CHR 0x0A, CHR 0x0A],
          Inr ([CHR 0xF0, CHR 0x9F, CHR 0x93, CHR 0x8B] @ '' **Liste des cat'' @ [CHR 0xC3, CHR 0xA9] @ ''gories :**'' @ [CHR 0x0A]), Inr (join_with nl lines), Inr [CHR 0x0A, CHR 0x0A],
          Inr ([CHR 0xF0, CHR 0x9F, CHR 0x92, CHR 0xA1] @ '' **Organisation :** Cat'' @ [CHR 0xC3, CHR 0xA9] @ ''gorisez vos mots-cl'' @ [CHR 0xC3, CHR 0xA9] @ ''s par th'' @ [CHR 0xC3, CHR 0xA8] @ ''me pour une meilleure strat'' @ [CHR 0xC3, CHR 0xA9] @ ''gie SEO.'')])))"

subsection \<open>\<^verbatim>\<open>list_keywords_by_website\<close>\<close>

text \<open>
  The formatter groups the keywords in \<^verbatim>\<open>const byCategory = {}\<close>, a plain object used
  as a dictionary from category names to arrays. The model keeps its own properties in
  the order of their creation. Two facts of the language are part of the model:
  \<^item> a read \<^verbatim>\<open>byCategory[catName]\<close> of a name that is not an own property finds the
    properties of \<^verbatim>\<open>Object.prototype\<close>, which are functions (and, for
    \<^verbatim>\<open>__proto__\<close>, the prototype itself): truthy values without a \<^verbatim>\<open>push\<close>;
  \<^item> \<^verbatim>\<open>Object.entries\<close> lists the keys that are array indices (canonical decimal
    numerals up to \<open>2\<^sup>3\<^sup>2 - 2\<close>) first, in ascending numeric order, and the other keys
    after them in the order of their creation.
\<close>

type_synonym groups = "(string \<times> jsval list) list"

definition object_prototype_names :: "string list" where
  "object_prototype_names =
     [''constructor'', ''__defineGetter__'', ''__defineSetter__'', ''hasOwnProperty'',
      ''__lookupGetter__'', ''__lookupSetter__'', ''isPrototypeOf'', ''propertyIsEnumerable'',
      ''toString'', ''valueOf'', ''__proto__'', ''toLocaleString'']"

fun push_to :: "string \<Rightarrow> jsval \<Rightarrow> groups \<Rightarrow> groups" where
  "push_to key k [] = []"
| "push_to key k ((c, ks) # g) =
     (if c = key then (c, ks @ [k]) # g else (c, ks) # push_to key k g)"

definition non_categorise :: string where
  "non_categorise = (''Non cat'' @ [CHR 0xC3, CHR 0xA9] @ ''goris'' @ [CHR 0xC3, CHR 0xA9])"

text \<open>The body of the \<^verbatim>\<open>forEach\<close>: \<^verbatim>\<open>catName\<close> is converted to a property key at
  each of its uses, with the same result every time.\<close>

definition group_keyword :: "runtime \<Rightarrow> groups \<Rightarrow> jsval \<Rightarrow> js_error + groups" where
  "group_keyword P byCategory k =
     bindE (get k ''category_name'') (\<lambda>c.
     bindE (to_str P (or_else c (JStr non_categorise))) (\<lambda>catName.
       case map_of byCategory catName of
         Some ks \<Rightarrow> Inr (push_to catName k byCategory)
       | None \<Rightarrow>
           if catName \<in> set object_prototype_names
           then Inl (TypeError ''byCategory[catName].push is not a function'')
           else Inr (byCategory @ [(catName, [k])])))"

fun digit_value :: "char \<Rightarrow> nat option" where
  "digit_value c =
     (if (48::nat) \<le> of_char c \<and> of_char c \<le> (57::nat) then Some (of_char c - 48) else None)"

fun parse_nat :: "nat \<Rightarrow> string \<Rightarrow> nat option" where
  "parse_nat acc [] = Some acc"
| "parse_nat acc (c # cs) =
     (case digit_value c of None \<Rightarrow> None | Some d \<Rightarrow> parse_nat (10 * acc + d) cs)"

definition array_index :: "string \<Rightarrow> nat option" where
  "array_index s =
     (if s = [] then None
      else case parse_nat 0 s of
             None \<Rightarrow> None
           | Some n \<Rightarrow> if nat_str n = s \<and> n < 2 ^ 32 - 1 then Some n else None)"

definition entries :: "groups \<Rightarrow> groups" where
  "entries g =
     sort_key (\<lambda>e. the (array_index (fst e))) (filter (\<lambda>e. array_index (fst e) \<noteq> None) g)
     @ filter (\<lambda>e. array_index (fst e) = None) g"

definition keyword_line :: "runtime \<Rightarrow> jsval \<Rightarrow> jsval \<Rightarrow> js_error + string" where
  "keyword_line P result k =
     bindE (interp [Inr (''   '' @ [CHR 0xE2, CHR 0x80, CHR 0xA2] @ '' ''), tpl P k ''keyword'']) (\<lambda>line.
     bindE (get result ''include_metrics'') (\<lambda>im.
       if truthy im
       then bindE (get k ''search_volume'') (\<lambda>sv.
              if truthy sv
              then bindE (to_locale_string P ''k.search_volume'' sv) (\<lambda>s. Inr (line @ '' (Vol: '' @ s @ '')''))
              else Inr line)
       else Inr line))"

definition group_block :: "runtime \<Rightarrow> jsval \<Rightarrow> string \<times> jsval list \<Rightarrow> js_error + string" where
  "group_block P result e =
     (let catName = fst e; keywords = snd e in
      bindE (mapE (keyword_line P result) (take 20 keywords)) (\<lambda>lines.
        Inr (nl @ ''**'' @ catName @ ''** ('' @ nat_str (length keywords) @ ('' mots-cl'' @ [CHR 0xC3, CHR 0xA9] @ ''s):'' @ [CHR 0x0A])
             @ join_with nl lines
             @ (if length keywords > 20
                then ([CHR 0x0A] @ ''   ... et '') @ nat_str (length keywords - 20) @ ('' autres mots-cl'' @ [CHR 0xC3, CHR 0xA9] @ ''s'')
                else []))))"

definition keywords_list :: "runtime \<Rightarrow> jsval \<Rightarrow> js_error + string" where
  "keywords_list P result =
     bindE (get result ''keywords'') (\<lambda>ks.
     bindE (as_array ''result.keywords'' ''forEach'' ks) (\<lambda>kl.
     bindE (foldE (group_keyword P) [] kl) (\<lambda>byCategory.
     bindE (mapE (group_block P result) (entries byCategory)) (\<lambda>blocks.
       Inr (join_with nl blocks)))))"

definition format_list_keywords_by_website :: formatter where
  "format_list_keywords_by_website P result data =
     bindE (keywords_list P result) (\<lambda>keywordsList.
       interp
         [Inr ([CHR 0xF0, CHR 0x9F, CHR 0x94, CHR 0xA4] @ '' **MOTS-CL'' @ [CHR 0xC3, CHR 0x89] @ ''S - SITE #''), tpl P result ''website_id'', Inr (''**'' @ [CHR 0x0A, CHR 0x0A]),
          Inr ([CHR 0xF0, CHR 0x9F, CHR 0x93, CHR 0x8A] @ '' **Total mots-cl'' @ [CHR 0xC3, CHR 0xA9] @ ''s :** ''), tpl P result ''keywords_count'', Inr nl,
          Inr ([CHR 0xF0, CHR 0x9F, CHR 0x93, CHR 0x88] @ '' **Volumes de recherche :** ''),
          bindE (get result ''include_metrics'') (\<lambda>im.
            Inr (if truthy im then ''Inclus'' else ''Non inclus'')), Inr nl,
          Inr keywordsList, Inr [CHR 0x0A, CHR 0x0A],
          Inr ([CHR 0xF0, CHR 0x9F, CHR 0x92, CHR 0xA1] @ '' **Astuce :** Utilisez list_keywords_by_categories_by_website pour des m'' @ [CHR 0xC3, CHR 0xA9] @ ''triques de performance d'' @ [CHR 0xC3, CHR 0xA9] @ ''taill'' @ [CHR 0xC3, CHR 0xA9] @ ''es.'')])"

subsection \<open>\<^verbatim>\<open>list_keywords_by_categories_by_website\<close> and \<^verbatim>\<open>get_keywords_by_categories\<close>\<close>

text \<open>
  The two servers format the keywords by categories with the same code up to four
  pieces of text, which are the fields of \<open>labels\<close>, and to the name of a category:
  version 2.0.0 reads \<^verbatim>\<open>(category.category_name || 'Sans nom').toUpperCase()\<close>, version
  1.1.3 reads \<^verbatim>\<open>category.category_name.toUpperCase()\<close>.
\<close>

definition structure_line :: "runtime \<Rightarrow> jsval \<Rightarrow> js_error + string" where
  "structure_line P cat =
     interp [Inr ([CHR 0xE2, CHR 0x80, CHR 0xA2] @ '' **''), tpl P cat ''category_name'', Inr ''**: '', tpl P cat ''keywords_count'',
             Inr ('' mots-cl'' @ [CHR 0xC3, CHR 0xA9] @ ''s'')]"

text \<open>\<^verbatim>\<open>(perf.ctr * 100).toFixed(1)\<close>\<close>

definition ctr_percent :: "runtime \<Rightarrow> jsval \<Rightarrow> js_error + string" where
  "ctr_percent P ctr =
     bindE (to_number P ctr) (\<lambda>x. Inr (to_fixed P 1 (number_multiply x (Finite 100))))"

definition performance_part :: "runtime \<Rightarrow> string \<Rightarrow> jsval \<Rightarrow> js_error + string" where
  "performance_part P pos_label perf =
     bindE (get perf ''has_data'') (\<lambda>has_data.
       if truthy has_data
       then
         bindE (interp
                  [Inr pos_label,
                   bindE (get perf ''position'') (\<lambda>p. to_str P (or_else p (JStr ''N/A''))),
                   Inr '' | '', tpl P perf ''clicks'', Inr '' clics | '',
                   tpl P perf ''impressions'', Inr '' impr'']) (\<lambda>s.
         bindE (get perf ''ctr'') (\<lambda>ctr.
         bindE (js_gt P ctr 0) (\<lambda>positive.
           if positive
           then bindE (ctr_percent P ctr) (\<lambda>c. Inr (s @ '' | CTR: '' @ c @ ''%''))
           else Inr s)))
       else Inr ('' | Pas de donn'' @ [CHR 0xC3, CHR 0xA9] @ ''es GSC''))"

text \<open>\<^verbatim>\<open>if (keyword.search_volume > 0) line += ` | Vol: ${keyword.search_volume.toLocaleString()}`\<close>\<close>

definition volume_part :: "runtime \<Rightarrow> jsval \<Rightarrow> js_error + string" where
  "volume_part P keyword =
     bindE (get keyword ''search_volume'') (\<lambda>sv.
     bindE (js_gt P sv 0) (\<lambda>has_volume.
       if has_volume
       then bindE (to_locale_string P ''keyword.search_volume'' sv) (\<lambda>s. Inr ('' | Vol: '' @ s))
       else Inr []))"

definition keyword_perf_line :: "runtime \<Rightarrow> string \<Rightarrow> jsval \<Rightarrow> jsval \<Rightarrow> js_error + string" where
  "keyword_perf_line P pos_label result keyword =
     bindE (interp [Inr (''   '' @ [CHR 0xE2, CHR 0x80, CHR 0xA2] @ '' **''), tpl P keyword ''keyword'', Inr ''**'']) (\<lambda>line.
     bindE (get result ''include_performance'') (\<lambda>ip.
     bindE (if truthy ip
            then bindE (get keyword ''performance_metrics'') (\<lambda>perf.
                   if truthy perf
                   then bindE (performance_part P pos_label perf) (\<lambda>s. Inr (line @ s))
                   else Inr line)
            else Inr line) (\<lambda>line.
     bindE (volume_part P keyword) (\<lambda>v. Inr (line @ v)))))"

record labels =
  pos_label :: string
  no_keyword :: string
  others :: string
  default_name :: "string option"

definition labels_v2 :: labels where
  "labels_v2 =
     \<lparr>pos_label = '' | #'', no_keyword = (''   '' @ [CHR 0xE2, CHR 0x80, CHR 0xA2] @ '' Aucun mot-cl'' @ [CHR 0xC3, CHR 0xA9, CHR 0x0A]), others = '' autres'',
      default_name = Some ''Sans nom''\<rparr>"

definition labels_v1 :: labels where
  "labels_v1 =
     \<lparr>pos_label = '' | Pos: #'', no_keyword = (''   '' @ [CHR 0xE2, CHR 0x80, CHR 0xA2] @ '' Aucun mot-cl'' @ [CHR 0xC3, CHR 0xA9] @ '' dans cette cat'' @ [CHR 0xC3, CHR 0xA9] @ ''gorie'' @ [CHR 0x0A]),
      others = ('' autres mots-cl'' @ [CHR 0xC3, CHR 0xA9] @ ''s''), default_name = None\<rparr>"

definition category_title :: "runtime \<Rightarrow> labels \<Rightarrow> jsval \<Rightarrow> js_error + string" where
  "category_title P L category =
     bindE (get category ''category_name'') (\<lambda>n.
       case default_name L of
         None \<Rightarrow> to_upper_case_method P ''category.category_name'' n
       | Some d \<Rightarrow>
           to_upper_case_method P (''(category.category_name || '' @ [CHR 0x22] @ d @ [CHR 0x22] @ '')'')
             (or_else n (JStr d)))"

definition category_header :: "runtime \<Rightarrow> labels \<Rightarrow> jsval \<Rightarrow> js_error + string" where
  "category_header P L category =
     interp
       [Inr ([CHR 0x0A, CHR 0xF0, CHR 0x9F, CHR 0x97, CHR 0x82, CHR 0xEF, CHR 0xB8, CHR 0x8F] @ '' **''), category_title P L category, Inr ''** ('',
        tpl P category ''keywords_count'', Inr ('' mots-cl'' @ [CHR 0xC3, CHR 0xA9] @ ''s)'' @ [CHR 0x0A]),
        Inr (concat (replicate 50 [CHR 0xE2, CHR 0x94, CHR 0x80])), Inr nl]"

text \<open>\<^verbatim>\<open>category.keywords_count > 10 ? `\n   ... et ${category.keywords_count - 10} autres` : ''\<close>\<close>

definition truncated_note :: "runtime \<Rightarrow> labels \<Rightarrow> jsval \<Rightarrow> js_error + string" where
  "truncated_note P L kc =
     bindE (js_gt P kc 10) (\<lambda>more.
       if more
       then bindE (to_number P kc) (\<lambda>x.
              Inr (([CHR 0x0A] @ ''   ... et '') @ num_str P (number_subtract x (Finite 10)) @ others L))
       else Inr [])"

definition category_block :: "runtime \<Rightarrow> labels \<Rightarrow> jsval \<Rightarrow> jsval \<Rightarrow> js_error + string" where
  "category_block P L result category =
     bindE (category_header P L category) (\<lambda>categoryHeader.
     bindE (get category ''keywords_count'') (\<lambda>kc.
       if kc = JNum (Finite 0) then Inr (categoryHeader @ no_keyword L)
       else
         bindE (get category ''keywords'') (\<lambda>kws.
         bindE (slice_map ''category.keywords'' 10 kws) (\<lambda>shown.
         bindE (mapE (keyword_perf_line P (pos_label L) result) shown) (\<lambda>lines.
         bindE (truncated_note P L kc) (\<lambda>truncated.
           Inr (categoryHeader @ join_with nl lines @ truncated @ nl)))))))"

text \<open>\<^verbatim>\<open>k.performance_metrics?.position > 0\<close>\<close>

definition has_position :: "runtime \<Rightarrow> jsval \<Rightarrow> js_error + bool" where
  "has_position P k =
     bindE (get k ''performance_metrics'') (\<lambda>pm.
     bindE (get_opt pm ''position'') (\<lambda>p. js_gt P p 0))"

definition with_position :: "runtime \<Rightarrow> jsval \<Rightarrow> js_error + jsval list" where
  "with_position P cat =
     bindE (get cat ''keywords'') (\<lambda>kws.
     bindE (as_array ''cat.keywords'' ''filter'' kws) (\<lambda>kl. filterE (has_position P) kl))"

definition positions_of :: "runtime \<Rightarrow> jsval \<Rightarrow> js_error + jsval list" where
  "positions_of P cat =
     bindE (with_position P cat) (mapE (\<lambda>k. get2 k ''performance_metrics'' ''position''))"

text \<open>\<^verbatim>\<open>totalWithPosition\<close> and \<^verbatim>\<open>avgPosition\<close>, from the array of the categories\<close>

definition totalWithPosition :: "runtime \<Rightarrow> jsval list \<Rightarrow> js_error + nat" where
  "totalWithPosition P cats = bindE (mapE (with_position P) cats) (\<lambda>kss. Inr (length (concat kss)))"

definition avgPosition :: "runtime \<Rightarrow> jsval list \<Rightarrow> nat \<Rightarrow> js_error + jsval" where
  "avgPosition P cats cnt =
     (if cnt > 0
      then bindE (mapE (positions_of P) cats) (\<lambda>pss.
           bindE (foldE (js_add P) (JNum (Finite 0)) (concat pss)) (\<lambda>acc.
           bindE (to_number P acc) (\<lambda>x. Inr (JNum (number_divide x (Finite (of_nat cnt)))))))
      else Inr JNull)"

text \<open>The line of the average position in the summary: present when \<^verbatim>\<open>avgPosition\<close> is truthy.\<close>

definition average_line :: "runtime \<Rightarrow> jsval \<Rightarrow> js_error + string" where
  "average_line P avg =
     (if truthy avg
      then bindE (to_fixed_method P ''avgPosition'' 1 avg) (\<lambda>s. Inr (([CHR 0xE2, CHR 0x80, CHR 0xA2] @ '' Position moyenne : #'') @ s @ nl))
      else Inr [])"

definition format_no_gsc_data :: "runtime \<Rightarrow> string \<Rightarrow> string \<Rightarrow> string \<Rightarrow> jsval \<Rightarrow> js_error + string" where
  "format_no_gsc_data P period cause structure result =
     interp
       [Inr ([CHR 0xF0, CHR 0x9F, CHR 0x93, CHR 0x82] @ '' **MOTS-CL'' @ [CHR 0xC3, CHR 0x89] @ ''S PAR CAT'' @ [CHR 0xC3, CHR 0x89] @ ''GORIES - SITE #''), tpl P result ''website_id'', Inr (''**'' @ [CHR 0x0A, CHR 0x0A]),
        Inr ([CHR 0xE2, CHR 0x9A, CHR 0xA0, CHR 0xEF, CHR 0xB8, CHR 0x8F] @ '' **Donn'' @ [CHR 0xC3, CHR 0xA9] @ ''es GSC non disponibles**'' @ [CHR 0x0A, CHR 0x0A]),
        Inr period, tpl P result ''period_days'', Inr ('' jours'' @ [CHR 0x0A]),
        Inr ([CHR 0xF0, CHR 0x9F, CHR 0x93, CHR 0x88] @ '' **Total mots-cl'' @ [CHR 0xC3, CHR 0xA9] @ ''s :** ''),
        bindE (get2 result ''summary'' ''total_keywords'') (to_str P), Inr nl,
        Inr ([CHR 0xF0, CHR 0x9F, CHR 0x97, CHR 0x82, CHR 0xEF, CHR 0xB8, CHR 0x8F] @ '' **Cat'' @ [CHR 0xC3, CHR 0xA9] @ ''gories :** ''),
        bindE (get2 result ''summary'' ''total_categories'') (to_str P), Inr [CHR 0x0A, CHR 0x0A],
        Inr cause,
        Inr structure,
        bindE (get result ''categories'') (\<lambda>cs.
        bindE (as_array ''result.categories'' ''map'' cs) (\<lambda>cl.
        bindE (mapE (structure_line P) cl) (\<lambda>ls. Inr (join_with nl ls))))]"

definition format_list_keywords_by_categories_by_website :: formatter where
  "format_list_keywords_by_categories_by_website P result data =
     bindE (get result ''has_gsc_data'') (\<lambda>has_gsc_data.
       if \<not> truthy has_gsc_data
       then format_no_gsc_data P ([CHR 0xF0, CHR 0x9F, CHR 0x93, CHR 0x8A] @ '' **P'' @ [CHR 0xC3, CHR 0xA9] @ ''riode :** '')
              ([CHR 0xF0, CHR 0x9F, CHR 0x92, CHR 0xA1] @ '' **Cause :** Pas de propri'' @ [CHR 0xC3, CHR 0xA9] @ ''t'' @ [CHR 0xC3, CHR 0xA9] @ '' Google Search Console associ'' @ [CHR 0xC3, CHR 0xA9] @ ''e.'' @ [CHR 0x0A, CHR 0x0A])
              ([CHR 0xF0, CHR 0x9F, CHR 0x93, CHR 0x8B] @ '' **Structure :**'' @ [CHR 0x0A]) result
       else
         bindE (get result ''categories'') (\<lambda>cs.
         bindE (as_array ''result.categories'' ''map'' cs) (\<lambda>cats.
         bindE (mapE (category_block P labels_v2 result) cats) (\<lambda>blocks.
         bindE (totalWithPosition P cats) (\<lambda>cnt.
         bindE (avgPosition P cats cnt) (\<lambda>avg.
           interp
             [Inr ([CHR 0xF0, CHR 0x9F, CHR 0x93, CHR 0x82] @ '' **MOTS-CL'' @ [CHR 0xC3, CHR 0x89] @ ''S PAR CAT'' @ [CHR 0xC3, CHR 0x89] @ ''GORIES - SITE #''), tpl P result ''website_id'', Inr (''**'' @ [CHR 0x0A, CHR 0x0A]),
              Inr ([CHR 0xF0, CHR 0x9F, CHR 0x93, CHR 0x85] @ '' **P'' @ [CHR 0xC3, CHR 0xA9] @ ''riode :** ''), tpl P result ''period_days'', Inr ('' jours'' @ [CHR 0x0A]),
              Inr ([CHR 0xF0, CHR 0x9F, CHR 0x93, CHR 0x8A] @ '' **M'' @ [CHR 0xC3, CHR 0xA9] @ ''triques GSC :** ''),
              bindE (get result ''include_performance'') (\<lambda>ip.
                Inr (if truthy ip then ''Incluses'' else (''D'' @ [CHR 0xC3, CHR 0xA9] @ ''sactiv'' @ [CHR 0xC3, CHR 0xA9] @ ''es''))), Inr [CHR 0x0A, CHR 0x0A],
              Inr ([CHR 0xF0, CHR 0x9F, CHR 0x93, CHR 0x88] @ '' **R'' @ [CHR 0xC3, CHR 0xA9] @ ''sum'' @ [CHR 0xC3, CHR 0xA9] @ '' :**'' @ [CHR 0x0A]),
              Inr ([CHR 0xE2, CHR 0x80, CHR 0xA2] @ '' Total mots-cl'' @ [CHR 0xC3, CHR 0xA9] @ ''s : ''),
              bindE (get2 result ''summary'' ''total_keywords'')
                (to_locale_string P ''result.summary.total_keywords''), Inr nl,
              Inr ([CHR 0xE2, CHR 0x80, CHR 0xA2] @ '' Cat'' @ [CHR 0xC3, CHR 0xA9] @ ''gories : ''),
              bindE (get2 result ''summary'' ''total_categories'') (to_str P), Inr nl,
              Inr ([CHR 0xE2, CHR 0x80, CHR 0xA2] @ '' Non cat'' @ [CHR 0xC3, CHR 0xA9] @ ''goris'' @ [CHR 0xC3, CHR 0xA9] @ ''s : ''),
              bindE (get2 result ''summary'' ''uncategorized_keywords'') (to_str P), Inr nl,
              Inr ([CHR 0xE2, CHR 0x80, CHR 0xA2] @ '' Avec position GSC : ''), Inr (nat_str cnt), Inr nl,
              average_line P avg,
              Inr nl, Inr (concat blocks), Inr nl,
              Inr ([CHR 0xF0, CHR 0x9F, CHR 0x93, CHR 0x85] @ '' **MAJ :** ''), bindE (get result ''last_updated'') (date_locale P), Inr [CHR 0x0A, CHR 0x0A],
              Inr ([CHR 0xF0, CHR 0x9F, CHR 0x92, CHR 0xA1] @ '' **Astuce :** Identifiez vos th'' @ [CHR 0xC3, CHR 0xA9] @ ''matiques SEO les plus performantes !'')]))))))"

definition format_get_keywords_by_categories :: formatter where
  "format_get_keywords_by_categories P result data =
     bindE (get result ''has_gsc_data'') (\<lambda>has_gsc_data.
       if \<not> truthy has_gsc_data
       then format_no_gsc_data P ([CHR 0xF0, CHR 0x9F, CHR 0x93, CHR 0x8A] @ '' **P'' @ [CHR 0xC3, CHR 0xA9] @ ''riode analys'' @ [CHR 0xC3, CHR 0xA9] @ ''e :** '')
              ([CHR 0xF0, CHR 0x9F, CHR 0x92, CHR 0xA1] @ '' **Cause :** Pas de propri'' @ [CHR 0xC3, CHR 0xA9] @ ''t'' @ [CHR 0xC3, CHR 0xA9] @ '' Google Search Console associ'' @ [CHR 0xC3, CHR 0xA9] @ ''e au site.'' @ [CHR 0x0A, CHR 0x0A])
              ([CHR 0xF0, CHR 0x9F, CHR 0x93, CHR 0x8B] @ '' **Structure disponible :**'' @ [CHR 0x0A]) result
       else
         bindE (get result ''categories'') (\<lambda>cs.
         bindE (as_array ''result.categories'' ''map'' cs) (\<lambda>cats.
         bindE (mapE (category_block P labels_v1 result) cats) (\<lambda>blocks.
         bindE (totalWithPosition P cats) (\<lambda>cnt.
         bindE (avgPosition P cats cnt) (\<lambda>avg.
           interp
             [Inr ([CHR 0xF0, CHR 0x9F, CHR 0x93, CHR 0x82] @ '' **MOTS-CL'' @ [CHR 0xC3, CHR 0x89] @ ''S PAR CAT'' @ [CHR 0xC3, CHR 0x89] @ ''GORIES - SITE #''), tpl P result ''website_id'', Inr (''**'' @ [CHR 0x0A, CHR 0x0A]),
              Inr ([CHR 0xF0, CHR 0x9F, CHR 0x93, CHR 0x85] @ '' **P'' @ [CHR 0xC3, CHR 0xA9] @ ''riode analys'' @ [CHR 0xC3, CHR 0xA9] @ ''e :** ''), tpl P result ''period_days'', Inr ('' jours'' @ [CHR 0x0A]),
              Inr ([CHR 0xF0, CHR 0x9F, CHR 0x93, CHR 0x8A] @ '' **M'' @ [CHR 0xC3, CHR 0xA9] @ ''triques GSC :** ''),
              bindE (get result ''include_performance'') (\<lambda>ip.
                Inr (if truthy ip then ''Incluses'' else (''D'' @ [CHR 0xC3, CHR 0xA9] @ ''sactiv'' @ [CHR 0xC3, CHR 0xA9] @ ''es''))), Inr [CHR 0x0A, CHR 0x0A],
              Inr ([CHR 0xF0, CHR 0x9F, CHR 0x93, CHR 0x88] @ '' **R'' @ [CHR 0xC3, CHR 0xA9] @ ''sum'' @ [CHR 0xC3, CHR 0xA9] @ '' global :**'' @ [CHR 0x0A]),
              Inr ([CHR 0xE2, CHR 0x80, CHR 0xA2] @ '' Total mots-cl'' @ [CHR 0xC3, CHR 0xA9] @ ''s : ''),
              bindE (get2 result ''summary'' ''total_keywords'')
                (to_locale_string P ''result.summary.total_keywords''), Inr nl,
              Inr ([CHR 0xE2, CHR 0x80, CHR 0xA2] @ '' Cat'' @ [CHR 0xC3, CHR 0xA9] @ ''gories : ''),
              bindE (get2 result ''summary'' ''total_categories'') (to_str P), Inr nl,
              Inr ([CHR 0xE2, CHR 0x80, CHR 0xA2] @ '' Non cat'' @ [CHR 0xC3, CHR 0xA9] @ ''goris'' @ [CHR 0xC3, CHR 0xA9] @ ''s : ''),
              bindE (get2 result ''summary'' ''uncategorized_keywords'') (to_str P), Inr nl,
              Inr ([CHR 0xE2, CHR 0x80, CHR 0xA2] @ '' Avec position GSC : ''), Inr (nat_str cnt), Inr nl,
              average_line P avg,
              Inr nl, Inr (concat blocks), Inr nl,
              Inr ([CHR 0xF0, CHR 0x9F, CHR 0x93, CHR 0x85] @ '' **Derni'' @ [CHR 0xC3, CHR 0xA8] @ ''re mise '' @ [CHR 0xC3, CHR 0xA0] @ '' jour :** ''), bindE (get result ''last_updated'') (date_locale P),
              Inr [CHR 0x0A, CHR 0x0A],
              Inr ([CHR 0xF0, CHR 0x9F, CHR 0x92, CHR 0xA1] @ '' **Astuce :** Utilisez ces donn'' @ [CHR 0xC3, CHR 0xA9] @ ''es pour identifier vos th'' @ [CHR 0xC3, CHR 0xA9] @ ''matiques SEO les plus performantes !'')]))))))"

subsection \<open>\<^verbatim>\<open>get_website_performance_summary\<close>, server version 2.0.0\<close>

definition top_keyword_line :: "runtime \<Rightarrow> jsval \<Rightarrow> js_error + string" where
  "top_keyword_line P k =
     interp [Inr ([CHR 0xE2, CHR 0x80, CHR 0xA2] @ '' ''), tpl P k ''keyword'', Inr '' (#'',
             bindE (get k ''position'') (to_fixed_method P ''k.position'' 1), Inr '', '',
             tpl P k ''clicks'', Inr '' clics)'']"

text \<open>\<^verbatim>\<open>result.top_performing_keywords?.map(...).join('\n') || fallback\<close>\<close>

definition top_keywords :: "(jsval \<Rightarrow> js_error + string) \<Rightarrow> string \<Rightarrow> jsval \<Rightarrow> js_error + string" where
  "top_keywords line fallback result =
     bindE (get result ''top_performing_keywords'') (\<lambda>tk.
     bindE (if nullish tk then Inr []
            else bindE (as_array ''result.top_performing_keywords?'' ''map'' tk) (\<lambda>l.
                 bindE (mapE line l) (\<lambda>ls. Inr (join_with nl ls)))) (\<lambda>j.
       Inr (if j = [] then fallback else j)))"

text \<open>\<^verbatim>\<open>result.period_days || result.period?.days || 'N/A'\<close>\<close>

definition period_or_na :: "runtime \<Rightarrow> jsval \<Rightarrow> js_error + string" where
  "period_or_na P result =
     bindE (get result ''period_days'') (\<lambda>pd.
       if truthy pd then to_str P pd
       else bindE (get result ''period'') (\<lambda>p.
            bindE (get_opt p ''days'') (\<lambda>d. to_str P (or_else d (JStr ''N/A'')))))"

definition date_info :: "runtime \<Rightarrow> jsval \<Rightarrow> js_error + string" where
  "date_info P result =
     bindE (get result ''period'') (\<lambda>per.
       if truthy per
       then
         bindE (interp [Inr ([CHR 0xF0, CHR 0x9F, CHR 0x93, CHR 0x85] @ '' **P'' @ [CHR 0xC3, CHR 0xA9] @ ''riode :** du ''), tpl P per ''start_date'', Inr '' au '',
                        tpl P per ''end_date'', Inr '' ('', tpl P per ''days'', Inr '' jours)'']) (\<lambda>d1.
         bindE (get result ''compare_period'') (\<lambda>cp.
           if truthy cp
           then bindE (interp [Inr ([CHR 0x0A, CHR 0xF0, CHR 0x9F, CHR 0x93, CHR 0x85] @ '' **Comparaison :** du ''), tpl P cp ''start_date'',
                               Inr '' au '', tpl P cp ''end_date'']) (\<lambda>d2. Inr (d1 @ d2))
           else Inr d1))
       else interp [Inr ([CHR 0xF0, CHR 0x9F, CHR 0x93, CHR 0x85] @ '' **P'' @ [CHR 0xC3, CHR 0xA9] @ ''riode :** ''), tpl P result ''period_days'', Inr '' jours''])"

definition evolution_text :: "runtime \<Rightarrow> jsval \<Rightarrow> js_error + string" where
  "evolution_text P evol =
     bindE (js_gt P evol 0) (\<lambda>up.
       if up then bindE (to_str P evol) (\<lambda>s. Inr (([CHR 0xF0, CHR 0x9F, CHR 0x93, CHR 0x88] @ '' +'') @ s))
       else bindE (js_lt P evol 0) (\<lambda>down.
              if down then bindE (to_str P evol) (\<lambda>s. Inr (([CHR 0xF0, CHR 0x9F, CHR 0x93, CHR 0x89] @ '' '') @ s))
              else Inr ([CHR 0xE2, CHR 0x9E, CHR 0xA1, CHR 0xEF, CHR 0xB8, CHR 0x8F] @ '' ='')))"

text \<open>The evolution in percent of a metric: \<^verbatim>\<open>undefined !== null\<close> holds, and
  \<^verbatim>\<open>toFixed\<close> then throws.\<close>

definition evolution_percent :: "runtime \<Rightarrow> jsval \<Rightarrow> js_error + string" where
  "evolution_percent P evol =
     (if evol \<noteq> JNull
      then bindE (js_ge P evol 0) (\<lambda>ge.
           bindE (to_fixed_method P ''evol'' 1 evol) (\<lambda>f.
             Inr ('' ('' @ (if ge then ''+'' else []) @ f @ ''%)'')))
      else Inr [])"

definition summary_category :: "runtime \<Rightarrow> nat \<times> jsval \<Rightarrow> js_error + string" where
  "summary_category P ic =
     (let index = fst ic; cat = snd ic in
      interp
        [Inr ''**'', Inr (nat_str (index + 1)), Inr ''. '', tpl P cat ''category_name'', Inr ''** ('',
         tpl P cat ''keywords_count'', Inr ('' mots-cl'' @ [CHR 0xC3, CHR 0xA9] @ ''s)'' @ [CHR 0x0A]),
         Inr (''   '' @ [CHR 0xE2, CHR 0x80, CHR 0xA2] @ '' Position moyenne : ''),
         bindE (get3 cat ''metrics'' ''position'' ''current'') (\<lambda>c.
           if truthy c then bindE (to_str P c) (\<lambda>s. Inr (''#'' @ s)) else Inr ''N/A''),
         bindE (get3 cat ''metrics'' ''position'' ''compare'') (\<lambda>cmp.
           if truthy cmp
           then bindE (get3 cat ''metrics'' ''position'' ''evolution'') (\<lambda>evol.
                  if truthy evol
                  then bindE (evolution_text P evol) (\<lambda>t.
                         Inr ('' ('' @ t @ ('' vs p'' @ [CHR 0xC3, CHR 0xA9] @ ''riode pr'' @ [CHR 0xC3, CHR 0xA9] @ ''c'' @ [CHR 0xC3, CHR 0xA9] @ ''dente)'')))
                  else Inr [])
           else Inr []),
         Inr ([CHR 0x0A] @ ''   '' @ [CHR 0xE2, CHR 0x80, CHR 0xA2] @ '' Clics : ''), bindE (get3 cat ''metrics'' ''clicks'' ''current'') (to_str P),
         bindE (get3 cat ''metrics'' ''clicks'' ''evolution_percent'') (evolution_percent P),
         Inr ([CHR 0x0A] @ ''   '' @ [CHR 0xE2, CHR 0x80, CHR 0xA2] @ '' Impressions : ''),
         bindE (get3 cat ''metrics'' ''impressions'' ''current'')
           (to_locale_string P ''cat.metrics.impressions.current''),
         bindE (get3 cat ''metrics'' ''impressions'' ''evolution_percent'') (evolution_percent P),
         bindE (get cat ''top_keywords'') (\<lambda>tk.
         bindE (nonempty P tk) (\<lambda>ne.
           if ne
           then bindE (slice_map ''cat.top_keywords'' 3 tk) (\<lambda>l.
                bindE (mapE (\<lambda>k. get k ''keyword'') l) (\<lambda>ks.
                bindE (join_values P '', '' ks) (\<lambda>j. Inr (([CHR 0x0A] @ ''   '' @ [CHR 0xF0, CHR 0x9F, CHR 0x8F, CHR 0x86] @ '' Top mots-cl'' @ [CHR 0xC3, CHR 0xA9] @ ''s : '') @ j))))
           else Inr [])),
         Inr [CHR 0x0A, CHR 0x0A]])"

definition categories_section :: "runtime \<Rightarrow> jsval \<Rightarrow> js_error + string" where
  "categories_section P result =
     bindE (get result ''categories'') (\<lambda>cats.
     bindE (nonempty P cats) (\<lambda>ne.
       if ne
       then bindE (as_array ''result.categories'' ''forEach'' cats) (\<lambda>cl.
            bindE (mapE (summary_category P) (enumerate 0 cl)) (\<lambda>blocks.
              Inr (([CHR 0x0A, CHR 0x0A, CHR 0xF0, CHR 0x9F, CHR 0x93, CHR 0x82] @ '' **PERFORMANCES PAR CAT'' @ [CHR 0xC3, CHR 0x89] @ ''GORIE :**'' @ [CHR 0x0A, CHR 0x0A]) @ concat blocks)))
       else Inr []))"

definition formatMetric :: "runtime \<Rightarrow> jsval \<Rightarrow> js_error + jsval" where
  "formatMetric P metric =
     (case metric of
        JNum x \<Rightarrow> bindE (to_locale_string P ''metric'' metric) (\<lambda>s. Inr (JStr s))
      | _ \<Rightarrow>
          if is_object metric
          then bindE (get metric ''current'') (\<lambda>c.
                 if c \<noteq> JUndef
                 then bindE (to_locale_string P ''metric.current'' c) (\<lambda>t.
                      bindE (get metric ''evolution_text'') (\<lambda>e.
                        if truthy e
                        then bindE (to_str P e) (\<lambda>es. Inr (JStr (t @ '' ('' @ es @ '')'')))
                        else Inr (JStr t)))
                 else Inr metric)
          else Inr metric)"

text \<open>\<^verbatim>\<open>(v * 100).toFixed(2)\<close>\<close>

definition percent2 :: "runtime \<Rightarrow> jsval \<Rightarrow> js_error + string" where
  "percent2 P v = bindE (to_number P v) (\<lambda>x. Inr (to_fixed P 2 (number_multiply x (Finite 100))))"

definition evolution_suffix :: "runtime \<Rightarrow> jsval \<Rightarrow> js_error + string" where
  "evolution_suffix P m =
     bindE (get m ''evolution_text'') (\<lambda>e.
       if truthy e then bindE (to_str P e) (\<lambda>s. Inr ('' ('' @ s @ '')'')) else Inr [])"

definition average_position_text :: "runtime \<Rightarrow> jsval \<Rightarrow> js_error + string" where
  "average_position_text P result =
     bindE (get2 result ''overall_metrics'' ''average_position'') (\<lambda>ap.
       if truthy ap
       then (if is_object ap
             then interp [Inr ''#'', tpl P ap ''current'', evolution_suffix P ap]
             else interp [Inr ''#'', to_str P ap])
       else Inr ''N/A'')"

definition average_ctr_text :: "runtime \<Rightarrow> jsval \<Rightarrow> js_error + string" where
  "average_ctr_text P result =
     bindE (get2 result ''overall_metrics'' ''average_ctr'') (\<lambda>ac.
       if truthy ac
       then (if is_object ac
             then interp [bindE (get ac ''current'') (percent2 P), Inr ''%'', evolution_suffix P ac]
             else interp [percent2 P ac, Inr ''%''])
       else Inr ''N/A'')"

definition position_distribution :: "runtime \<Rightarrow> jsval \<Rightarrow> string \<Rightarrow> js_error + string" where
  "position_distribution P result k =
     bindE (get3 result ''performance_changes'' ''position_distribution'' k) (to_str P)"

definition distribution_lines :: "runtime \<Rightarrow> jsval \<Rightarrow> (js_error + string) list" where
  "distribution_lines P result =
     [Inr ([CHR 0xF0, CHR 0x9F, CHR 0x93, CHR 0x88] @ '' **Distribution des positions :**'' @ [CHR 0x0A]),
      Inr ([CHR 0xE2, CHR 0x80, CHR 0xA2] @ '' Top 3 : ''), position_distribution P result ''top3'', Inr ('' mots-cl'' @ [CHR 0xC3, CHR 0xA9] @ ''s'' @ [CHR 0x0A]),
      Inr ([CHR 0xE2, CHR 0x80, CHR 0xA2] @ '' Top 10 : ''), position_distribution P result ''top10'', Inr ('' mots-cl'' @ [CHR 0xC3, CHR 0xA9] @ ''s'' @ [CHR 0x0A]),
      Inr ([CHR 0xE2, CHR 0x80, CHR 0xA2] @ '' Top 20 : ''), position_distribution P result ''top20'', Inr ('' mots-cl'' @ [CHR 0xC3, CHR 0xA9] @ ''s'' @ [CHR 0x0A]),
      Inr ([CHR 0xE2, CHR 0x80, CHR 0xA2] @ '' Top 50 : ''), position_distribution P result ''top50'', Inr ('' mots-cl'' @ [CHR 0xC3, CHR 0xA9] @ ''s'' @ [CHR 0x0A]),
      Inr ([CHR 0xE2, CHR 0x80, CHR 0xA2] @ '' Top 100 : ''), position_distribution P result ''top100'', Inr ('' mots-cl'' @ [CHR 0xC3, CHR 0xA9] @ ''s'' @ [CHR 0x0A, CHR 0x0A])]"

definition format_get_website_performance_summary :: formatter where
  "format_get_website_performance_summary P result data =
     bindE (get result ''has_data'') (\<lambda>has_data.
       if \<not> truthy has_data
       then
         interp
           [Inr ([CHR 0xF0, CHR 0x9F, CHR 0x8C, CHR 0x90] @ '' **TABLEAU DE BORD SEO - SITE #''), tpl P result ''website_id'', Inr (''**'' @ [CHR 0x0A, CHR 0x0A]),
            Inr ([CHR 0xE2, CHR 0x9A, CHR 0xA0, CHR 0xEF, CHR 0xB8, CHR 0x8F] @ '' **Aucune donn'' @ [CHR 0xC3, CHR 0xA9] @ ''e disponible**'' @ [CHR 0x0A, CHR 0x0A]),
            Inr ([CHR 0xF0, CHR 0x9F, CHR 0x93, CHR 0x8A] @ '' **P'' @ [CHR 0xC3, CHR 0xA9] @ ''riode :** ''), period_or_na P result, Inr ('' jours'' @ [CHR 0x0A]),
            Inr ([CHR 0xF0, CHR 0x9F, CHR 0x93, CHR 0x88] @ '' **Mots-cl'' @ [CHR 0xC3, CHR 0xA9] @ ''s :** ''),
            bindE (get2 result ''overall_metrics'' ''total_keywords'') (to_str P), Inr [CHR 0x0A, CHR 0x0A],
            Inr ([CHR 0xF0, CHR 0x9F, CHR 0x92, CHR 0xA1] @ '' **Cause :** Pas de propri'' @ [CHR 0xC3, CHR 0xA9] @ ''t'' @ [CHR 0xC3, CHR 0xA9] @ '' GSC ou donn'' @ [CHR 0xC3, CHR 0xA9] @ ''es non disponibles.'')]
       else
         bindE (top_keywords (top_keyword_line P) ''Aucun'' result) (\<lambda>topKeywords.
         bindE (date_info P result) (\<lambda>dateInfo.
         bindE (categories_section P result) (\<lambda>categoriesSection.
           interp
             ([Inr ([CHR 0xF0, CHR 0x9F, CHR 0x8C, CHR 0x90] @ '' **TABLEAU DE BORD SEO - SITE #''), tpl P result ''website_id'', Inr (''**'' @ [CHR 0x0A, CHR 0x0A]),
               Inr dateInfo, Inr [CHR 0x0A, CHR 0x0A],
               Inr ([CHR 0xF0, CHR 0x9F, CHR 0x93, CHR 0x8A] @ '' **M'' @ [CHR 0xC3, CHR 0xA9] @ ''triques globales :**'' @ [CHR 0x0A]),
               Inr ([CHR 0xE2, CHR 0x80, CHR 0xA2] @ '' Mots-cl'' @ [CHR 0xC3, CHR 0xA9] @ ''s suivis : ''),
               bindE (get2 result ''overall_metrics'' ''total_keywords'') (to_str P), Inr nl,
               Inr ([CHR 0xE2, CHR 0x80, CHR 0xA2] @ '' Total clics : ''),
               bindE (get2 result ''overall_metrics'' ''total_clicks'') (\<lambda>m.
                 bindE (formatMetric P m) (to_str P)), Inr nl,
               Inr ([CHR 0xE2, CHR 0x80, CHR 0xA2] @ '' Total impressions : ''),
               bindE (get2 result ''overall_metrics'' ''total_impressions'') (\<lambda>m.
                 bindE (formatMetric P m) (to_str P)), Inr nl,
               Inr ([CHR 0xE2, CHR 0x80, CHR 0xA2] @ '' Position moyenne : ''), average_position_text P result, Inr nl,
               Inr ([CHR 0xE2, CHR 0x80, CHR 0xA2] @ '' CTR moyen : ''), average_ctr_text P result, Inr [CHR 0x0A, CHR 0x0A]]
              @ distribution_lines P result
              @ [Inr ([CHR 0xF0, CHR 0x9F, CHR 0x8F, CHR 0x86] @ '' **Top performeurs :**'' @ [CHR 0x0A]), Inr topKeywords, Inr categoriesSection])))))"

section \<open>The schemas and the dispatch of server version 2.0.0\<close>

definition ListWebsitesByUserArgsSchema :: zod_object where
  "ListWebsitesByUserArgsSchema = []"

definition ListCategoriesByWebsiteArgsSchema :: zod_object where
  "ListCategoriesByWebsiteArgsSchema = [(''website_id'', ZNumber)]"

definition ListKeywordsByWebsiteArgsSchema :: zod_object where
  "ListKeywordsByWebsiteArgsSchema =
     [(''website_id'', ZNumber),
      (''include_metrics'', ZDefault (ZOptional ZBoolean) (JBool False))]"

definition ListKeywordsByCategoriesByWebsiteArgsSchema :: zod_object where
  "ListKeywordsByCategoriesByWebsiteArgsSchema =
     [(''website_id'', ZNumber),
      (''include_performance'', ZDefault (ZOptional ZBoolean) (JBool True)),
      (''days'', ZDefault (ZOptional ZNumber) (JNum (Finite 30)))]"

definition WebsiteSummaryArgsSchema :: zod_object where
  "WebsiteSummaryArgsSchema =
     [(''website_id'', ZNumber),
      (''period'', ZDefault (ZOptional ZString) (JStr ''30days'')),
      (''start_date'', ZOptional ZString),
      (''end_date'', ZOptional ZString),
      (''compare_start_date'', ZOptional ZString),
      (''compare_end_date'', ZOptional ZString)]"

text \<open>The declared tools: name, argument schema, formatter.\<close>

definition tools :: "(string \<times> zod_object \<times> formatter) list" where
  "tools =
     [(''list_websites_by_user'', ListWebsitesByUserArgsSchema, format_list_websites_by_user),
      (''list_categories_by_website'', ListCategoriesByWebsiteArgsSchema,
         format_list_categories_by_website),
      (''list_keywords_by_website'', ListKeywordsByWebsiteArgsSchema,
         format_list_keywords_by_website),
      (''list_keywords_by_categories_by_website'', ListKeywordsByCategoriesByWebsiteArgsSchema,
         format_list_keywords_by_categories_by_website),
      (''get_website_performance_summary'', WebsiteSummaryArgsSchema,
         format_get_website_performance_summary)]"

text \<open>The body of the \<^verbatim>\<open>try\<close>: the \<^verbatim>\<open>switch\<close> on the name of the tool, with
  \<^verbatim>\<open>default: throw new Error(`Outil inconnu: ${name}`)\<close>.\<close>

definition dispatch ::
  "(string \<times> zod_object \<times> formatter) list \<Rightarrow> (string \<times> string) list \<Rightarrow>
     runtime \<Rightarrow> world \<Rightarrow> tool_request \<Rightarrow> (js_error + string) \<times> http_request list" where
  "dispatch ts table P W request =
     (case map_of ts (name request) of
        Some (shape, fmt) \<Rightarrow> tool_case P W table (name request) shape fmt (arguments request)
      | None \<Rightarrow> (Inl (Error (''Outil inconnu: '' @ name request)), []))"

section \<open>The formatters and the schemas of server version 1.1.3\<close>

text \<open>\<^verbatim>\<open>${v.k > 0 ? '+' : ''}${v.k}\<close>\<close>

definition signed_tpl :: "runtime \<Rightarrow> jsval \<Rightarrow> string \<Rightarrow> js_error + string" where
  "signed_tpl P v k =
     bindE (get v k) (\<lambda>c.
     bindE (js_gt P c 0) (\<lambda>up.
     bindE (to_str P c) (\<lambda>s. Inr ((if up then ''+'' else []) @ s))))"

definition format_analyze_keyword_performance :: formatter where
  "format_analyze_keyword_performance P result data =
     interp
       [Inr ([CHR 0xF0, CHR 0x9F, CHR 0x94, CHR 0x8D] @ '' **ANALYSE COMPL'' @ [CHR 0xC3, CHR 0x88] @ ''TE DU MOT-CL'' @ [CHR 0xC3, CHR 0x89] @ '' '' @ [CHR 0x22]),
        bindE (get data ''keyword'') (to_upper_case_method P ''parsed.data.keyword''), Inr ([CHR 0x22] @ ''**'' @ [CHR 0x0A, CHR 0x0A]),
        Inr ([CHR 0xF0, CHR 0x9F, CHR 0x93, CHR 0x8A] @ '' **M'' @ [CHR 0xC3, CHR 0xA9] @ ''triques actuelles :**'' @ [CHR 0x0A]),
        Inr ([CHR 0xE2, CHR 0x80, CHR 0xA2] @ '' Position actuelle : #''), tpl P result ''current_position'', Inr nl,
        Inr ([CHR 0xE2, CHR 0x80, CHR 0xA2] @ '' Volume de recherche : ''),
        bindE (get result ''search_volume'') (to_locale_string P ''result.search_volume''), Inr ('' recherches/mois'' @ [CHR 0x0A]),
        Inr ([CHR 0xE2, CHR 0x80, CHR 0xA2] @ '' Difficult'' @ [CHR 0xC3, CHR 0xA9] @ '' SEO : ''), tpl P result ''difficulty_score'', Inr (''/100'' @ [CHR 0x0A]),
        Inr ([CHR 0xE2, CHR 0x80, CHR 0xA2] @ '' Trafic estim'' @ [CHR 0xC3, CHR 0xA9] @ '' : ''),
        bindE (get result ''estimated_traffic'') (to_locale_string P ''result.estimated_traffic''), Inr ('' visites/mois'' @ [CHR 0x0A]),
        Inr ([CHR 0xE2, CHR 0x80, CHR 0xA2] @ '' Niveau de concurrence : ''), tpl P result ''competition_level'', Inr nl,
        Inr ([CHR 0xE2, CHR 0x80, CHR 0xA2] @ '' Tendance : ''), tpl P result ''trend'', Inr [CHR 0x0A, CHR 0x0A],
        Inr ([CHR 0xF0, CHR 0x9F, CHR 0x93, CHR 0x85] @ '' **Derni'' @ [CHR 0xC3, CHR 0xA8] @ ''re mise '' @ [CHR 0xC3, CHR 0xA0] @ '' jour :** ''), bindE (get result ''last_updated'') (date_locale P),
        Inr nl,
        Inr ([CHR 0xF0, CHR 0x9F, CHR 0x8C, CHR 0x90] @ '' **Site web ID :** ''), tpl P result ''website_id'']"

definition historical_line :: "runtime \<Rightarrow> jsval \<Rightarrow> js_error + string" where
  "historical_line P p =
     interp [tpl P p ''date'', Inr '': Position #'', tpl P p ''position'', Inr '' ('',
             tpl P p ''clicks'', Inr '' clics, '', tpl P p ''impressions'', Inr '' impressions)'']"

definition format_get_position_evolution :: formatter where
  "format_get_position_evolution P result data =
     bindE (get result ''historical_positions'') (\<lambda>hp.
     bindE (as_array ''result.historical_positions'' ''map'' hp) (\<lambda>hl.
     bindE (mapE (historical_line P) hl) (\<lambda>lines.
       interp
         [Inr ([CHR 0xF0, CHR 0x9F, CHR 0x93, CHR 0x88] @ '' **'' @ [CHR 0xC3, CHR 0x89] @ ''VOLUTION DES POSITIONS - '' @ [CHR 0x22]),
          bindE (get data ''keyword'') (to_upper_case_method P ''parsed.data.keyword''), Inr ([CHR 0x22] @ ''**'' @ [CHR 0x0A, CHR 0x0A]),
          Inr ([CHR 0xE2, CHR 0x8F, CHR 0xB1, CHR 0xEF, CHR 0xB8, CHR 0x8F] @ '' **P'' @ [CHR 0xC3, CHR 0xA9] @ ''riode analys'' @ [CHR 0xC3, CHR 0xA9] @ ''e :** ''), tpl P result ''period'', Inr nl,
          Inr ([CHR 0xF0, CHR 0x9F, CHR 0x93, CHR 0x8A] @ '' **Statistiques :**'' @ [CHR 0x0A]),
          Inr ([CHR 0xE2, CHR 0x80, CHR 0xA2] @ '' Meilleure position : #''), tpl P result ''best_position'', Inr nl,
          Inr ([CHR 0xE2, CHR 0x80, CHR 0xA2] @ '' Position moyenne : #''), tpl P result ''average_position'', Inr nl,
          Inr ([CHR 0xE2, CHR 0x80, CHR 0xA2] @ '' '' @ [CHR 0xC3, CHR 0x89] @ ''volution r'' @ [CHR 0xC3, CHR 0xA9] @ ''cente : ''), signed_tpl P result ''position_change'',
          Inr ('' positions'' @ [CHR 0x0A, CHR 0x0A]),
          Inr ([CHR 0xF0, CHR 0x9F, CHR 0x93, CHR 0x85] @ '' **Historique d'' @ [CHR 0xC3, CHR 0xA9] @ ''taill'' @ [CHR 0xC3, CHR 0xA9] @ '' :**'' @ [CHR 0x0A]), Inr (join_with nl lines), Inr [CHR 0x0A, CHR 0x0A],
          Inr ([CHR 0xF0, CHR 0x9F, CHR 0x8C, CHR 0x90] @ '' **Site web ID :** ''), tpl P result ''website_id''])))"

definition comparison_line :: "runtime \<Rightarrow> jsval \<Rightarrow> js_error + string" where
  "comparison_line P k =
     interp [Inr ([CHR 0xE2, CHR 0x80, CHR 0xA2] @ '' **''), tpl P k ''keyword'', Inr ''**: Position #'', tpl P k ''position'',
             Inr '' | Volume: '', bindE (get k ''search_volume'') (to_locale_string P ''k.search_volume''),
             Inr '' | Trafic: '', tpl P k ''estimated_traffic'',
             Inr '' | Tendance: '', tpl P k ''trend_direction'', Inr '' ('',
             signed_tpl P k ''monthly_change'', Inr '')'']"

definition format_compare_keywords_performance :: formatter where
  "format_compare_keywords_performance P result data =
     bindE (get result ''keywords_analysis'') (\<lambda>ka.
     bindE (as_array ''result.keywords_analysis'' ''map'' ka) (\<lambda>kl.
     bindE (mapE (comparison_line P) kl) (\<lambda>lines.
       interp
         [Inr ([CHR 0xE2, CHR 0x9A, CHR 0x96, CHR 0xEF, CHR 0xB8, CHR 0x8F] @ '' **COMPARAISON DE ''), tpl P result ''total_analyzed'', Inr ('' MOTS-CL'' @ [CHR 0xC3, CHR 0x89] @ ''S**'' @ [CHR 0x0A, CHR 0x0A]),
          Inr ([CHR 0xF0, CHR 0x9F, CHR 0x93, CHR 0x8A] @ '' **Analyse comparative :**'' @ [CHR 0x0A]), Inr (join_with nl lines), Inr [CHR 0x0A, CHR 0x0A],
          Inr ([CHR 0xF0, CHR 0x9F, CHR 0x8F, CHR 0x86] @ '' **Meilleur performer :** ''), tpl P result ''best_performer'', Inr [CHR 0x0A, CHR 0x0A],
          Inr ([CHR 0xF0, CHR 0x9F, CHR 0x92, CHR 0xA1] @ '' **Recommandations :**'' @ [CHR 0x0A]),
          bindE (get result ''recommendations'') (\<lambda>rs.
          bindE (as_array ''result.recommendations'' ''map'' rs) (\<lambda>rl.
          bindE (mapE (\<lambda>r. bindE (to_str P r) (\<lambda>s. Inr (([CHR 0xE2, CHR 0x80, CHR 0xA2] @ '' '') @ s))) rl) (\<lambda>ls.
            Inr (join_with nl ls)))),
          Inr [CHR 0x0A, CHR 0x0A],
          Inr ([CHR 0xF0, CHR 0x9F, CHR 0x93, CHR 0x85] @ '' **Date d'' @ [CHR 0x27] @ ''analyse :** ''),
          bindE (get result ''comparison_date'') (date_locale_date P), Inr nl,
          Inr ([CHR 0xF0, CHR 0x9F, CHR 0x8C, CHR 0x90] @ '' **Site web ID :** ''), tpl P result ''website_id''])))"

definition top_keyword_line_v1 :: "runtime \<Rightarrow> jsval \<Rightarrow> js_error + string" where
  "top_keyword_line_v1 P k =
     interp [Inr ([CHR 0xE2, CHR 0x80, CHR 0xA2] @ '' ''), tpl P k ''keyword'', Inr '' (#'', tpl P k ''position'', Inr '', '',
             tpl P k ''clicks'', Inr '' clics)'']"

definition date_info_v1 :: "runtime \<Rightarrow> jsval \<Rightarrow> jsval \<Rightarrow> js_error + string" where
  "date_info_v1 P result data =
     bindE (interp [Inr ([CHR 0xF0, CHR 0x9F, CHR 0x93, CHR 0x85] @ '' **P'' @ [CHR 0xC3, CHR 0xA9] @ ''riode analys'' @ [CHR 0xC3, CHR 0xA9] @ ''e :** ''), tpl P result ''period_days'',
                    Inr '' jours'']) (\<lambda>dateInfo.
     bindE (get data ''start_date'') (\<lambda>sd.
     bindE (if truthy sd then bindE (get data ''end_date'') (\<lambda>ed. Inr (truthy ed))
            else Inr False) (\<lambda>both.
       if both
       then interp [Inr ([CHR 0xF0, CHR 0x9F, CHR 0x93, CHR 0x85] @ '' **P'' @ [CHR 0xC3, CHR 0xA9] @ ''riode analys'' @ [CHR 0xC3, CHR 0xA9] @ ''e :** du ''), tpl P data ''start_date'', Inr '' au '',
                    tpl P data ''end_date'', Inr '' ('', tpl P result ''period_days'',
                    Inr '' jours)'']
       else Inr dateInfo)))"

definition format_get_website_performance_summary_v1 :: formatter where
  "format_get_website_performance_summary_v1 P result data =
     bindE (get result ''has_data'') (\<lambda>has_data.
       if \<not> truthy has_data
       then
         interp
           [Inr ([CHR 0xF0, CHR 0x9F, CHR 0x8C, CHR 0x90] @ '' **TABLEAU DE BORD SEO - SITE #''), tpl P result ''website_id'', Inr (''**'' @ [CHR 0x0A, CHR 0x0A]),
            Inr ([CHR 0xE2, CHR 0x9A, CHR 0xA0, CHR 0xEF, CHR 0xB8, CHR 0x8F] @ '' **Aucune donn'' @ [CHR 0xC3, CHR 0xA9] @ ''e disponible**'' @ [CHR 0x0A, CHR 0x0A]),
            Inr ([CHR 0xF0, CHR 0x9F, CHR 0x93, CHR 0x8A] @ '' **P'' @ [CHR 0xC3, CHR 0xA9] @ ''riode analys'' @ [CHR 0xC3, CHR 0xA9] @ ''e :** ''), tpl P result ''period_days'', Inr ('' jours'' @ [CHR 0x0A]),
            Inr ([CHR 0xF0, CHR 0x9F, CHR 0x93, CHR 0x88] @ '' **Mots-cl'' @ [CHR 0xC3, CHR 0xA9] @ ''s dans la base :** ''),
            bindE (get2 result ''overall_metrics'' ''total_keywords'') (to_str P), Inr [CHR 0x0A, CHR 0x0A],
            Inr ([CHR 0xF0, CHR 0x9F, CHR 0x92, CHR 0xA1] @ '' **Cause possible :** Pas de propri'' @ [CHR 0xC3, CHR 0xA9] @ ''t'' @ [CHR 0xC3, CHR 0xA9] @ '' Google Search Console associ'' @ [CHR 0xC3, CHR 0xA9] @ ''e ou donn'' @ [CHR 0xC3, CHR 0xA9] @ ''es GSC non disponibles pour cette p'' @ [CHR 0xC3, CHR 0xA9] @ ''riode.'')]
       else
         bindE (top_keywords (top_keyword_line_v1 P) (''Aucun mot-cl'' @ [CHR 0xC3, CHR 0xA9] @ '' avec des clics'') result) (\<lambda>topKeywords.
         bindE (date_info_v1 P result data) (\<lambda>dateInfo.
           interp
             ([Inr ([CHR 0xF0, CHR 0x9F, CHR 0x8C, CHR 0x90] @ '' **TABLEAU DE BORD SEO - SITE #''), tpl P result ''website_id'', Inr (''**'' @ [CHR 0x0A, CHR 0x0A]),
               Inr dateInfo, Inr [CHR 0x0A, CHR 0x0A],
               Inr ([CHR 0xF0, CHR 0x9F, CHR 0x93, CHR 0x8A] @ '' **M'' @ [CHR 0xC3, CHR 0xA9] @ ''triques globales :**'' @ [CHR 0x0A]),
               Inr ([CHR 0xE2, CHR 0x80, CHR 0xA2] @ '' Mots-cl'' @ [CHR 0xC3, CHR 0xA9] @ ''s suivis : ''),
               bindE (get2 result ''overall_metrics'' ''total_keywords'')
                 (to_locale_string P ''result.overall_metrics.total_keywords''), Inr nl,
               Inr ([CHR 0xE2, CHR 0x80, CHR 0xA2] @ '' Total des clics : ''),
               bindE (get2 result ''overall_metrics'' ''total_clicks'')
                 (to_locale_string P ''result.overall_metrics.total_clicks''), Inr nl,
               Inr ([CHR 0xE2, CHR 0x80, CHR 0xA2] @ '' Total des impressions : ''),
               bindE (get2 result ''overall_metrics'' ''total_impressions'')
                 (to_locale_string P ''result.overall_metrics.total_impressions''),
               Inr nl,
               Inr ([CHR 0xE2, CHR 0x80, CHR 0xA2] @ '' Position moyenne : ''),
               bindE (get2 result ''overall_metrics'' ''average_position'') (\<lambda>ap.
                 if truthy ap then interp [Inr ''#'', to_str P ap] else Inr ''Non disponible''),
               Inr nl,
               Inr ([CHR 0xE2, CHR 0x80, CHR 0xA2] @ '' CTR moyen : ''),
               bindE (get2 result ''overall_metrics'' ''average_ctr'') (\<lambda>ac.
                 if truthy ac then interp [percent2 P ac, Inr ''%''] else Inr ''Non disponible''),
               Inr [CHR 0x0A, CHR 0x0A]]
              @ distribution_lines P result
              @ [Inr ([CHR 0xF0, CHR 0x9F, CHR 0x8F, CHR 0x86] @ '' **Mots-cl'' @ [CHR 0xC3, CHR 0xA9] @ ''s les plus performants :**'' @ [CHR 0x0A]), Inr topKeywords]))))"

text \<open>\<^verbatim>\<open>Math.abs(v)\<close> in a template\<close>

definition abs_tpl :: "runtime \<Rightarrow> jsval \<Rightarrow> js_error + string" where
  "abs_tpl P v =
     bindE (to_number P v) (\<lambda>x.
       Inr (num_str P (number_abs x)))"

definition change_text :: "runtime \<Rightarrow> jsval \<Rightarrow> js_error + string" where
  "change_text P c =
     bindE (get c ''change_type'') (\<lambda>ct.
       if ct = JStr ''improvement''
       then interp [Inr ([CHR 0xF0, CHR 0x9F, CHR 0x93, CHR 0x88] @ '' **''), tpl P c ''keyword'', Inr ''**: #'', tpl P c ''old_position'',
                    Inr ('' '' @ [CHR 0xE2, CHR 0x86, CHR 0x92] @ '' #''), tpl P c ''new_position'', Inr '' ('',
                    bindE (get c ''change'') (abs_tpl P), Inr '' positions vers le haut)'']
       else if ct = JStr ''drop''
       then interp [Inr ([CHR 0xF0, CHR 0x9F, CHR 0x93, CHR 0x89] @ '' **''), tpl P c ''keyword'', Inr ''**: #'', tpl P c ''old_position'',
                    Inr ('' '' @ [CHR 0xE2, CHR 0x86, CHR 0x92] @ '' #''), tpl P c ''new_position'', Inr '' (+'',
                    tpl P c ''change'', Inr '' positions vers le bas)'']
       else if ct = JStr ''new_entry''
       then interp [Inr ([CHR 0xF0, CHR 0x9F, CHR 0x86, CHR 0x95] @ '' **''), tpl P c ''keyword'',
                    Inr (''**: Nouveau classement '' @ [CHR 0xC3, CHR 0xA0] @ '' la position #''), tpl P c ''new_position'']
       else if ct = JStr ''disappeared''
       then interp [Inr ([CHR 0xE2, CHR 0x9D, CHR 0x8C] @ '' **''), tpl P c ''keyword'',
                    Inr (''**: A disparu du classement ('' @ [CHR 0xC3, CHR 0xA9] @ ''tait '' @ [CHR 0xC3, CHR 0xA0] @ '' la position #''),
                    tpl P c ''old_position'', Inr '')'']
       else Inr [])"

definition change_line :: "runtime \<Rightarrow> jsval \<Rightarrow> js_error + string" where
  "change_line P c =
     bindE (change_text P c) (\<lambda>changeText.
     bindE (get c ''clicks'') (\<lambda>cl.
     bindE (js_gt P cl 0) (\<lambda>clicked.
     bindE (if clicked then Inr True
            else bindE (get c ''impressions'') (\<lambda>im. js_gt P im 0)) (\<lambda>seen.
     bindE (if seen
            then bindE (interp [Inr '' | '', tpl P c ''clicks'', Inr '' clics, '',
                                tpl P c ''impressions'', Inr '' impressions''])
                   (\<lambda>s. Inr (changeText @ s))
            else Inr changeText) (\<lambda>changeText.
     bindE (get c ''significance'') (\<lambda>sg.
       Inr (if sg = JStr ''major''
            then ([CHR 0xF0, CHR 0x9F, CHR 0x9A, CHR 0xA8] @ '' '') @ changeText @ '' **[CHANGEMENT MAJEUR]**''
            else changeText)))))))"

definition format_detect_ranking_changes :: formatter where
  "format_detect_ranking_changes P result data =
     bindE (get result ''has_data'') (\<lambda>has_data.
       if \<not> truthy has_data
       then
         interp
           [Inr ([CHR 0xF0, CHR 0x9F, CHR 0x94, CHR 0x84] @ '' **D'' @ [CHR 0xC3, CHR 0x89] @ ''TECTION DE CHANGEMENTS SIGNIFICATIFS**'' @ [CHR 0x0A, CHR 0x0A]),
            Inr ([CHR 0xE2, CHR 0x9A, CHR 0xA0, CHR 0xEF, CHR 0xB8, CHR 0x8F] @ '' **Aucune donn'' @ [CHR 0xC3, CHR 0xA9] @ ''e disponible**'' @ [CHR 0x0A, CHR 0x0A]),
            Inr ([CHR 0xF0, CHR 0x9F, CHR 0x93, CHR 0x8A] @ '' **Site web ID :** ''), tpl P result ''website_id'', Inr nl,
            Inr ([CHR 0xF0, CHR 0x9F, CHR 0x93, CHR 0x85] @ '' **P'' @ [CHR 0xC3, CHR 0xA9] @ ''riode :** ''), tpl P result ''period_days'', Inr ('' jours'' @ [CHR 0x0A]),
            Inr ([CHR 0xF0, CHR 0x9F, CHR 0x8E, CHR 0xAF] @ '' **Seuil :** '' @ [CHR 0xC2, CHR 0xB1]), tpl P result ''threshold'', Inr ('' positions'' @ [CHR 0x0A, CHR 0x0A]),
            Inr ([CHR 0xF0, CHR 0x9F, CHR 0x92, CHR 0xA1] @ '' **Cause possible :** Pas de propri'' @ [CHR 0xC3, CHR 0xA9] @ ''t'' @ [CHR 0xC3, CHR 0xA9] @ '' Google Search Console associ'' @ [CHR 0xC3, CHR 0xA9] @ ''e ou donn'' @ [CHR 0xC3, CHR 0xA9] @ ''es GSC insuffisantes.'')]
       else
         bindE (get result ''significant_changes'') (\<lambda>sc.
         bindE (as_array ''result.significant_changes'' ''map'' sc) (\<lambda>cl.
         bindE (mapE (change_line P) cl) (\<lambda>lines.
           (let changes = join_with nl lines in
            interp
              [Inr ([CHR 0xF0, CHR 0x9F, CHR 0x94, CHR 0x84] @ '' **D'' @ [CHR 0xC3, CHR 0x89] @ ''TECTION DE CHANGEMENTS SIGNIFICATIFS**'' @ [CHR 0x0A, CHR 0x0A]),
               Inr ([CHR 0xF0, CHR 0x9F, CHR 0x8C, CHR 0x90] @ '' **Site web ID :** ''), tpl P result ''website_id'', Inr nl,
               Inr ([CHR 0xF0, CHR 0x9F, CHR 0x93, CHR 0x85] @ '' **P'' @ [CHR 0xC3, CHR 0xA9] @ ''riode analys'' @ [CHR 0xC3, CHR 0xA9] @ ''e :** ''), tpl P result ''period_days'', Inr ('' jours'' @ [CHR 0x0A]),
               Inr ([CHR 0xF0, CHR 0x9F, CHR 0x8E, CHR 0xAF] @ '' **Seuil de d'' @ [CHR 0xC3, CHR 0xA9] @ ''tection :** '' @ [CHR 0xC2, CHR 0xB1]), tpl P result ''threshold'',
               Inr ('' positions'' @ [CHR 0x0A, CHR 0x0A]),
               Inr ([CHR 0xF0, CHR 0x9F, CHR 0x93, CHR 0x8A] @ '' **R'' @ [CHR 0xC3, CHR 0xA9] @ ''sum'' @ [CHR 0xC3, CHR 0xA9] @ '' :**'' @ [CHR 0x0A]),
               Inr ([CHR 0xE2, CHR 0x80, CHR 0xA2] @ '' Total changements d'' @ [CHR 0xC3, CHR 0xA9] @ ''tect'' @ [CHR 0xC3, CHR 0xA9] @ ''s : ''),
               bindE (get2 result ''summary'' ''changes_detected'') (to_str P), Inr nl,
               Inr ([CHR 0xE2, CHR 0x80, CHR 0xA2] @ '' '' @ [CHR 0xF0, CHR 0x9F, CHR 0x93, CHR 0x88] @ '' Am'' @ [CHR 0xC3, CHR 0xA9] @ ''liorations : ''),
               bindE (get2 result ''summary'' ''improvements'') (to_str P), Inr nl,
               Inr ([CHR 0xE2, CHR 0x80, CHR 0xA2] @ '' '' @ [CHR 0xF0, CHR 0x9F, CHR 0x93, CHR 0x89] @ '' Chutes : ''),
               bindE (get2 result ''summary'' ''drops'') (to_str P), Inr nl,
               Inr ([CHR 0xE2, CHR 0x80, CHR 0xA2] @ '' '' @ [CHR 0xF0, CHR 0x9F, CHR 0x9A, CHR 0xA8] @ '' Changements majeurs : ''),
               bindE (get2 result ''summary'' ''major_changes'') (to_str P), Inr nl,
               Inr ([CHR 0xE2, CHR 0x80, CHR 0xA2] @ '' '' @ [CHR 0xF0, CHR 0x9F, CHR 0x86, CHR 0x95] @ '' Nouvelles entr'' @ [CHR 0xC3, CHR 0xA9] @ ''es : ''),
               bindE (get2 result ''summary'' ''new_entries'') (to_str P), Inr nl,
               Inr ([CHR 0xE2, CHR 0x80, CHR 0xA2] @ '' '' @ [CHR 0xE2, CHR 0x9D, CHR 0x8C] @ '' Disparitions : ''),
               bindE (get2 result ''summary'' ''disappeared'') (to_str P), Inr [CHR 0x0A, CHR 0x0A],
               Inr (if changes \<noteq> []
                    then ([CHR 0xF0, CHR 0x9F, CHR 0x93, CHR 0x8B] @ '' **Changements d'' @ [CHR 0xC3, CHR 0xA9] @ ''tect'' @ [CHR 0xC3, CHR 0xA9] @ ''s :**'' @ [CHR 0x0A]) @ changes
                    else ([CHR 0xE2, CHR 0x9C, CHR 0x85] @ '' **Aucun changement significatif d'' @ [CHR 0xC3, CHR 0xA9] @ ''tect'' @ [CHR 0xC3, CHR 0xA9] @ ''**''))])))))"

definition website_line_v1 :: "runtime \<Rightarrow> jsval \<Rightarrow> js_error + string" where
  "website_line_v1 P w =
     interp
       [Inr ([CHR 0xE2, CHR 0x80, CHR 0xA2] @ '' **''), tpl P w ''domain'', Inr ''** (ID: '', tpl P w ''id'', Inr '')'',
        bindE (get w ''is_favorite'') (\<lambda>f. Inr (if truthy f then ('' '' @ [CHR 0xE2, CHR 0xAD, CHR 0x90]) else []))]"

definition format_list_user_websites :: formatter where
  "format_list_user_websites P result data =
     bindE (get result ''websites'') (\<lambda>ws.
     bindE (as_array ''result.websites'' ''map'' ws) (\<lambda>wl.
     bindE (mapE (website_line_v1 P) wl) (\<lambda>lines.
       interp
         [Inr ([CHR 0xF0, CHR 0x9F, CHR 0x8C, CHR 0x90] @ '' **VOS SITES WEB REFERENCIME**'' @ [CHR 0x0A, CHR 0x0A]),
          Inr ([CHR 0xF0, CHR 0x9F, CHR 0x91, CHR 0xA4] @ '' **Utilisateur ID :** ''), tpl P result ''user_id'', Inr nl,
          Inr ([CHR 0xF0, CHR 0x9F, CHR 0x93, CHR 0x8A] @ '' **Nombre de sites :** ''), tpl P result ''websites_count'', Inr [CHR 0x0A, CHR 0x0A],
          Inr ([CHR 0xF0, CHR 0x9F, CHR 0x93, CHR 0x8B] @ '' **Liste des sites :**'' @ [CHR 0x0A]), Inr (join_with nl lines), Inr [CHR 0x0A, CHR 0x0A],
          Inr ([CHR 0xF0, CHR 0x9F, CHR 0x92, CHR 0xA1] @ '' **Utilisation :** Utilisez l'' @ [CHR 0x27] @ ''ID du site dans les autres outils d'' @ [CHR 0x27] @ ''analyse SEO.'')])))"

definition AnalyzeKeywordArgsSchema :: zod_object where
  "AnalyzeKeywordArgsSchema = [(''keyword'', ZString), (''website_id'', ZNumber)]"

definition PositionEvolutionArgsSchema :: zod_object where
  "PositionEvolutionArgsSchema =
     [(''keyword'', ZString), (''website_id'', ZNumber),
      (''period'', ZDefault (ZOptional ZString) (JStr ''30days''))]"

definition CompareKeywordsArgsSchema :: zod_object where
  "CompareKeywordsArgsSchema = [(''keywords'', ZArray ZString), (''website_id'', ZNumber)]"

definition RankingChangesArgsSchema :: zod_object where
  "RankingChangesArgsSchema =
     [(''website_id'', ZNumber),
      (''days'', ZDefault (ZOptional ZNumber) (JNum (Finite 7))),
      (''threshold'', ZDefault (ZOptional ZNumber) (JNum (Finite 3))),
      (''start_date'', ZOptional ZString),
      (''end_date'', ZOptional ZString)]"

definition ListUserWebsitesArgsSchema :: zod_object where
  "ListUserWebsitesArgsSchema = []"

definition GetKeywordsByCategoriesArgsSchema :: zod_object where
  "GetKeywordsByCategoriesArgsSchema =
     [(''website_id'', ZNumber),
      (''include_performance'', ZDefault (ZOptional ZBoolean) (JBool True)),
      (''days'', ZDefault (ZOptional ZNumber) (JNum (Finite 30)))]"

definition tools_v1 :: "(string \<times> zod_object \<times> formatter) list" where
  "tools_v1 =
     [(''analyze_keyword_performance'', AnalyzeKeywordArgsSchema,
         format_analyze_keyword_performance),
      (''get_position_evolution'', PositionEvolutionArgsSchema, format_get_position_evolution),
      (''compare_keywords_performance'', CompareKeywordsArgsSchema,
         format_compare_keywords_performance),
      (''get_website_performance_summary'', WebsiteSummaryArgsSchema,
         format_get_website_performance_summary_v1),
      (''detect_ranking_changes'', RankingChangesArgsSchema, format_detect_ranking_changes),
      (''list_user_websites'', ListUserWebsitesArgsSchema, format_list_user_websites),
      (''get_keywords_by_categories'', GetKeywordsByCategoriesArgsSchema,
         format_get_keywords_by_categories)]"

section \<open>The two servers\<close>

datatype server_version = V2_0_0 | V1_1_3

fun tools_of :: "server_version \<Rightarrow> (string \<times> zod_object \<times> formatter) list" where
  "tools_of V2_0_0 = tools"
| "tools_of V1_1_3 = tools_v1"

fun endpoints_of :: "server_version \<Rightarrow> (string \<times> string) list" where
  "endpoints_of V2_0_0 = endpoints"
| "endpoints_of V1_1_3 = endpoints_v1"

text \<open>The handler registered for \<^verbatim>\<open>CallToolRequestSchema\<close>: the \<^verbatim>\<open>try\<close> and its
  \<^verbatim>\<open>catch\<close>.\<close>

definition call_tool ::
  "server_version \<Rightarrow> runtime \<Rightarrow> world \<Rightarrow> tool_request \<Rightarrow> report \<times> http_request list" where
  "call_tool sv P W request = finish (dispatch (tools_of sv) (endpoints_of sv) P W request)"

section \<open>What a schema declares\<close>

text \<open>
  The reading of a schema as a declaration of typed fields, to compare the validator
  with: the values a declared type admits, without any conversion between types
  (\<^verbatim>\<open>undefined\<close> is the value of an absent field); the fields that are required; an
  argument mapping that misses a required field, or that gives a field a value its
  declared type does not admit.
\<close>

fun accepts :: "zod_type \<Rightarrow> jsval \<Rightarrow> bool" where
  "accepts ZNumber v = (case v of JNum x \<Rightarrow> x \<noteq> NaN | _ \<Rightarrow> False)"
| "accepts ZBoolean v = (case v of JBool b \<Rightarrow> True | _ \<Rightarrow> False)"
| "accepts ZString v = (case v of JStr s \<Rightarrow> True | _ \<Rightarrow> False)"
| "accepts (ZArray t) v = (case v of JArr xs \<Rightarrow> list_all (accepts t) xs | _ \<Rightarrow> False)"
| "accepts (ZOptional t) v = (v = JUndef \<or> accepts t v)"
| "accepts (ZDefault t d) v = accepts t (if v = JUndef then d else v)"

fun is_required :: "zod_type \<Rightarrow> bool" where
  "is_required (ZOptional t) = False"
| "is_required (ZDefault t d) = False"
| "is_required t = True"

definition missing_required :: "zod_object \<Rightarrow> (string \<times> jsval) list \<Rightarrow> bool" where
  "missing_required shape kvs =
     list_ex (\<lambda>f. is_required (snd f) \<and> map_of kvs (fst f) = None) shape"

definition wrong_type :: "zod_object \<Rightarrow> (string \<times> jsval) list \<Rightarrow> bool" where
  "wrong_type shape kvs =
     list_ex (\<lambda>f. case map_of kvs (fst f) of None \<Rightarrow> False | Some v \<Rightarrow> \<not> accepts (snd f) v) shape"

text \<open>The values that JSON can carry: no \<^verbatim>\<open>undefined\<close> and no \<^verbatim>\<open>NaN\<close> anywhere
  inside.\<close>

fun is_json :: "jsval \<Rightarrow> bool" where
  "is_json JUndef = False"
| "is_json JNull = True"
| "is_json (JBool b) = True"
| "is_json (JNum x) = (x \<noteq> NaN)"
| "is_json (JStr s) = True"
| "is_json (JArr xs) = list_all is_json xs"
| "is_json (JObj kvs) = list_all (\<lambda>kv. is_json (snd kv)) kvs"

text \<open>The default a declared type gives to an absent field, if any.\<close>

fun default_of :: "zod_type \<Rightarrow> jsval option" where
  "default_of (ZDefault t d) = Some d"
| "default_of t = None"

text \<open>A schema whose field names are distinct and whose defaults are JSON values.\<close>

definition well_declared :: "zod_object \<Rightarrow> bool" where
  "well_declared shape =
     (distinct (map fst shape)
      \<and> list_all (\<lambda>f. case default_of (snd f) of None \<Rightarrow> True | Some d \<Rightarrow> is_json d) shape)"

section \<open>The position metric of a keyword\<close>

text \<open>
  The reading of a keywords-by-categories result that the average position is compared
  with: the value of \<^verbatim>\<open>k.performance_metrics?.position\<close> for a keyword \<open>k\<close>
  (\<^verbatim>\<open>undefined\<close> when there is none), the keywords of a category, the positions that
  are numbers, and among them those that are strictly greater than 0.
\<close>

definition position_metric :: "jsval \<Rightarrow> jsval" where
  "position_metric k =
     (case get k ''performance_metrics'' of
        Inl e \<Rightarrow> JUndef
      | Inr pm \<Rightarrow> (case get_opt pm ''position'' of Inl e \<Rightarrow> JUndef | Inr p \<Rightarrow> p))"



definition positive_position :: "jsval \<Rightarrow> number option" where
  "positive_position k =
     (case position_metric k of JNum x \<Rightarrow> if number_gt x 0 then Some x else None | _ \<Rightarrow> None)"







text \<open>A keyword whose position metric is a number strictly greater than 0.\<close>

definition positive :: "jsval \<Rightarrow> bool" where
  "positive k = (positive_position k \<noteq> None)"

section \<open>The groups of a keyword list\<close>

text \<open>
  What the grouping of \<^verbatim>\<open>list_keywords_by_website\<close> is compared with: the name under
  which a keyword is filed, the keywords filed under a name, and the names of a list in
  the order of their first occurrence.
\<close>

definition category_key :: "runtime \<Rightarrow> jsval \<Rightarrow> js_error + string" where
  "category_key P k =
     bindE (get k ''category_name'') (\<lambda>c. to_str P (or_else c (JStr non_categorise)))"

definition members :: "groups \<Rightarrow> string \<Rightarrow> jsval list" where
  "members g c = (case map_of g c of None \<Rightarrow> [] | Some ks \<Rightarrow> ks)"

definition first_occurrences :: "string list \<Rightarrow> string list" where
  "first_occurrences cs = rev (remdups (rev cs))"

text \<open>The keywords \<open>kl\<close> whose names, given in \<open>cs\<close>, are \<open>c\<close>, in the order of \<open>kl\<close>.\<close>

definition keywords_under :: "string \<Rightarrow> string list \<Rightarrow> jsval list \<Rightarrow> jsval list" where
  "keywords_under c cs kl = map snd (filter (\<lambda>p. fst p = c) (zip cs kl))"

section \<open>A runtime and a backend for the examples\<close>

text \<open>The examples below run the handler on concrete requests. They need some runtime
  and some backend; no theorem depends on the choice made here.\<close>

definition example_runtime :: runtime where
  "example_runtime =
     \<lparr>number_to_string = (\<lambda>q. ''<number>''),
      string_to_number = (\<lambda>s. NaN),
      number_to_locale_string = (\<lambda>x. ''<number>''),
      date_to_locale_string = (\<lambda>v. ''<date and time>''),
      date_to_locale_date_string = (\<lambda>v. ''<date>''),
      to_upper_case = (\<lambda>s. s),
      zod_error_message = (\<lambda>issues. ''<issues>'')\<rparr>"

text \<open>A backend that gives the same answer to every request, with an API key configured.\<close>

definition answering :: "fetch_outcome \<Rightarrow> world" where
  "answering outcome = \<lparr>api_key = Some ''secret'', fetch = (\<lambda>r. outcome)\<rparr>"

text \<open>The answer \<^verbatim>\<open>{"success": true, "data": d}\<close> with status 200.\<close>

definition success_with :: "jsval \<Rightarrow> fetch_outcome" where
  "success_with d = Response 200 ''OK'' (Inr (JObj [(''success'', JBool True), (''data'', d)]))"

text \<open>The request the gateway issues for \<^verbatim>\<open>list_categories_by_website\<close> with that key.\<close>

definition example_request :: "jsval \<Rightarrow> http_request" where
  "example_request d =
     \<lparr>url = ''https://referencime.fr/wp-json/easy-links/v1/ai/list-categories-by-website'',
      http_method = ''POST'',
      headers = [(''Authorization'', ''Bearer secret''), (''Content-Type'', ''application/json'')],
      body = d\<rparr>"

text \<open>The request the gateway issues for \<^verbatim>\<open>list_keywords_by_website\<close>.\<close>

definition example_keywords_request :: "jsval \<Rightarrow> http_request" where
  "example_keywords_request d =
     \<lparr>url = ''https://referencime.fr/wp-json/easy-links/v1/ai/list-keywords-by-website'',
      http_method = ''POST'',
      headers = [(''Authorization'', ''Bearer secret''), (''Content-Type'', ''application/json'')],
      body = d\<rparr>"





text \<open>A keyword with performance data whose click-through rate is the number that
  \<^verbatim>\<open>JSON.parse\<close> reads from the literal \<open>c\<close>.\<close>

definition measured :: "rat \<Rightarrow> jsval" where
  "measured c =
     JObj [(''keyword'', JStr ''seo''),
           (''performance_metrics'',
              JObj [(''has_data'', JBool True), (''position'', JNum (Finite 3)),
                    (''clicks'', JNum (Finite 5)), (''impressions'', JNum (Finite 100)),
                    (''ctr'', JNum (round_double c))])]"




text \<open>A keyword \<open>s\<close> in the category \<open>c\<close>.\<close>

definition in_category :: "string \<Rightarrow> string \<Rightarrow> jsval" where
  "in_category c s = JObj [(''keyword'', JStr s), (''category_name'', JStr c)]"

text \<open>The data \<^verbatim>\<open>list_keywords_by_website\<close> receives for the site 7 with the keywords
  \<open>ks\<close>, without search volumes.\<close>

definition keywords_answer :: "jsval list \<Rightarrow> jsval" where
  "keywords_answer ks =
     JObj [(''website_id'', JNum (Finite 7)),
           (''keywords_count'', JNum (Finite (of_nat (length ks)))),
           (''include_metrics'', JBool False),
           (''keywords'', JArr ks)]"

section \<open>Rounding to a double\<close>

lemma pos_quotient:
  assumes "0 < q"
  obtains n d where "quotient_of q = (n, d)" "0 < n" "0 < d" "q = of_int n / of_int d"
proof -
  obtain n d where nd: "quotient_of q = (n, d)" by (cases "quotient_of q")
  then have d: "0 < d" by (rule quotient_of_denom_pos)
  from nd have q: "q = of_int n / of_int d" by (rule quotient_of_div)
  with assms d have n: "0 < n" by (simp add: zero_less_divide_iff)
  from nd n d q show ?thesis by (rule that)
qed

lemma bitlen_powi:
  assumes "0 < (n::int)"
  shows "2 powi (bitlen n - 1) \<le> (of_int n :: rat)" and "(of_int n :: rat) < 2 powi bitlen n"
proof -
  from assms have b: "2 ^ nat (bitlen n - 1) \<le> n" "n < 2 ^ nat (bitlen n)"
    using bitlen_bounds by blast+
  from assms have ge: "1 \<le> bitlen n"
    by (metis bitlen_eq_zero_iff bitlen_nonneg leD linorder_le_less_linear order_le_less zless_imp_add1_zle zero_less_one add_0)
  from b(1) have "(of_int (2 ^ nat (bitlen n - 1)) :: rat) \<le> of_int n"
    by (simp only: of_int_le_iff)
  with ge show "2 powi (bitlen n - 1) \<le> (of_int n :: rat)"
    by (simp add: power_int_def)
  from b(2) have "(of_int n :: rat) < of_int (2 ^ nat (bitlen n))"
    by (simp only: of_int_less_iff)
  with ge show "(of_int n :: rat) < 2 powi bitlen n"
    by (simp add: power_int_def)
qed

lemma binade_bounds:
  assumes "0 < q"
  shows "2 powi binade q \<le> q" and "q < 2 powi (binade q + 1)"
proof -
  from assms obtain n d where nd: "quotient_of q = (n, d)" and n: "0 < n" and d: "0 < d"
    and q: "q = of_int n / of_int d"
    by (rule pos_quotient)
  let ?k = "bitlen n - bitlen d"
  let ?n = "of_int n :: rat" and ?d = "of_int d :: rat"
  from d have dpos: "0 < ?d" by simp
  have two: "(0::rat) < 2 powi i" for i by (simp add: power_int_def)
  note bn = bitlen_powi [OF n] and bd = bitlen_powi [OF d]
  have split1: "(2::rat) powi (bitlen n - 1) = 2 powi (?k - 1) * 2 powi bitlen d"
    by (simp add: power_int_add [symmetric])
  have split2: "(2::rat) powi bitlen n = 2 powi (?k + 1) * 2 powi (bitlen d - 1)"
    by (simp add: power_int_add [symmetric])
  have lowk: "2 powi (?k - 1) * ?d \<le> ?n"
  proof -
    have "2 powi (?k - 1) * ?d \<le> 2 powi (?k - 1) * 2 powi bitlen d"
      using bd(2) two [of "?k - 1"] by (simp add: less_imp_le)
    with bn(1) show ?thesis by (simp only: split1 [symmetric])
  qed
  have upk: "?n < 2 powi (?k + 1) * ?d"
  proof -
    have "2 powi (?k + 1) * 2 powi (bitlen d - 1) \<le> 2 powi (?k + 1) * ?d"
      using bd(1) two [of "?k + 1"] by simp
    with bn(2) show ?thesis by (simp only: split2 [symmetric])
  qed
  have b: "binade q = (if ?n < 2 powi ?k * ?d then ?k - 1 else ?k)"
    by (simp add: binade_def nd Let_def)
  show "2 powi binade q \<le> q"
  proof (cases "?n < 2 powi ?k * ?d")
    case True
    with b lowk dpos show ?thesis by (simp add: q pos_le_divide_eq)
  next
    case False
    with b dpos show ?thesis by (simp add: q pos_le_divide_eq not_less)
  qed
  show "q < 2 powi (binade q + 1)"
  proof (cases "?n < 2 powi ?k * ?d")
    case True
    with b dpos show ?thesis by (simp add: q pos_divide_less_eq)
  next
    case False
    with b upk dpos show ?thesis by (simp add: q pos_divide_less_eq)
  qed
qed

lemma powi_two_mono: "i \<le> j \<Longrightarrow> (2::rat) powi i \<le> 2 powi j"
  by (rule power_int_increasing) simp_all

lemma binade_eqI:
  assumes "2 powi e \<le> q" and "q < 2 powi (e + 1)"
  shows "binade q = e"
proof -
  have "(0::rat) < 2 powi e" by (simp add: power_int_def)
  from this assms(1) have pos: "0 < q" by (rule less_le_trans)
  note b = binade_bounds [OF pos]
  have "\<not> binade q < e"
  proof
    assume "binade q < e"
    then have "binade q + 1 \<le> e" by simp
    then have "(2::rat) powi (binade q + 1) \<le> 2 powi e" by (rule powi_two_mono)
    with b(2) assms(1) show False by simp
  qed
  moreover have "\<not> e < binade q"
  proof
    assume "e < binade q"
    then have "e + 1 \<le> binade q" by simp
    then have "(2::rat) powi (e + 1) \<le> 2 powi binade q" by (rule powi_two_mono)
    with b(1) assms(2) show False by simp
  qed
  ultimately show ?thesis by simp
qed

lemma round_double_pos:
  assumes "2 powi e \<le> q" and "q < 2 powi (e + 1)" and "- 1022 \<le> e"
    and "round_half_even (q / 2 powi (e - 52)) = n"
    and "of_int n * 2 powi (e - 52) < (2::rat) powi 1024"
  shows "round_double q = Finite (of_int n * 2 powi (e - 52))"
proof -
  have "(0::rat) < 2 powi e" by (simp add: power_int_def)
  from this assms(1) have pos: "0 < q" by (rule less_le_trans)
  from assms(1,2) have b: "binade q = e" by (rule binade_eqI)
  from pos have a: "\<bar>q\<bar> = q" by simp
  from assms(3) have m: "max e (- 1022) = e" by simp
  from pos have nz: "q \<noteq> 0" and nn: "\<not> q < 0" by simp_all
  show ?thesis
    unfolding round_double_def Let_def a b m assms(4)
    using nz nn assms(5) by (simp add: not_le)
qed

lemma round_half_even_int: "round_half_even (of_int i) = i"
  by (simp add: round_half_even_def)

lemma round_half_even_eqI:
  assumes "of_int n - 1 / 2 < x" and "x < of_int n + 1 / 2"
  shows "round_half_even x = n"
proof (cases "of_int n \<le> x")
  case True
  with assms(2) have "\<lfloor>x\<rfloor> = n" by (simp add: floor_eq_iff)
  with assms(2) show ?thesis by (simp add: round_half_even_def Let_def)
next
  case False
  with assms(1) have "\<lfloor>x\<rfloor> = n - 1" by (simp add: floor_eq_iff)
  with assms(1) show ?thesis by (simp add: round_half_even_def Let_def)
qed

lemma round_double_minus: "round_double (- q) = negate (round_double q)"
  by (cases "q = 0"; cases "q < 0") (auto simp: round_double_def Let_def sign_of_def sign_times_def)

lemma binade_int_range:
  assumes "0 < i" and "i \<le> 2 ^ 53"
  shows "0 \<le> binade (of_int i)" and "binade (of_int i) \<le> 53"
proof -
  let ?q = "of_int i :: rat"
  from assms(1) have pos: "0 < ?q" by simp
  note b = binade_bounds [OF pos]
  show "0 \<le> binade ?q"
  proof (rule ccontr)
    assume "\<not> 0 \<le> binade ?q"
    then have "binade ?q + 1 \<le> 0" by simp
    then have "(2::rat) powi (binade ?q + 1) \<le> 2 powi 0" by (rule powi_two_mono)
    with b(2) have "?q < 1" by simp
    with assms(1) show False by simp
  qed
  show "binade ?q \<le> 53"
  proof (rule ccontr)
    assume "\<not> binade ?q \<le> 53"
    then have "54 \<le> binade ?q" by simp
    then have "(2::rat) powi 54 \<le> 2 powi binade ?q" by (rule powi_two_mono)
    with b(1) have "(2::rat) ^ 54 \<le> ?q" by simp
    moreover from assms(2) have "?q \<le> of_int (2 ^ 53)" by (simp only: of_int_le_iff)
    ultimately show False by simp
  qed
qed

lemma round_double_pos_int:
  assumes "0 < i" and "i \<le> 2 ^ 53"
  shows "round_double (of_int i) = Finite (of_int i)"
proof -
  let ?q = "of_int i :: rat"
  let ?e = "binade ?q"
  from assms(1) have pos: "0 < ?q" by simp
  note b = binade_bounds [OF pos]
  note r = binade_int_range [OF assms]
  have ex: "\<exists>n. ?q / 2 powi (?e - 52) = of_int n"
  proof (cases "?e \<le> 52")
    case True
    then have "(2::rat) powi (?e - 52) = 1 / 2 ^ nat (52 - ?e)"
      by (simp add: power_int_def inverse_eq_divide power_one_over)
    then have "?q / 2 powi (?e - 52) = of_int (i * 2 ^ nat (52 - ?e))" by simp
    then show ?thesis ..
  next
    case False
    with r(2) have e: "?e = 53" by simp
    with b(1) have "(2::rat) ^ 53 \<le> ?q" by simp
    then have "(of_int (2 ^ 53) :: rat) \<le> of_int i" by simp
    then have "2 ^ 53 \<le> i" by (simp only: of_int_le_iff)
    with assms(2) have "i = 2 ^ 53" by simp
    with e have "?q / 2 powi (?e - 52) = of_int (2 ^ 52)" by simp
    then show ?thesis ..
  qed
  then obtain n where n: "?q / 2 powi (?e - 52) = of_int n" ..
  have nz: "(2::rat) powi (?e - 52) \<noteq> 0" by simp
  from n have restored: "of_int n * 2 powi (?e - 52) = ?q"
    using nz by (simp add: field_simps)
  have rn: "round_half_even (?q / 2 powi (?e - 52)) = n"
    by (simp only: n round_half_even_int)
  from assms(2) have "?q \<le> of_int (2 ^ 53)" by (simp only: of_int_le_iff)
  then have small: "of_int n * 2 powi (?e - 52) < (2::rat) powi 1024"
    unfolding restored by simp
  from r(1) have lo: "- 1022 \<le> ?e" by simp
  from round_double_pos [OF b(1) b(2) lo rn small] show ?thesis
    by (simp only: restored)
qed

lemma round_double_int:
  assumes "\<bar>i\<bar> \<le> 2 ^ 53"
  shows "round_double (of_int i) = Finite (of_int i)"
proof -
  consider "i = 0" | "0 < i" | "i < 0" by linarith
  then show ?thesis
  proof cases
    case 1
    then show ?thesis by (simp add: round_double_def)
  next
    case 2
    with assms show ?thesis by (intro round_double_pos_int) simp_all
  next
    case 3
    with assms have "round_double (of_int (- i)) = Finite (of_int (- i))"
      by (intro round_double_pos_int) simp_all
    then have "negate (round_double (of_int i)) = Finite (- of_int i)"
      by (simp add: round_double_minus)
    then show ?thesis by (cases "round_double (of_int i)") simp_all
  qed
qed

lemma round_double_nat: "n \<le> 2 ^ 53 \<Longrightarrow> round_double (of_nat n) = Finite (of_nat n)"
  using round_double_int [of "int n"] by simp

lemma round_double_numeral [simp]:
  "numeral k \<le> (2 ^ 53 :: nat) \<Longrightarrow> round_double (numeral k) = Finite (numeral k)"
  using round_double_nat [of "numeral k"] by simp


lemma round_double_0 [simp]: "round_double 0 = Finite 0"
  by (simp add: round_double_def)

lemma round_double_1 [simp]: "round_double 1 = Finite 1"
  using round_double_nat [of 1] by simp

lemma is_double_nat: "n \<le> 2 ^ 53 \<Longrightarrow> is_double (of_nat n)"
  by (simp add: is_double_def round_double_nat)

lemma is_double_numeral [simp]: "numeral k \<le> (2 ^ 53 :: nat) \<Longrightarrow> is_double (numeral k)"
  by (simp add: is_double_def)

lemma is_double_0 [simp]: "is_double 0"
  by (simp add: is_double_def)

lemma is_double_1 [simp]: "is_double 1"
  by (simp add: is_double_def)

section \<open>The handler always answers\<close>

lemma finish_Inl: "finish (Inl e, reqs) = (error_report e, reqs)"
  by (simp add: finish_def)

lemma finish_Inr: "finish (Inr t, reqs) = (\<lparr>text_of = t, isError = False\<rparr>, reqs)"
  by (simp add: finish_def)

lemma snd_finish: "snd (finish x) = snd x"
  by (simp add: finish_def split: sum.splits)

lemma dispatch_unknown:
  "map_of ts (name rq) = None \<Longrightarrow>
   dispatch ts table P W rq = (Inl (Error (''Outil inconnu: '' @ name rq)), [])"
  by (simp add: dispatch_def)

lemma dispatch_invalid:
  "map_of ts (name rq) = Some (shape, fmt) \<Longrightarrow> safeParse shape (arguments rq) = Inl issues \<Longrightarrow>
   dispatch ts table P W rq =
     (Inl (Error (''Arguments invalides pour '' @ name rq @ '': '' @ zod_error_message P issues)), [])"
  by (simp add: dispatch_def tool_case_def)

lemma dispatch_gateway:
  "map_of ts (name rq) = Some (shape, fmt) \<Longrightarrow> safeParse shape (arguments rq) = Inr data \<Longrightarrow>
   callReferencimeAPI P W table (name rq) data = (Inl e, reqs) \<Longrightarrow>
   dispatch ts table P W rq = (Inl e, reqs)"
  by (simp add: dispatch_def tool_case_def)

lemma dispatch_formatter:
  "map_of ts (name rq) = Some (shape, fmt) \<Longrightarrow> safeParse shape (arguments rq) = Inr data \<Longrightarrow>
   callReferencimeAPI P W table (name rq) data = (Inr result, reqs) \<Longrightarrow>
   dispatch ts table P W rq = (fmt P result data, reqs)"
  by (simp add: dispatch_def tool_case_def)

text \<open>
  C1. Whatever stage of a tool call fails, the handler answers: it returns the report
  with the error flag set whose text is the error mark followed by the message of the
  error, together with the requests it had issued. The stages, for both servers: the
  name is not a declared tool; the arguments do not validate; the gateway fails (no API
  key, the network, an HTTP status outside 200..299, a body that is not JSON, a failure
  reported by the backend); the formatter throws. The message \<open>m\<close> of an error is
  the text it was built with, whatever its class.
\<close>

theorem failure_is_answered:
  "(map_of (tools_of sv) (name rq) = None \<longrightarrow>
      call_tool sv P W rq
        = (\<lparr>text_of = ([CHR 0xE2, CHR 0x9D, CHR 0x8C] @ '' **Erreur**: '') @ ''Outil inconnu: '' @ name rq, isError = True\<rparr>, []))
   \<and> (map_of (tools_of sv) (name rq) = Some (shape, fmt) \<and>
        safeParse shape (arguments rq) = Inl issues \<longrightarrow>
      call_tool sv P W rq
        = (\<lparr>text_of = ([CHR 0xE2, CHR 0x9D, CHR 0x8C] @ '' **Erreur**: '') @ ''Arguments invalides pour '' @ name rq @ '': ''
                       @ zod_error_message P issues,
            isError = True\<rparr>, []))
   \<and> (map_of (tools_of sv) (name rq) = Some (shape, fmt) \<and>
        safeParse shape (arguments rq) = Inr data \<and>
        callReferencimeAPI P W (endpoints_of sv) (name rq) data = (Inl e, reqs) \<and>
        e \<in> {Error m, TypeError m, SyntaxError m} \<longrightarrow>
      call_tool sv P W rq = (\<lparr>text_of = ([CHR 0xE2, CHR 0x9D, CHR 0x8C] @ '' **Erreur**: '') @ m, isError = True\<rparr>, reqs))
   \<and> (map_of (tools_of sv) (name rq) = Some (shape, fmt) \<and>
        safeParse shape (arguments rq) = Inr data \<and>
        callReferencimeAPI P W (endpoints_of sv) (name rq) data = (Inr result, reqs) \<and>
        fmt P result data = Inl e \<and>
        e \<in> {Error m, TypeError m, SyntaxError m} \<longrightarrow>
      call_tool sv P W rq = (\<lparr>text_of = ([CHR 0xE2, CHR 0x9D, CHR 0x8C] @ '' **Erreur**: '') @ m, isError = True\<rparr>, reqs))"
proof (intro conjI impI)
  assume "map_of (tools_of sv) (name rq) = None"
  then show "call_tool sv P W rq
        = (\<lparr>text_of = ([CHR 0xE2, CHR 0x9D, CHR 0x8C] @ '' **Erreur**: '') @ ''Outil inconnu: '' @ name rq, isError = True\<rparr>, [])"
    by (simp add: call_tool_def dispatch_unknown finish_Inl error_report_def)
next
  assume "map_of (tools_of sv) (name rq) = Some (shape, fmt) \<and>
        safeParse shape (arguments rq) = Inl issues"
  then show "call_tool sv P W rq
        = (\<lparr>text_of = ([CHR 0xE2, CHR 0x9D, CHR 0x8C] @ '' **Erreur**: '') @ ''Arguments invalides pour '' @ name rq @ '': ''
                       @ zod_error_message P issues,
            isError = True\<rparr>, [])"
    by (simp add: call_tool_def dispatch_invalid finish_Inl error_report_def)
next
  assume "map_of (tools_of sv) (name rq) = Some (shape, fmt) \<and>
        safeParse shape (arguments rq) = Inr data \<and>
        callReferencimeAPI P W (endpoints_of sv) (name rq) data = (Inl e, reqs) \<and>
        e \<in> {Error m, TypeError m, SyntaxError m}"
  then have "call_tool sv P W rq = (error_report e, reqs)" and "message e = m"
    by (auto simp: call_tool_def dispatch_gateway finish_Inl)
  then show "call_tool sv P W rq = (\<lparr>text_of = ([CHR 0xE2, CHR 0x9D, CHR 0x8C] @ '' **Erreur**: '') @ m, isError = True\<rparr>, reqs)"
    by (simp add: error_report_def)
next
  assume "map_of (tools_of sv) (name rq) = Some (shape, fmt) \<and>
        safeParse shape (arguments rq) = Inr data \<and>
        callReferencimeAPI P W (endpoints_of sv) (name rq) data = (Inr result, reqs) \<and>
        fmt P result data = Inl e \<and>
        e \<in> {Error m, TypeError m, SyntaxError m}"
  then have "call_tool sv P W rq = (error_report e, reqs)" and "message e = m"
    by (auto simp: call_tool_def dispatch_formatter finish_Inl)
  then show "call_tool sv P W rq = (\<lparr>text_of = ([CHR 0xE2, CHR 0x9D, CHR 0x8C] @ '' **Erreur**: '') @ m, isError = True\<rparr>, reqs)"
    by (simp add: error_report_def)
qed

lemma example_unknown: "map_of (tools_of V2_0_0) ''make_coffee'' = None"
  by (simp add: tools_def)

lemma example_declared:
  "map_of (tools_of V2_0_0) ''list_categories_by_website''
   = Some (ListCategoriesByWebsiteArgsSchema, format_list_categories_by_website)"
  by (simp add: tools_def)

lemma example_invalid:
  "safeParse ListCategoriesByWebsiteArgsSchema (JObj [])
   = Inl [Issue [''website_id''] ''number'' ''undefined'']"
  by (simp add: ListCategoriesByWebsiteArgsSchema_def parse_field_def own_def)

lemma example_valid:
  "safeParse ListCategoriesByWebsiteArgsSchema (JObj [(''website_id'', JNum (Finite 7))])
   = Inr (JObj [(''website_id'', JNum (Finite 7))])"
  by (simp add: ListCategoriesByWebsiteArgsSchema_def parse_field_def own_def)

lemma example_http_error:
  "callReferencimeAPI example_runtime
     (answering (Response 503 ''Service Unavailable'' (Inl (SyntaxError ''Unexpected token''))))
     (endpoints_of V2_0_0) ''list_categories_by_website'' d
   = (Inl (Error ''Erreur API WordPress: 503 Service Unavailable''), [example_request d])"
  by (simp add: callReferencimeAPI_def getApiKey_def answering_def endpoints_def baseURL_def
      unwrap_response_def response_ok_def nat_str.simps digit_char_def example_request_def)

lemma example_no_data:
  "callReferencimeAPI example_runtime (answering (success_with JNull))
     (endpoints_of V2_0_0) ''list_categories_by_website'' d
   = (Inr JNull, [example_request d])"
  by (simp add: callReferencimeAPI_def getApiKey_def answering_def endpoints_def baseURL_def
      unwrap_response_def response_ok_def success_with_def example_request_def)

lemma example_formatter_throws:
  "format_list_categories_by_website example_runtime JNull d
   = Inl (TypeError (''Cannot read properties of null (reading '' @ [CHR 0x27] @ ''categories'' @ [CHR 0x27] @ '')''))"
  by (simp add: format_list_categories_by_website_def cannot_read_def)

theorem failure_is_answered_witness:
  "call_tool V2_0_0 example_runtime (answering (success_with JNull))
      \<lparr>name = ''make_coffee'', arguments = JObj []\<rparr>
    = (\<lparr>text_of = ([CHR 0xE2, CHR 0x9D, CHR 0x8C] @ '' **Erreur**: Outil inconnu: make_coffee''), isError = True\<rparr>, [])
   \<and> call_tool V2_0_0 example_runtime (answering (success_with JNull))
        \<lparr>name = ''list_categories_by_website'', arguments = JObj []\<rparr>
      = (\<lparr>text_of = ([CHR 0xE2, CHR 0x9D, CHR 0x8C] @ '' **Erreur**: Arguments invalides pour list_categories_by_website: '')
                     @ zod_error_message example_runtime
                         [Issue [''website_id''] ''number'' ''undefined''],
          isError = True\<rparr>, [])
   \<and> call_tool V2_0_0 example_runtime
        (answering (Response 503 ''Service Unavailable'' (Inl (SyntaxError ''Unexpected token''))))
        \<lparr>name = ''list_categories_by_website'', arguments = JObj [(''website_id'', JNum (Finite 7))]\<rparr>
      = (\<lparr>text_of = ([CHR 0xE2, CHR 0x9D, CHR 0x8C] @ '' **Erreur**: Erreur API WordPress: 503 Service Unavailable''),
          isError = True\<rparr>,
         [example_request (JObj [(''website_id'', JNum (Finite 7))])])
   \<and> call_tool V2_0_0 example_runtime (answering (success_with JNull))
        \<lparr>name = ''list_categories_by_website'', arguments = JObj [(''website_id'', JNum (Finite 7))]\<rparr>
      = (\<lparr>text_of = ([CHR 0xE2, CHR 0x9D, CHR 0x8C] @ '' **Erreur**: Cannot read properties of null (reading '' @ [CHR 0x27] @ ''categories'' @ [CHR 0x27] @ '')''),
          isError = True\<rparr>,
         [example_request (JObj [(''website_id'', JNum (Finite 7))])])"
proof -
  let ?P = example_runtime
  let ?args = "JObj [(''website_id'', JNum (Finite 7))]"
  have a: "call_tool V2_0_0 ?P (answering (success_with JNull))
             \<lparr>name = ''make_coffee'', arguments = JObj []\<rparr>
           = (\<lparr>text_of = ([CHR 0xE2, CHR 0x9D, CHR 0x8C] @ '' **Erreur**: Outil inconnu: make_coffee''), isError = True\<rparr>, [])"
    using failure_is_answered [where sv = V2_0_0 and P = ?P
        and W = "answering (success_with JNull)"
        and rq = "\<lparr>name = ''make_coffee'', arguments = JObj []\<rparr>"]
      example_unknown
    by simp
  have b: "call_tool V2_0_0 ?P (answering (success_with JNull))
             \<lparr>name = ''list_categories_by_website'', arguments = JObj []\<rparr>
           = (\<lparr>text_of = ([CHR 0xE2, CHR 0x9D, CHR 0x8C] @ '' **Erreur**: Arguments invalides pour list_categories_by_website: '')
                     @ zod_error_message example_runtime
                         [Issue [''website_id''] ''number'' ''undefined''],
               isError = True\<rparr>, [])"
    using failure_is_answered [where sv = V2_0_0 and P = ?P
        and W = "answering (success_with JNull)"
        and rq = "\<lparr>name = ''list_categories_by_website'', arguments = JObj []\<rparr>"
        and shape = ListCategoriesByWebsiteArgsSchema and fmt = format_list_categories_by_website
        and issues = "[Issue [''website_id''] ''number'' ''undefined'']"]
      example_declared example_invalid
    by simp
  have c: "call_tool V2_0_0 ?P
             (answering (Response 503 ''Service Unavailable'' (Inl (SyntaxError ''Unexpected token''))))
             \<lparr>name = ''list_categories_by_website'', arguments = ?args\<rparr>
           = (\<lparr>text_of = ([CHR 0xE2, CHR 0x9D, CHR 0x8C] @ '' **Erreur**: Erreur API WordPress: 503 Service Unavailable''),
               isError = True\<rparr>,
              [example_request ?args])"
    using failure_is_answered [where sv = V2_0_0 and P = ?P
        and W = "answering (Response 503 ''Service Unavailable'' (Inl (SyntaxError ''Unexpected token'')))"
        and rq = "\<lparr>name = ''list_categories_by_website'', arguments = ?args\<rparr>"
        and shape = ListCategoriesByWebsiteArgsSchema and fmt = format_list_categories_by_website
        and data = ?args and e = "Error ''Erreur API WordPress: 503 Service Unavailable''"
        and m = "''Erreur API WordPress: 503 Service Unavailable''"
        and reqs = "[example_request ?args]"]
      example_declared example_valid example_http_error [of ?args]
    by simp
  have d: "call_tool V2_0_0 ?P (answering (success_with JNull))
             \<lparr>name = ''list_categories_by_website'', arguments = ?args\<rparr>
           = (\<lparr>text_of = ([CHR 0xE2, CHR 0x9D, CHR 0x8C] @ '' **Erreur**: Cannot read properties of null (reading '' @ [CHR 0x27] @ ''categories'' @ [CHR 0x27] @ '')''),
               isError = True\<rparr>,
              [example_request ?args])"
    using failure_is_answered [where sv = V2_0_0 and P = ?P
        and W = "answering (success_with JNull)"
        and rq = "\<lparr>name = ''list_categories_by_website'', arguments = ?args\<rparr>"
        and shape = ListCategoriesByWebsiteArgsSchema and fmt = format_list_categories_by_website
        and data = ?args and result = JNull
        and e = "TypeError (''Cannot read properties of null (reading '' @ [CHR 0x27] @ ''categories'' @ [CHR 0x27] @ '')'')"
        and m = "(''Cannot read properties of null (reading '' @ [CHR 0x27] @ ''categories'' @ [CHR 0x27] @ '')'')"
        and reqs = "[example_request ?args]"]
      example_declared example_valid example_no_data [of ?args]
      example_formatter_throws [of ?args]
    by simp
  from a b c d show ?thesis by (intro conjI)
qed

section \<open>Errors of the gateway in the report\<close>

lemma call_reqs:
  "snd (callReferencimeAPI P W table t args) = [r] \<Longrightarrow>
   fst (callReferencimeAPI P W table t args) = unwrap_response P (fetch W r)"
  by (auto simp: callReferencimeAPI_def Let_def split: sum.splits option.splits)

lemma dispatch_reqs:
  assumes "snd (dispatch ts table P W rq) = [r]"
  obtains shape fmt data where
    "map_of ts (name rq) = Some (shape, fmt)"
    "safeParse shape (arguments rq) = Inr data"
    "snd (callReferencimeAPI P W table (name rq) data) = [r]"
    "fst (dispatch ts table P W rq)
       = bindE (unwrap_response P (fetch W r)) (\<lambda>result. fmt P result data)"
  using assms
  by (auto simp: dispatch_def tool_case_def Let_def call_reqs split: option.splits sum.splits)

lemma finish_error: "fst x = Inl e \<Longrightarrow> fst (finish x) = error_report e"
  by (simp add: finish_def)

lemma sublist_mid: "sublist m (a @ m @ b)"
  by (rule sublist_appendI)

text \<open>
  C5. When the backend answers the request of a tool call with an HTTP status outside
  200..299, the gateway fails with the error "Erreur API WordPress: status statusText",
  and the report of the call is error-flagged with a text that contains the decimal
  numeral of the status.
\<close>

theorem http_error_is_reported:
  assumes "snd (call_tool sv P W rq) = [r]"
    and "fetch W r = Response st stt b"
    and "\<not> response_ok st"
  shows "unwrap_response P (fetch W r)
           = Inl (Error (''Erreur API WordPress: '' @ nat_str st @ '' '' @ stt))
         \<and> fst (call_tool sv P W rq)
           = error_report (Error (''Erreur API WordPress: '' @ nat_str st @ '' '' @ stt))
         \<and> isError (fst (call_tool sv P W rq))
         \<and> sublist (nat_str st) (text_of (fst (call_tool sv P W rq)))"
proof -
  let ?e = "Error (''Erreur API WordPress: '' @ nat_str st @ '' '' @ stt)"
  have u: "unwrap_response P (fetch W r) = Inl ?e"
    using assms(2,3) by (simp add: unwrap_response_def)
  from assms(1) have "snd (dispatch (tools_of sv) (endpoints_of sv) P W rq) = [r]"
    by (simp add: call_tool_def snd_finish)
  then obtain shape :: zod_object and fmt :: formatter and data :: jsval where
    "fst (dispatch (tools_of sv) (endpoints_of sv) P W rq)
       = bindE (unwrap_response P (fetch W r)) (\<lambda>result. fmt P result data)"
    by (rule dispatch_reqs)
  with u have "fst (dispatch (tools_of sv) (endpoints_of sv) P W rq) = Inl ?e" by simp
  then have rep: "fst (call_tool sv P W rq) = error_report ?e"
    by (simp add: call_tool_def finish_error)
  have "text_of (error_report ?e)
          = ([CHR 0xE2, CHR 0x9D, CHR 0x8C] @ '' **Erreur**: Erreur API WordPress: '')
            @ nat_str st @ ('' '' @ stt)"
    by (simp add: error_report_def)
  then have "sublist (nat_str st) (text_of (error_report ?e))"
    by (simp only: sublist_appendI)
  with u rep show ?thesis by (simp add: error_report_def)
qed

lemma get_JObj: "get (JObj kvs) k = Inr (own kvs k)"
  by (simp add: own_def)

lemma bindE_Inl_result: "(\<And>v. \<exists>e. f v = Inl e) \<Longrightarrow> \<exists>e. bindE m f = Inl e"
  by (cases m) auto

lemma unwrap_not_success:
  assumes "response_ok st" and "\<not> truthy (own kvs ''success'')"
  shows "unwrap_response P (Response st stt (Inr (JObj kvs)))
         = bindE (to_str P (or_else (own kvs ''message'') (JStr ''Erreur inconnue'')))
             (\<lambda>ms. Inl (Error (''Erreur dans la r'' @ [CHR 0xC3, CHR 0xA9] @ ''ponse API: '' @ ms)))"
  using assms by (simp add: unwrap_response_def own_def)

lemma digit_value_digit_char: "d < 10 \<Longrightarrow> digit_value (digit_char d) = Some d"
proof -
  assume "d < 10"
  then have "d \<in> {0, 1, 2, 3, 4, 5, 6, 7, 8, 9}" by auto
  then show ?thesis by (auto simp: digit_char_def)
qed

lemma parse_nat_append:
  "parse_nat a (xs @ ys) = (case parse_nat a xs of None \<Rightarrow> None | Some b \<Rightarrow> parse_nat b ys)"
  by (induction xs arbitrary: a) (auto split: option.splits)

lemma parse_nat_nat_str: "parse_nat 0 (nat_str n) = Some n"
proof (induction n rule: nat_str.induct)
  case (1 n)
  show ?case
  proof (cases "n < 10")
    case True
    then show ?thesis
      by (subst nat_str.simps) (simp add: digit_value_digit_char del: digit_value.simps)
  next
    case False
    with 1 have ih: "parse_nat 0 (nat_str (n div 10)) = Some (n div 10)" by simp
    have "n mod 10 < 10" by simp
    then have dv: "digit_value (digit_char (n mod 10)) = Some (n mod 10)"
      by (rule digit_value_digit_char)
    show ?thesis
      using False ih dv
      by (subst nat_str.simps) (simp add: parse_nat_append del: digit_value.simps)
  qed
qed

text \<open>
  C4, amended. When the backend answers with an HTTP status in 200..299 and a JSON object
  whose field \<^verbatim>\<open>success\<close> is false or absent, the gateway fails with the error
  "Erreur dans la reponse API: " followed by the message, and the call is reported as an
  error with that text after the error mark. With a string in the field
  \<^verbatim>\<open>message\<close> the message is that string, which the text of the report contains (the
  empty string is replaced by the fallback "Erreur inconnue"). Without the field the
  message is the fallback.
\<close>

theorem backend_failure_is_reported:
  assumes "snd (call_tool sv P W rq) = [r]"
    and "fetch W r = Response st stt (Inr (JObj kvs))"
    and "response_ok st"
    and "map_of kvs ''success'' = None \<or> map_of kvs ''success'' = Some (JBool False)"
  shows "isError (fst (call_tool sv P W rq))
         \<and> (map_of kvs ''message'' = Some (JStr m) \<longrightarrow>
              unwrap_response P (fetch W r)
                = Inl (Error ((''Erreur dans la r'' @ [CHR 0xC3, CHR 0xA9] @ ''ponse API: '')
                              @ (if m = [] then ''Erreur inconnue'' else m)))
              \<and> fst (call_tool sv P W rq)
                = \<lparr>text_of = ([CHR 0xE2, CHR 0x9D, CHR 0x8C] @ '' **Erreur**: '') @ (''Erreur dans la r'' @ [CHR 0xC3, CHR 0xA9] @ ''ponse API: '')
                               @ (if m = [] then ''Erreur inconnue'' else m),
                   isError = True\<rparr>
              \<and> sublist m (text_of (fst (call_tool sv P W rq))))
         \<and> (map_of kvs ''message'' = None \<longrightarrow>
              unwrap_response P (fetch W r)
                = Inl (Error ((''Erreur dans la r'' @ [CHR 0xC3, CHR 0xA9] @ ''ponse API: '') @ ''Erreur inconnue''))
              \<and> fst (call_tool sv P W rq)
                = \<lparr>text_of = ([CHR 0xE2, CHR 0x9D, CHR 0x8C] @ '' **Erreur**: '') @ (''Erreur dans la r'' @ [CHR 0xC3, CHR 0xA9] @ ''ponse API: '')
                               @ ''Erreur inconnue'',
                   isError = True\<rparr>)"
proof -
  let ?pre = "(''Erreur dans la r'' @ [CHR 0xC3, CHR 0xA9] @ ''ponse API: '')"
  let ?u = "unwrap_response P (fetch W r)"
  from assms(4) have falsy: "\<not> truthy (own kvs ''success'')"
    by (auto simp: own_def)
  have u: "?u = bindE (to_str P (or_else (own kvs ''message'') (JStr ''Erreur inconnue'')))
                  (\<lambda>ms. Inl (Error (?pre @ ms)))"
    using assms(2,3) falsy by (simp add: unwrap_not_success)
  from assms(1) have "snd (dispatch (tools_of sv) (endpoints_of sv) P W rq) = [r]"
    by (simp add: call_tool_def snd_finish)
  then obtain shape :: zod_object and fmt :: formatter and data :: jsval where
    d: "fst (dispatch (tools_of sv) (endpoints_of sv) P W rq)
          = bindE ?u (\<lambda>result. fmt P result data)"
    by (rule dispatch_reqs)
  have rep: "fst (call_tool sv P W rq) = \<lparr>text_of = ([CHR 0xE2, CHR 0x9D, CHR 0x8C] @ '' **Erreur**: '') @ t, isError = True\<rparr>"
    if "?u = Inl (Error t)" for t
    using that d by (simp add: call_tool_def finish_error error_report_def)
  have "\<exists>e. ?u = Inl e"
    unfolding u by (rule bindE_Inl_result) simp
  then obtain e where "?u = Inl e" ..
  with d have "fst (call_tool sv P W rq) = error_report e"
    by (simp add: call_tool_def finish_error)
  then have flagged: "isError (fst (call_tool sv P W rq))"
    by (simp add: error_report_def)
  have with_message:
    "?u = Inl (Error (?pre @ (if m = [] then ''Erreur inconnue'' else m)))
     \<and> fst (call_tool sv P W rq)
       = \<lparr>text_of = ([CHR 0xE2, CHR 0x9D, CHR 0x8C] @ '' **Erreur**: '') @ ?pre @ (if m = [] then ''Erreur inconnue'' else m),
          isError = True\<rparr>
     \<and> sublist m (text_of (fst (call_tool sv P W rq)))"
    if "map_of kvs ''message'' = Some (JStr m)"
  proof -
    from that have v: "?u = Inl (Error (?pre @ (if m = [] then ''Erreur inconnue'' else m)))"
      unfolding u by (simp add: own_def or_else_def)
    then have r: "fst (call_tool sv P W rq)
       = \<lparr>text_of = ([CHR 0xE2, CHR 0x9D, CHR 0x8C] @ '' **Erreur**: '') @ ?pre @ (if m = [] then ''Erreur inconnue'' else m),
          isError = True\<rparr>"
      by (rule rep)
    have "sublist m ((([CHR 0xE2, CHR 0x9D, CHR 0x8C] @ '' **Erreur**: '') @ ?pre) @ m @ [])"
      by (rule sublist_appendI)
    then have "sublist m (text_of (fst (call_tool sv P W rq)))"
      using r by (cases "m = []") simp_all
    with v r show ?thesis by (intro conjI)
  qed
  have without_message:
    "?u = Inl (Error (?pre @ ''Erreur inconnue''))
     \<and> fst (call_tool sv P W rq)
       = \<lparr>text_of = ([CHR 0xE2, CHR 0x9D, CHR 0x8C] @ '' **Erreur**: '') @ ?pre @ ''Erreur inconnue'', isError = True\<rparr>"
    if "map_of kvs ''message'' = None"
  proof -
    from that have v: "?u = Inl (Error (?pre @ ''Erreur inconnue''))"
      unfolding u by (simp add: own_def or_else_def)
    from v rep [OF v] show ?thesis by (intro conjI)
  qed
  show ?thesis
  proof (intro conjI impI)
    show "isError (fst (call_tool sv P W rq))" by (rule flagged)
  next
    assume "map_of kvs ''message'' = Some (JStr m)"
    from with_message [OF this]
    show "unwrap_response P (fetch W r)
            = Inl (Error ((''Erreur dans la r'' @ [CHR 0xC3, CHR 0xA9] @ ''ponse API: '')
                          @ (if m = [] then ''Erreur inconnue'' else m)))"
      by (rule conjunct1)
  next
    assume "map_of kvs ''message'' = Some (JStr m)"
    from with_message [OF this]
    show "fst (call_tool sv P W rq)
            = \<lparr>text_of = ([CHR 0xE2, CHR 0x9D, CHR 0x8C] @ '' **Erreur**: '') @ (''Erreur dans la r'' @ [CHR 0xC3, CHR 0xA9] @ ''ponse API: '')
                           @ (if m = [] then ''Erreur inconnue'' else m),
               isError = True\<rparr>"
      by (rule conjunct2 [THEN conjunct1])
  next
    assume "map_of kvs ''message'' = Some (JStr m)"
    from with_message [OF this]
    show "sublist m (text_of (fst (call_tool sv P W rq)))"
      by (rule conjunct2 [THEN conjunct2])
  next
    assume "map_of kvs ''message'' = None"
    from without_message [OF this]
    show "unwrap_response P (fetch W r)
            = Inl (Error ((''Erreur dans la r'' @ [CHR 0xC3, CHR 0xA9] @ ''ponse API: '') @ ''Erreur inconnue''))"
      by (rule conjunct1)
  next
    assume "map_of kvs ''message'' = None"
    from without_message [OF this]
    show "fst (call_tool sv P W rq)
            = \<lparr>text_of = ([CHR 0xE2, CHR 0x9D, CHR 0x8C] @ '' **Erreur**: '') @ (''Erreur dans la r'' @ [CHR 0xC3, CHR 0xA9] @ ''ponse API: '')
                           @ ''Erreur inconnue'',
               isError = True\<rparr>"
      by (rule conjunct2)
  qed
qed

lemma example_reqs:
  "snd (call_tool V2_0_0 example_runtime (answering outcome)
          \<lparr>name = ''list_categories_by_website'',
           arguments = JObj [(''website_id'', JNum (Finite 7))]\<rparr>)
   = [example_request (JObj [(''website_id'', JNum (Finite 7))])]"
  by (simp add: call_tool_def snd_finish dispatch_def tool_case_def tools_def Let_def
      example_valid callReferencimeAPI_def getApiKey_def answering_def endpoints_def
      baseURL_def example_request_def del: safeParse.simps)

lemma fetch_answering: "fetch (answering outcome) r = outcome"
  by (simp add: answering_def)

theorem http_error_is_reported_witness:
  "\<not> response_ok 503
   \<and> isError (fst (call_tool V2_0_0 example_runtime
         (answering (Response 503 ''Service Unavailable'' (Inl (SyntaxError ''Unexpected token''))))
         \<lparr>name = ''list_categories_by_website'',
          arguments = JObj [(''website_id'', JNum (Finite 7))]\<rparr>))
   \<and> sublist ''503'' (text_of (fst (call_tool V2_0_0 example_runtime
         (answering (Response 503 ''Service Unavailable'' (Inl (SyntaxError ''Unexpected token''))))
         \<lparr>name = ''list_categories_by_website'',
          arguments = JObj [(''website_id'', JNum (Finite 7))]\<rparr>)))"
proof -
  have ok: "\<not> response_ok 503" by (simp add: response_ok_def)
  have n: "nat_str 503 = ''503''" by (simp add: nat_str.simps digit_char_def)
  note t = http_error_is_reported [OF example_reqs
      fetch_answering [of "Response 503 ''Service Unavailable'' (Inl (SyntaxError ''Unexpected token''))"]
      ok]
  from t have "isError (fst (call_tool V2_0_0 example_runtime
         (answering (Response 503 ''Service Unavailable'' (Inl (SyntaxError ''Unexpected token''))))
         \<lparr>name = ''list_categories_by_website'',
          arguments = JObj [(''website_id'', JNum (Finite 7))]\<rparr>))"
    by blast
  moreover from t have "sublist (nat_str 503) (text_of (fst (call_tool V2_0_0 example_runtime
         (answering (Response 503 ''Service Unavailable'' (Inl (SyntaxError ''Unexpected token''))))
         \<lparr>name = ''list_categories_by_website'',
          arguments = JObj [(''website_id'', JNum (Finite 7))]\<rparr>)))"
    by blast
  ultimately show ?thesis
    using ok by (simp only: n simp_thms)
qed

text \<open>
  C4, as stated, fails when the HTTP status is outside 200..299: the gateway tests
  \<^verbatim>\<open>response.ok\<close> before it reads the body. A response 404 whose body is
  \<^verbatim>\<open>{"success": false, "message": "Site introuvable"}\<close> is reported with the status
  and the status text, and the message of the body is not in the report.
\<close>

theorem status_hides_backend_message:
  "call_tool V2_0_0 example_runtime
      (answering (Response 404 ''Not Found''
         (Inr (JObj [(''success'', JBool False), (''message'', JStr ''Site introuvable'')]))))
      \<lparr>name = ''list_categories_by_website'',
       arguments = JObj [(''website_id'', JNum (Finite 7))]\<rparr>
   = (\<lparr>text_of = ([CHR 0xE2, CHR 0x9D, CHR 0x8C] @ '' **Erreur**: Erreur API WordPress: 404 Not Found''), isError = True\<rparr>,
      [example_request (JObj [(''website_id'', JNum (Finite 7))])])
   \<and> \<not> sublist ''Site introuvable'' (([CHR 0xE2, CHR 0x9D, CHR 0x8C] @ '' **Erreur**: Erreur API WordPress: 404 Not Found''))"
proof -
  have "call_tool V2_0_0 example_runtime
      (answering (Response 404 ''Not Found''
         (Inr (JObj [(''success'', JBool False), (''message'', JStr ''Site introuvable'')]))))
      \<lparr>name = ''list_categories_by_website'',
       arguments = JObj [(''website_id'', JNum (Finite 7))]\<rparr>
   = (\<lparr>text_of = ([CHR 0xE2, CHR 0x9D, CHR 0x8C] @ '' **Erreur**: Erreur API WordPress: 404 Not Found''), isError = True\<rparr>,
      [example_request (JObj [(''website_id'', JNum (Finite 7))])])"
    by (simp add: call_tool_def finish_def dispatch_def tool_case_def tools_def Let_def
        example_valid callReferencimeAPI_def getApiKey_def answering_def endpoints_def
        baseURL_def example_request_def unwrap_response_def response_ok_def error_report_def
        nat_str.simps digit_char_def del: safeParse.simps)
  moreover have "\<not> sublist ''Site introuvable'' (([CHR 0xE2, CHR 0x9D, CHR 0x8C] @ '' **Erreur**: Erreur API WordPress: 404 Not Found''))"
    by (simp add: sublist_Cons_right)
  ultimately show ?thesis by (rule conjI)
qed

theorem backend_failure_is_reported_witness:
  "isError (fst (call_tool V2_0_0 example_runtime
       (answering (Response 200 ''OK''
          (Inr (JObj [(''success'', JBool False), (''message'', JStr ''Site introuvable'')]))))
       \<lparr>name = ''list_categories_by_website'',
        arguments = JObj [(''website_id'', JNum (Finite 7))]\<rparr>))
   \<and> fst (call_tool V2_0_0 example_runtime
       (answering (Response 200 ''OK''
          (Inr (JObj [(''success'', JBool False), (''message'', JStr ''Site introuvable'')]))))
       \<lparr>name = ''list_categories_by_website'',
        arguments = JObj [(''website_id'', JNum (Finite 7))]\<rparr>)
     = \<lparr>text_of = ([CHR 0xE2, CHR 0x9D, CHR 0x8C] @ '' **Erreur**: Erreur dans la r'' @ [CHR 0xC3, CHR 0xA9] @ ''ponse API: Site introuvable''),
        isError = True\<rparr>
   \<and> sublist ''Site introuvable'' (text_of (fst (call_tool V2_0_0 example_runtime
       (answering (Response 200 ''OK''
          (Inr (JObj [(''success'', JBool False), (''message'', JStr ''Site introuvable'')]))))
       \<lparr>name = ''list_categories_by_website'',
        arguments = JObj [(''website_id'', JNum (Finite 7))]\<rparr>)))
   \<and> fst (call_tool V2_0_0 example_runtime
       (answering (Response 200 ''OK'' (Inr (JObj []))))
       \<lparr>name = ''list_categories_by_website'',
        arguments = JObj [(''website_id'', JNum (Finite 7))]\<rparr>)
     = \<lparr>text_of = ([CHR 0xE2, CHR 0x9D, CHR 0x8C] @ '' **Erreur**: Erreur dans la r'' @ [CHR 0xC3, CHR 0xA9] @ ''ponse API: Erreur inconnue''),
        isError = True\<rparr>"
proof -
  have ok: "response_ok 200" by (simp add: response_ok_def)
  have a: "map_of [(''success'', JBool False), (''message'', JStr ''Site introuvable'')] ''success''
             = None
           \<or> map_of [(''success'', JBool False), (''message'', JStr ''Site introuvable'')] ''success''
             = Some (JBool False)"
    by simp
  have am: "map_of [(''success'', JBool False), (''message'', JStr ''Site introuvable'')] ''message''
             = Some (JStr ''Site introuvable'')"
    by simp
  have b: "map_of ([] :: (string \<times> jsval) list) ''success'' = None
           \<or> map_of ([] :: (string \<times> jsval) list) ''success'' = Some (JBool False)"
    by simp
  have bm: "map_of ([] :: (string \<times> jsval) list) ''message'' = None"
    by simp
  note t1 = backend_failure_is_reported [OF example_reqs fetch_answering ok a,
      where m = "''Site introuvable''" and stt = "''OK''"]
  note t2 = backend_failure_is_reported [OF example_reqs fetch_answering ok b,
      where m = "''x''" and stt = "''OK''"]
  from t1 have 1: "isError (fst (call_tool V2_0_0 example_runtime
       (answering (Response 200 ''OK''
          (Inr (JObj [(''success'', JBool False), (''message'', JStr ''Site introuvable'')]))))
       \<lparr>name = ''list_categories_by_website'',
        arguments = JObj [(''website_id'', JNum (Finite 7))]\<rparr>))"
    by (rule conjunct1)
  note f = t1 [THEN conjunct2, THEN conjunct1, THEN mp, OF am]
  have 2: "fst (call_tool V2_0_0 example_runtime
       (answering (Response 200 ''OK''
          (Inr (JObj [(''success'', JBool False), (''message'', JStr ''Site introuvable'')]))))
       \<lparr>name = ''list_categories_by_website'',
        arguments = JObj [(''website_id'', JNum (Finite 7))]\<rparr>)
     = \<lparr>text_of = ([CHR 0xE2, CHR 0x9D, CHR 0x8C] @ '' **Erreur**: Erreur dans la r'' @ [CHR 0xC3, CHR 0xA9] @ ''ponse API: Site introuvable''),
        isError = True\<rparr>"
    using f [THEN conjunct2, THEN conjunct1] by simp
  have 3: "sublist ''Site introuvable'' (text_of (fst (call_tool V2_0_0 example_runtime
       (answering (Response 200 ''OK''
          (Inr (JObj [(''success'', JBool False), (''message'', JStr ''Site introuvable'')]))))
       \<lparr>name = ''list_categories_by_website'',
        arguments = JObj [(''website_id'', JNum (Finite 7))]\<rparr>)))"
    by (rule f [THEN conjunct2, THEN conjunct2])
  from t2 [THEN conjunct2, THEN conjunct2, THEN mp, OF bm, THEN conjunct2]
  have 4: "fst (call_tool V2_0_0 example_runtime
       (answering (Response 200 ''OK'' (Inr (JObj []))))
       \<lparr>name = ''list_categories_by_website'',
        arguments = JObj [(''website_id'', JNum (Finite 7))]\<rparr>)
     = \<lparr>text_of = ([CHR 0xE2, CHR 0x9D, CHR 0x8C] @ '' **Erreur**: Erreur dans la r'' @ [CHR 0xC3, CHR 0xA9] @ ''ponse API: Erreur inconnue''),
        isError = True\<rparr>"
    by simp
  from 1 2 3 4 show ?thesis by (intro conjI)
qed

section \<open>Validation of the arguments\<close>

lemma concat_fst_empty: "concat (map f xs) = [] \<longleftrightarrow> (\<forall>x\<in>set xs. f x = [])"
  by (induction xs) auto

lemma set_enumerate_snd: "snd ` set (enumerate n xs) = set xs"
  by (induction xs arbitrary: n) auto

lemma zod_parse_accepts: "fst (zod_parse t p v) = [] \<longleftrightarrow> accepts t v"
proof (induction t arbitrary: p v)
  case ZNumber
  then show ?case by (auto split: jsval.splits option.splits)
next
  case ZBoolean
  then show ?case by (auto split: jsval.splits)
next
  case ZString
  then show ?case by (auto split: jsval.splits)
next
  case (ZArray t)
  show ?case
  proof (cases v)
    case (JArr xs)
    have "(\<forall>ix\<in>set (enumerate 0 xs). fst (zod_parse t (p @ [nat_str (fst ix)]) (snd ix)) = [])
          \<longleftrightarrow> (\<forall>x\<in>set xs. accepts t x)"
      using ZArray set_enumerate_snd [of 0 xs] by (metis (no_types, lifting) imageE imageI)
    then show ?thesis
      using JArr by (simp add: Let_def concat_fst_empty list_all_iff comp_def)
  qed simp_all
next
  case (ZOptional t)
  then show ?case by simp
next
  case (ZDefault t d)
  then show ?case by simp
qed

lemma map_snd_enumerate_id:
  "(\<And>i x. x \<in> set xs \<Longrightarrow> f (i, x) = x) \<Longrightarrow> map f (enumerate n xs) = xs"
  by (induction xs arbitrary: n) auto

lemma zod_parse_id: "accepts t v \<Longrightarrow> is_json v \<Longrightarrow> snd (zod_parse t p v) = v"
proof (induction t arbitrary: p v)
  case (ZArray t)
  then obtain xs where v: "v = JArr xs" by (cases v) auto
  with ZArray.prems have "\<And>x. x \<in> set xs \<Longrightarrow> accepts t x \<and> is_json x"
    by (auto simp: list_all_iff)
  then have "map (\<lambda>ix. snd (zod_parse t (p @ [nat_str (fst ix)]) (snd ix))) (enumerate 0 xs) = xs"
    using ZArray.IH by (intro map_snd_enumerate_id) auto
  then show ?case using v by (simp add: Let_def comp_def)
next
  case (ZOptional t)
  then show ?case by auto
next
  case (ZDefault t d)
  then show ?case by auto
qed (auto split: jsval.splits option.splits)

lemma fst_parse_field: "fst (parse_field kvs f) = [] \<longleftrightarrow> accepts (snd f) (own kvs (fst f))"
  by (simp add: parse_field_def Let_def zod_parse_accepts)

lemma safeParse_Inr_iff:
  "safeParse shape (JObj kvs) = Inr d \<longleftrightarrow>
     (\<forall>f\<in>set shape. accepts (snd f) (own kvs (fst f)))
     \<and> d = JObj (concat (map (\<lambda>f. snd (parse_field kvs f)) shape))"
  by (auto simp: Let_def concat_fst_empty fst_parse_field comp_def)

lemma safeParse_Inl_iff:
  "(\<exists>issues. safeParse shape (JObj kvs) = Inl issues) \<longleftrightarrow>
     (\<exists>f\<in>set shape. \<not> accepts (snd f) (own kvs (fst f)))"
  by (auto simp: Let_def concat_fst_empty fst_parse_field comp_def)

lemma required_rejects_undefined: "is_required t \<Longrightarrow> \<not> accepts t JUndef"
  by (cases t) auto

lemma invalid_arguments_rejected:
  assumes "missing_required shape kvs \<or> wrong_type shape kvs"
  shows "\<exists>issues. safeParse shape (JObj kvs) = Inl issues"
proof -
  from assms obtain f where f: "f \<in> set shape"
    and bad: "(is_required (snd f) \<and> map_of kvs (fst f) = None)
              \<or> (\<exists>v. map_of kvs (fst f) = Some v \<and> \<not> accepts (snd f) v)"
    by (auto simp: missing_required_def wrong_type_def list_ex_iff split: option.splits)
  from bad have "\<not> accepts (snd f) (own kvs (fst f))"
    by (auto simp: own_def required_rejects_undefined)
  with f show ?thesis
    unfolding safeParse_Inl_iff by blast
qed

lemma own_Some: "map_of kvs k = Some v \<Longrightarrow> own kvs k = v"
  by (simp add: own_def)

lemma own_None: "map_of kvs k = None \<Longrightarrow> own kvs k = JUndef"
  by (simp add: own_def)

lemma parse_field_agree:
  assumes "map_of kvs' (fst f) = map_of kvs (fst f)"
  shows "parse_field kvs' f = parse_field kvs f"
proof -
  from assms have "fst f \<in> fst ` set kvs' \<longleftrightarrow> fst f \<in> fst ` set kvs"
    by (metis map_of_eq_None_iff)
  with assms show ?thesis
    by (simp add: parse_field_def own_def)
qed

lemma safeParse_agree:
  assumes "\<forall>f\<in>set shape. map_of kvs' (fst f) = map_of kvs (fst f)"
  shows "safeParse shape (JObj kvs') = safeParse shape (JObj kvs)"
proof -
  have m: "map (parse_field kvs') shape = map (parse_field kvs) shape"
  proof (rule map_cong [OF refl])
    fix f assume "f \<in> set shape"
    with assms show "parse_field kvs' f = parse_field kvs f"
      by (intro parse_field_agree) simp
  qed
  show ?thesis
    unfolding safeParse.simps m by (rule refl)
qed

lemma keys_parse_field: "fst ` set (snd (parse_field kvs f)) \<subseteq> {fst f}"
  by (auto simp: parse_field_def Let_def)

lemma keys_parsed:
  "fst ` set (concat (map (\<lambda>f. snd (parse_field kvs f)) shape)) \<subseteq> fst ` set shape"
proof (induction shape)
  case Nil
  then show ?case by simp
next
  case (Cons g shape)
  have "fst ` set (snd (parse_field kvs g)) \<subseteq> {fst g}" by (rule keys_parse_field)
  with Cons show ?case by (simp add: image_Un) blast
qed

lemma map_of_parsed:
  "distinct (map fst shape) \<Longrightarrow> f \<in> set shape \<Longrightarrow>
   map_of (concat (map (\<lambda>f. snd (parse_field kvs f)) shape)) (fst f)
     = map_of (snd (parse_field kvs f)) (fst f)"
proof (induction shape)
  case Nil
  then show ?case by simp
next
  case (Cons g shape)
  show ?case
  proof (cases "f = g")
    case True
    from Cons.prems(1) have "fst g \<notin> fst ` set shape" by simp
    with keys_parsed [of kvs shape]
    have "fst g \<notin> fst ` set (concat (map (\<lambda>f. snd (parse_field kvs f)) shape))"
      by blast
    then have "map_of (concat (map (\<lambda>f. snd (parse_field kvs f)) shape)) (fst g) = None"
      by (metis map_of_eq_None_iff)
    then show ?thesis using True by (simp add: map_add_def split: option.splits)
  next
    case False
    with Cons.prems have in_rest: "f \<in> set shape" by simp
    from Cons.prems(1) have "fst g \<notin> fst ` set shape" by simp
    with in_rest have ne: "fst f \<noteq> fst g" by (metis imageI)
    have "fst f \<notin> fst ` set (snd (parse_field kvs g))"
      using keys_parse_field [of kvs g] ne by blast
    then have "map_of (snd (parse_field kvs g)) (fst f) = None"
      by (metis map_of_eq_None_iff)
    moreover from Cons.prems(1) have "distinct (map fst shape)" by simp
    ultimately show ?thesis
      using Cons.IH in_rest by (simp add: map_add_def)
  qed
qed

lemma parsed_field_value:
  assumes "well_declared shape" and "(k, t) \<in> set shape"
    and "accepts t (own kvs k)" and "list_all (\<lambda>kv. is_json (snd kv)) kvs"
  shows "map_of (snd (parse_field kvs (k, t))) k
         = (case map_of kvs k of Some v \<Rightarrow> Some v | None \<Rightarrow> default_of t)"
proof (cases "map_of kvs k")
  case (Some v)
  then have "(k, v) \<in> set kvs" by (rule map_of_SomeD)
  with assms(4) have j: "is_json v" by (auto simp: list_all_iff)
  from Some assms(3) have "accepts t v" by (simp add: own_def)
  with j have "snd (zod_parse t [k] v) = v" by (simp add: zod_parse_id)
  with Some j show ?thesis
    by (auto simp: parse_field_def Let_def own_def)
next
  case None
  then have absent: "k \<notin> fst ` set kvs" by (simp add: map_of_eq_None_iff)
  show ?thesis
  proof (cases t)
    case (ZDefault t' d)
    from assms(1,2) ZDefault have j: "is_json d"
      by (auto simp: well_declared_def list_all_iff)
    from assms(3) None ZDefault have "accepts t' d" by (simp add: own_def)
    with j have "snd (zod_parse t' [k] d) = d" by (simp add: zod_parse_id)
    with None absent ZDefault j show ?thesis
      by (auto simp: parse_field_def Let_def own_def)
  next
    case (ZOptional t')
    with None absent show ?thesis by (simp add: parse_field_def Let_def own_def)
  next
    case ZNumber
    with assms(3) None show ?thesis by (simp add: own_def)
  next
    case ZBoolean
    with assms(3) None show ?thesis by (simp add: own_def)
  next
    case ZString
    with assms(3) None show ?thesis by (simp add: own_def)
  next
    case (ZArray t')
    with assms(3) None show ?thesis by (simp add: own_def)
  qed
qed

lemma declared_schemas:
  assumes "map_of (tools_of sv) n = Some (shape, fmt)"
  shows "well_declared shape"
proof -
  from assms have "(n, shape, fmt) \<in> set (tools_of sv)" by (rule map_of_SomeD)
  then have "shape \<in> {ListWebsitesByUserArgsSchema, ListCategoriesByWebsiteArgsSchema,
      ListKeywordsByWebsiteArgsSchema, ListKeywordsByCategoriesByWebsiteArgsSchema,
      WebsiteSummaryArgsSchema, AnalyzeKeywordArgsSchema, PositionEvolutionArgsSchema,
      CompareKeywordsArgsSchema, RankingChangesArgsSchema, ListUserWebsitesArgsSchema,
      GetKeywordsByCategoriesArgsSchema}"
    by (cases sv) (auto simp: tools_def tools_v1_def)
  then show ?thesis
    by (auto simp: well_declared_def ListWebsitesByUserArgsSchema_def
        ListCategoriesByWebsiteArgsSchema_def ListKeywordsByWebsiteArgsSchema_def
        ListKeywordsByCategoriesByWebsiteArgsSchema_def WebsiteSummaryArgsSchema_def
        AnalyzeKeywordArgsSchema_def PositionEvolutionArgsSchema_def
        CompareKeywordsArgsSchema_def RankingChangesArgsSchema_def
        ListUserWebsitesArgsSchema_def GetKeywordsByCategoriesArgsSchema_def)
qed

text \<open>
  C6. For every declared tool of either server: when the argument mapping misses a
  required field of the tool's schema, or gives a declared field a value of the wrong
  type, the report of the call is error-flagged, its text contains the name of the
  tool, and the call issues no HTTP request.
\<close>

theorem invalid_arguments_are_reported:
  assumes "map_of (tools_of sv) (name rq) = Some (shape, fmt)"
    and "arguments rq = JObj kvs"
    and "missing_required shape kvs \<or> wrong_type shape kvs"
  shows "isError (fst (call_tool sv P W rq))
         \<and> sublist (name rq) (text_of (fst (call_tool sv P W rq)))
         \<and> snd (call_tool sv P W rq) = []"
proof -
  from assms(2,3) obtain issues where "safeParse shape (arguments rq) = Inl issues"
    using invalid_arguments_rejected by metis
  with assms(1) have c: "call_tool sv P W rq =
      (error_report (Error (''Arguments invalides pour '' @ name rq @ '': ''
                            @ zod_error_message P issues)), [])"
    by (simp add: call_tool_def dispatch_invalid finish_Inl)
  have "text_of (error_report (Error (''Arguments invalides pour '' @ name rq @ '': ''
                            @ zod_error_message P issues)))
        = ([CHR 0xE2, CHR 0x9D, CHR 0x8C] @ '' **Erreur**: Arguments invalides pour '')
          @ name rq @ ('': '' @ zod_error_message P issues)"
    by (simp add: error_report_def)
  then have "sublist (name rq) (text_of (error_report (Error (''Arguments invalides pour ''
                @ name rq @ '': '' @ zod_error_message P issues))))"
    by (simp only: sublist_appendI)
  with c show ?thesis by (simp add: error_report_def)
qed

lemma example_missing: "missing_required ListCategoriesByWebsiteArgsSchema []"
  by (simp add: missing_required_def ListCategoriesByWebsiteArgsSchema_def)

lemma example_wrong_type:
  "wrong_type ListCategoriesByWebsiteArgsSchema [(''website_id'', JStr ''7'')]"
  by (simp add: wrong_type_def ListCategoriesByWebsiteArgsSchema_def)

theorem invalid_arguments_are_reported_witness:
  "missing_required ListCategoriesByWebsiteArgsSchema []
   \<and> isError (fst (call_tool V2_0_0 example_runtime (answering (success_with JNull))
         \<lparr>name = ''list_categories_by_website'', arguments = JObj []\<rparr>))
   \<and> sublist ''list_categories_by_website''
         (text_of (fst (call_tool V2_0_0 example_runtime (answering (success_with JNull))
            \<lparr>name = ''list_categories_by_website'', arguments = JObj []\<rparr>)))
   \<and> snd (call_tool V2_0_0 example_runtime (answering (success_with JNull))
         \<lparr>name = ''list_categories_by_website'', arguments = JObj []\<rparr>) = []
   \<and> wrong_type ListCategoriesByWebsiteArgsSchema [(''website_id'', JStr ''7'')]
   \<and> isError (fst (call_tool V2_0_0 example_runtime (answering (success_with JNull))
         \<lparr>name = ''list_categories_by_website'',
          arguments = JObj [(''website_id'', JStr ''7'')]\<rparr>))
   \<and> snd (call_tool V2_0_0 example_runtime (answering (success_with JNull))
         \<lparr>name = ''list_categories_by_website'',
          arguments = JObj [(''website_id'', JStr ''7'')]\<rparr>) = []"
proof -
  let ?W = "answering (success_with JNull)"
  let ?r1 = "\<lparr>name = ''list_categories_by_website'', arguments = JObj []\<rparr>"
  let ?r2 = "\<lparr>name = ''list_categories_by_website'',
              arguments = JObj [(''website_id'', JStr ''7'')]\<rparr>"
  have d1: "map_of (tools_of V2_0_0) (name ?r1)
            = Some (ListCategoriesByWebsiteArgsSchema, format_list_categories_by_website)"
    using example_declared by simp
  have d2: "map_of (tools_of V2_0_0) (name ?r2)
            = Some (ListCategoriesByWebsiteArgsSchema, format_list_categories_by_website)"
    using example_declared by simp
  have a1: "arguments ?r1 = JObj []" by simp
  have a2: "arguments ?r2 = JObj [(''website_id'', JStr ''7'')]" by simp
  note t1 = invalid_arguments_are_reported [OF d1 a1 disjI1 [OF example_missing],
      of example_runtime ?W]
  note t2 = invalid_arguments_are_reported [OF d2 a2 disjI2 [OF example_wrong_type],
      of example_runtime ?W]
  have n: "name ?r1 = ''list_categories_by_website''" by simp
  show ?thesis
    using t1 t2 example_missing example_wrong_type unfolding n by blast
qed

lemma call_body: "snd (callReferencimeAPI P W table t args) = [r] \<Longrightarrow> body r = args"
  by (auto simp: callReferencimeAPI_def Let_def split: sum.splits option.splits)

text \<open>
  C7. For every declared tool of either server, validation
  \<^item> gives the same result on two argument mappings that agree on the declared fields:
    an undeclared field changes nothing, so it causes no error;
  \<^item> on success returns an object with declared fields only, in which a field present in
    the (JSON) arguments keeps exactly its value, and an absent field has its declared
    default, or stays absent when it has none;
  \<^item> fails when a declared field has a value of the wrong type: a string where a number
    is declared is never accepted;
  and the body of the request sent to the backend is the validated object.
\<close>

theorem validation_policy:
  assumes "map_of (tools_of sv) n = Some (shape, fmt)"
  shows "((\<forall>f\<in>set shape. map_of kvs' (fst f) = map_of kvs (fst f)) \<longrightarrow>
            safeParse shape (JObj kvs') = safeParse shape (JObj kvs))
         \<and> (safeParse shape (JObj kvs) = Inr d \<and> list_all (\<lambda>kv. is_json (snd kv)) kvs \<longrightarrow>
              (\<exists>out. d = JObj out \<and> fst ` set out \<subseteq> fst ` set shape
                 \<and> (\<forall>f\<in>set shape. map_of out (fst f)
                        = (case map_of kvs (fst f) of
                             Some v \<Rightarrow> Some v
                           | None \<Rightarrow> default_of (snd f)))))
         \<and> ((\<exists>f\<in>set shape. \<exists>v. map_of kvs (fst f) = Some v \<and> \<not> accepts (snd f) v) \<longrightarrow>
              (\<exists>issues. safeParse shape (JObj kvs) = Inl issues))
         \<and> \<not> accepts ZNumber (JStr s)
         \<and> (name rq = n \<and> snd (call_tool sv P W rq) = [r] \<longrightarrow>
              safeParse shape (arguments rq) = Inr (body r))"
proof (intro conjI impI)
  assume "\<forall>f\<in>set shape. map_of kvs' (fst f) = map_of kvs (fst f)"
  then show "safeParse shape (JObj kvs') = safeParse shape (JObj kvs)"
    by (rule safeParse_agree)
next
  assume a: "safeParse shape (JObj kvs) = Inr d \<and> list_all (\<lambda>kv. is_json (snd kv)) kvs"
  let ?out = "concat (map (\<lambda>f. snd (parse_field kvs f)) shape)"
  from a have "safeParse shape (JObj kvs) = Inr d" by (rule conjunct1)
  then have acc: "\<forall>f\<in>set shape. accepts (snd f) (own kvs (fst f))" and d: "d = JObj ?out"
    unfolding safeParse_Inr_iff by blast+
  from assms have wd: "well_declared shape" by (rule declared_schemas)
  have "map_of ?out (fst f)
          = (case map_of kvs (fst f) of Some v \<Rightarrow> Some v | None \<Rightarrow> default_of (snd f))"
    if f: "f \<in> set shape" for f
  proof -
    from wd have "distinct (map fst shape)" by (simp add: well_declared_def)
    then have "map_of ?out (fst f) = map_of (snd (parse_field kvs f)) (fst f)"
      using f by (rule map_of_parsed)
    also have "\<dots> = (case map_of kvs (fst f) of Some v \<Rightarrow> Some v | None \<Rightarrow> default_of (snd f))"
      using parsed_field_value [OF wd, of "fst f" "snd f" kvs] f acc a by simp
    finally show ?thesis .
  qed
  with d keys_parsed [of kvs shape]
  show "\<exists>out. d = JObj out \<and> fst ` set out \<subseteq> fst ` set shape
          \<and> (\<forall>f\<in>set shape. map_of out (fst f)
                = (case map_of kvs (fst f) of Some v \<Rightarrow> Some v | None \<Rightarrow> default_of (snd f)))"
    by blast
next
  assume "\<exists>f\<in>set shape. \<exists>v. map_of kvs (fst f) = Some v \<and> \<not> accepts (snd f) v"
  then obtain f v where "f \<in> set shape" "map_of kvs (fst f) = Some v" "\<not> accepts (snd f) v"
    by blast
  then have "\<exists>f\<in>set shape. \<not> accepts (snd f) (own kvs (fst f))"
    using own_Some by metis
  then show "\<exists>issues. safeParse shape (JObj kvs) = Inl issues"
    by (simp only: safeParse_Inl_iff)
next
  show "\<not> accepts ZNumber (JStr s)" by simp
next
  assume a: "name rq = n \<and> snd (call_tool sv P W rq) = [r]"
  then have "snd (dispatch (tools_of sv) (endpoints_of sv) P W rq) = [r]"
    by (simp add: call_tool_def snd_finish)
  then obtain shape' :: zod_object and fmt' :: formatter and data :: jsval where
    "map_of (tools_of sv) (name rq) = Some (shape', fmt')"
    "safeParse shape' (arguments rq) = Inr data"
    "snd (callReferencimeAPI P W (endpoints_of sv) (name rq) data) = [r]"
    by (rule dispatch_reqs)
  with a assms show "safeParse shape (arguments rq) = Inr (body r)"
    by (auto dest: call_body)
qed

lemma example_keywords_declared:
  "map_of (tools_of V2_0_0) ''list_keywords_by_website''
   = Some (ListKeywordsByWebsiteArgsSchema, format_list_keywords_by_website)"
  by (simp add: tools_def)

lemma example_extra_field:
  "safeParse ListKeywordsByWebsiteArgsSchema
     (JObj [(''website_id'', JNum (Finite 7)), (''debug'', JBool True)])
   = Inr (JObj [(''website_id'', JNum (Finite 7)), (''include_metrics'', JBool False)])"
  by (simp add: ListKeywordsByWebsiteArgsSchema_def parse_field_def own_def)

lemma example_default:
  "safeParse ListKeywordsByWebsiteArgsSchema (JObj [(''website_id'', JNum (Finite 7))])
   = Inr (JObj [(''website_id'', JNum (Finite 7)), (''include_metrics'', JBool False)])"
  by (simp add: ListKeywordsByWebsiteArgsSchema_def parse_field_def own_def)

lemma example_keywords_reqs:
  "snd (call_tool V2_0_0 example_runtime (answering outcome)
          \<lparr>name = ''list_keywords_by_website'',
           arguments = JObj [(''website_id'', JNum (Finite 7)), (''debug'', JBool True)]\<rparr>)
   = [example_keywords_request
        (JObj [(''website_id'', JNum (Finite 7)), (''include_metrics'', JBool False)])]"
  by (simp add: call_tool_def snd_finish dispatch_def tool_case_def tools_def Let_def
      example_extra_field callReferencimeAPI_def getApiKey_def answering_def endpoints_def
      baseURL_def example_keywords_request_def del: safeParse.simps)

theorem validation_policy_witness:
  "safeParse ListKeywordsByWebsiteArgsSchema
     (JObj [(''website_id'', JNum (Finite 7)), (''debug'', JBool True)])
   = safeParse ListKeywordsByWebsiteArgsSchema (JObj [(''website_id'', JNum (Finite 7))])
   \<and> (\<exists>out. JObj [(''website_id'', JNum (Finite 7)), (''include_metrics'', JBool False)] = JObj out
         \<and> fst ` set out \<subseteq> fst ` set ListKeywordsByWebsiteArgsSchema
         \<and> map_of out ''website_id'' = Some (JNum (Finite 7))
         \<and> map_of out ''include_metrics'' = Some (JBool False))
   \<and> (\<exists>issues. safeParse ListKeywordsByWebsiteArgsSchema (JObj [(''website_id'', JStr ''7'')])
                  = Inl issues)
   \<and> safeParse ListKeywordsByWebsiteArgsSchema
        (JObj [(''website_id'', JNum (Finite 7)), (''debug'', JBool True)])
      = Inr (body (example_keywords_request
               (JObj [(''website_id'', JNum (Finite 7)), (''include_metrics'', JBool False)])))"
proof -
  let ?S = ListKeywordsByWebsiteArgsSchema
  let ?kvs = "[(''website_id'', JNum (Finite 7))]"
  let ?kvs' = "[(''website_id'', JNum (Finite 7)), (''debug'', JBool True)]"
  let ?bad = "[(''website_id'', JStr ''7'')]"
  let ?out = "[(''website_id'', JNum (Finite 7)), (''include_metrics'', JBool False)]"
  let ?rq = "\<lparr>name = ''list_keywords_by_website'', arguments = JObj ?kvs'\<rparr>"
  note t = validation_policy [OF example_keywords_declared]
  have agree: "\<forall>f\<in>set ?S. map_of ?kvs' (fst f) = map_of ?kvs (fst f)"
    by (simp add: ListKeywordsByWebsiteArgsSchema_def)
  have 1: "safeParse ?S (JObj ?kvs') = safeParse ?S (JObj ?kvs)"
    by (rule t [THEN conjunct1, THEN mp, OF agree])
  have json: "list_all (\<lambda>kv. is_json (snd kv)) ?kvs" by simp
  from t [THEN conjunct2, THEN conjunct1, THEN mp, OF conjI [OF example_default json]]
  obtain out where out: "JObj ?out = JObj out" "fst ` set out \<subseteq> fst ` set ?S"
    and fields: "\<forall>f\<in>set ?S. map_of out (fst f)
                   = (case map_of ?kvs (fst f) of Some v \<Rightarrow> Some v | None \<Rightarrow> default_of (snd f))"
    by (elim exE conjE)
  from fields have "map_of out ''website_id'' = Some (JNum (Finite 7))"
    and "map_of out ''include_metrics'' = Some (JBool False)"
    by (simp_all add: ListKeywordsByWebsiteArgsSchema_def)
  with out have 2: "\<exists>out. JObj ?out = JObj out \<and> fst ` set out \<subseteq> fst ` set ?S
         \<and> map_of out ''website_id'' = Some (JNum (Finite 7))
         \<and> map_of out ''include_metrics'' = Some (JBool False)"
    by (intro exI [of _ out] conjI)
  have bad: "\<exists>f\<in>set ?S. \<exists>v. map_of ?bad (fst f) = Some v \<and> \<not> accepts (snd f) v"
    by (simp add: ListKeywordsByWebsiteArgsSchema_def)
  have 3: "\<exists>issues. safeParse ?S (JObj ?bad) = Inl issues"
    by (rule t [THEN conjunct2, THEN conjunct2, THEN conjunct1, THEN mp, OF bad])
  have n: "name ?rq = ''list_keywords_by_website''
           \<and> snd (call_tool V2_0_0 example_runtime (answering (success_with JNull)) ?rq)
             = [example_keywords_request (JObj ?out)]"
    using example_keywords_reqs [of "success_with JNull"] by simp
  have "safeParse ?S (arguments ?rq) = Inr (body (example_keywords_request (JObj ?out)))"
    by (rule t [THEN conjunct2, THEN conjunct2, THEN conjunct2, THEN conjunct2, THEN mp, OF n])
  then have 4: "safeParse ?S (JObj ?kvs') = Inr (body (example_keywords_request (JObj ?out)))"
    by simp
  show ?thesis
    using 1 2 3 4 by (intro conjI)
qed

section \<open>Truncated lists\<close>

lemma bindE_eq_Inr: "bindE m f = Inr y \<longleftrightarrow> (\<exists>x. m = Inr x \<and> f x = Inr y)"
  by (cases m) auto

lemma mapE_length: "mapE f xs = Inr ys \<Longrightarrow> length ys = length xs"
  by (induction xs arbitrary: ys) (auto simp: bindE_eq_Inr)



















section \<open>The line of a keyword with performance metrics\<close>

lemma interp_Cons_Inr:
  "interp (p # ps) = Inr t \<longleftrightarrow> (\<exists>s r. p = Inr s \<and> interp ps = Inr r \<and> t = s @ r)"
  by (cases p; cases "interp ps") auto

lemma interp_Nil_Inr: "interp [] = Inr t \<longleftrightarrow> t = []"
  by auto

lemma truthy_field: "get v k = Inr x \<Longrightarrow> truthy x \<Longrightarrow> truthy v"
  by (cases v) auto

lemma ctr_percent_number:
  "ctr_percent P (JNum c) = Inr (to_fixed P 1 (number_multiply c (Finite 100)))"
  by (simp add: ctr_percent_def)

lemma performance_part_with_data:
  assumes "get perf ''has_data'' = Inr flag" and "truthy flag"
    and "get perf ''ctr'' = Inr (JNum c)"
    and "performance_part P lbl perf = Inr s"
  obtains pos cl im where
    "bindE (get perf ''position'') (\<lambda>p. to_str P (or_else p (JStr ''N/A''))) = Inr pos"
    "tpl P perf ''clicks'' = Inr cl"
    "tpl P perf ''impressions'' = Inr im"
    "s = lbl @ pos @ '' | '' @ cl @ '' clics | '' @ im @ '' impr''
         @ (if number_gt c 0
            then '' | CTR: '' @ to_fixed P 1 (number_multiply c (Finite 100)) @ ''%''
            else [])"
proof -
  have gt: "js_gt P (JNum c) 0 = Inr (number_gt c 0)" by (simp add: js_gt_def)
  from assms(4) have
    "bindE (interp
              [Inr lbl,
               bindE (get perf ''position'') (\<lambda>p. to_str P (or_else p (JStr ''N/A''))),
               Inr '' | '', tpl P perf ''clicks'', Inr '' clics | '',
               tpl P perf ''impressions'', Inr '' impr''])
       (\<lambda>s. if number_gt c 0
            then Inr (s @ '' | CTR: '' @ to_fixed P 1 (number_multiply c (Finite 100)) @ ''%'')
            else Inr s) = Inr s"
    unfolding performance_part_def assms(1,3) bindE.simps gt ctr_percent_number
    using assms(2) by simp
  then obtain s0 where
    i: "interp
              [Inr lbl,
               bindE (get perf ''position'') (\<lambda>p. to_str P (or_else p (JStr ''N/A''))),
               Inr '' | '', tpl P perf ''clicks'', Inr '' clics | '',
               tpl P perf ''impressions'', Inr '' impr''] = Inr s0"
    and s: "s = s0 @ (if number_gt c 0
                      then '' | CTR: '' @ to_fixed P 1 (number_multiply c (Finite 100)) @ ''%''
                      else [])"
    unfolding bindE_eq_Inr by (auto split: if_splits)
  from i obtain pos cl im where
    "bindE (get perf ''position'') (\<lambda>p. to_str P (or_else p (JStr ''N/A''))) = Inr pos"
    "tpl P perf ''clicks'' = Inr cl"
    "tpl P perf ''impressions'' = Inr im"
    "s0 = lbl @ pos @ '' | '' @ cl @ '' clics | '' @ im @ '' impr''"
    unfolding interp_Cons_Inr interp_Nil_Inr by auto
  with s show ?thesis by (intro that) simp_all
qed

text \<open>
  C10, amended. In the keywords-by-categories formatters, when the result asks for
  performance (\<^verbatim>\<open>include_performance\<close> is truthy), the line of a keyword whose
  performance metrics have data and whose click-through rate is a number \<open>c\<close> is: the
  name of the keyword, the position, the clicks and the impressions, then the field
  \<^verbatim>\<open>| CTR: p%\<close> exactly when \<open>c > 0\<close>, then the search volume if any. The
  percentage \<open>p\<close> is the product of \<open>c\<close> and 100 in the arithmetic of doubles, written
  with one decimal place. With \<open>c = 0\<close> the line has the clicks and the impressions and
  no such field.
\<close>

theorem ctr_field:
  assumes "get result ''include_performance'' = Inr ip" and "truthy ip"
    and "get keyword ''performance_metrics'' = Inr perf"
    and "get perf ''has_data'' = Inr flag" and "truthy flag"
    and "get perf ''ctr'' = Inr (JNum c)"
    and "keyword_perf_line P lbl result keyword = Inr line"
  shows "\<exists>base pos cl im vol.
           interp [Inr (''   '' @ [CHR 0xE2, CHR 0x80, CHR 0xA2] @ '' **''), tpl P keyword ''keyword'', Inr ''**''] = Inr base
         \<and> bindE (get perf ''position'') (\<lambda>p. to_str P (or_else p (JStr ''N/A''))) = Inr pos
         \<and> tpl P perf ''clicks'' = Inr cl
         \<and> tpl P perf ''impressions'' = Inr im
         \<and> volume_part P keyword = Inr vol
         \<and> line = base @ lbl @ pos @ '' | '' @ cl @ '' clics | '' @ im @ '' impr''
                  @ (if number_gt c 0
                     then '' | CTR: '' @ to_fixed P 1 (number_multiply c (Finite 100)) @ ''%''
                     else [])
                  @ vol"
proof -
  from assms(4,5) have tp: "truthy perf" by (rule truthy_field)
  from assms(7) have
    "bindE (interp [Inr (''   '' @ [CHR 0xE2, CHR 0x80, CHR 0xA2] @ '' **''), tpl P keyword ''keyword'', Inr ''**'']) (\<lambda>line.
     bindE (bindE (performance_part P lbl perf) (\<lambda>s. Inr (line @ s))) (\<lambda>line.
     bindE (volume_part P keyword) (\<lambda>v. Inr (line @ v)))) = Inr line"
    unfolding keyword_perf_line_def assms(1,3) bindE.simps
    using assms(2) tp by simp
  then obtain base s vol where
    b: "interp [Inr (''   '' @ [CHR 0xE2, CHR 0x80, CHR 0xA2] @ '' **''), tpl P keyword ''keyword'', Inr ''**''] = Inr base"
    and s: "performance_part P lbl perf = Inr s"
    and v: "volume_part P keyword = Inr vol"
    and l: "line = (base @ s) @ vol"
    unfolding bindE_eq_Inr by auto
  from assms(4,5,6) s obtain pos cl im where
    "bindE (get perf ''position'') (\<lambda>p. to_str P (or_else p (JStr ''N/A''))) = Inr pos"
    "tpl P perf ''clicks'' = Inr cl"
    "tpl P perf ''impressions'' = Inr im"
    "s = lbl @ pos @ '' | '' @ cl @ '' clics | '' @ im @ '' impr''
         @ (if number_gt c 0
            then '' | CTR: '' @ to_fixed P 1 (number_multiply c (Finite 100)) @ ''%''
            else [])"
    by (rule performance_part_with_data)
  with b v l show ?thesis
    by (intro exI [of _ base] exI [of _ pos] exI [of _ cl] exI [of _ im] exI [of _ vol]) simp
qed

lemma small_numerals:
  "num_str P (Finite 3) = ''3''" "num_str P (Finite 5) = ''5''" "num_str P (Finite 100) = ''100''"
  by (simp_all add: num_str_def int_str_def nat_str.simps digit_char_def)

text \<open>The literal 0.0015 as a double, its product with 100, and the product to one decimal
  place. The product is below 0.15.\<close>

lemma literal_0015:
  "round_double (15 / 10000) = Finite (3458764513820541 / 2305843009213693952)"
proof -
  have "round_half_even ((15 / 10000) / 2 powi (- 10 - 52)) = 6917529027641082"
    by (rule round_half_even_eqI) (simp_all add: power_int_minus_divide)
  from round_double_pos [where e = "- 10" and q = "15 / 10000", OF _ _ _ this]
  show ?thesis by (simp add: power_int_minus_divide)
qed

lemma percent_0015:
  "number_multiply (Finite (3458764513820541 / 2305843009213693952)) (Finite 100)
   = Finite (5404319552844595 / 36028797018963968)"
proof -
  have "round_half_even ((3458764513820541 / 2305843009213693952 * 100) / 2 powi (- 3 - 52))
        = 5404319552844595"
    by (rule round_half_even_eqI) (simp_all add: power_int_minus_divide)
  from round_double_pos [where e = "- 3" and q = "3458764513820541 / 2305843009213693952 * 100",
      OF _ _ _ this]
  show ?thesis by (simp add: power_int_minus_divide)
qed

lemma fixed_0015: "to_fixed P (Suc 0) (Finite (5404319552844595 / 36028797018963968)) = ''0.1''"
proof -
  have "\<lfloor>(5404319552844595 / 36028797018963968 :: rat) * 10 ^ Suc 0 + 1 / 2\<rfloor> = 1"
    by (simp add: floor_eq_iff)
  moreover have "nat_str (Suc 0) = ''1''" by (simp add: nat_str.simps digit_char_def)
  ultimately show ?thesis
    by (simp add: to_fixed_def pad_zeros_def Let_def)
qed

lemma measured_performance:
  "performance_part example_runtime '' | #''
     (JObj [(''has_data'', JBool True), (''position'', JNum (Finite 3)),
            (''clicks'', JNum (Finite 5)), (''impressions'', JNum (Finite 100)),
            (''ctr'', JNum c)])
   = Inr ('' | #3 | 5 clics | 100 impr''
          @ (if number_gt c 0
             then '' | CTR: '' @ to_fixed example_runtime 1 (number_multiply c (Finite 100)) @ ''%''
             else []))"
  by (simp add: performance_part_def tpl_def js_gt_def or_else_def ctr_percent_def small_numerals)

lemma measured_volume: "volume_part example_runtime (measured c) = Inr []"
  by (simp add: volume_part_def measured_def js_gt_def)

lemma measured_name:
  "interp [Inr (''   '' @ [CHR 0xE2, CHR 0x80, CHR 0xA2] @ '' **''), tpl example_runtime (measured c) ''keyword'', Inr ''**'']
   = Inr ((''   '' @ [CHR 0xE2, CHR 0x80, CHR 0xA2] @ '' **seo**''))"
  by (simp add: measured_def tpl_def)

lemma measured_metrics:
  "get (measured c) ''performance_metrics''
   = Inr (JObj [(''has_data'', JBool True), (''position'', JNum (Finite 3)),
                (''clicks'', JNum (Finite 5)), (''impressions'', JNum (Finite 100)),
                (''ctr'', JNum (round_double c))])"
  by (simp add: measured_def)

lemma measured_line:
  "keyword_perf_line example_runtime '' | #'' (JObj [(''include_performance'', JBool True)])
     (measured c)
   = Inr ((''   '' @ [CHR 0xE2, CHR 0x80, CHR 0xA2] @ '' **seo** | #3 | 5 clics | 100 impr'')
          @ (if number_gt (round_double c) 0
             then '' | CTR: ''
                  @ to_fixed example_runtime 1 (number_multiply (round_double c) (Finite 100))
                  @ ''%''
             else []))"
proof -
  have ip: "get (JObj [(''include_performance'', JBool True)]) ''include_performance''
            = Inr (JBool True)"
    by simp
  show ?thesis
    unfolding keyword_perf_line_def measured_name ip measured_metrics bindE.simps
      measured_performance measured_volume
    by simp
qed

text \<open>
  C10, as stated, fails when the result does not ask for performance: the formatters read
  the metrics of a keyword only under \<^verbatim>\<open>result.include_performance\<close>. Without the
  flag, a keyword with data and a click-through rate of 0.0015 is rendered by its name
  alone.
\<close>

theorem ctr_needs_include_performance:
  "keyword_perf_line example_runtime '' | #'' (JObj [(''include_performance'', JBool False)])
     (measured (15 / 10000))
   = Inr ((''   '' @ [CHR 0xE2, CHR 0x80, CHR 0xA2] @ '' **seo**''))"
proof -
  have ip: "get (JObj [(''include_performance'', JBool False)]) ''include_performance''
            = Inr (JBool False)"
    by simp
  show ?thesis
    unfolding keyword_perf_line_def measured_name ip bindE.simps measured_volume
    by simp
qed

theorem ctr_field_witness:
  "keyword_perf_line example_runtime '' | #'' (JObj [(''include_performance'', JBool True)])
     (measured (15 / 10000))
   = Inr ((''   '' @ [CHR 0xE2, CHR 0x80, CHR 0xA2] @ '' **seo** | #3 | 5 clics | 100 impr | CTR: 0.1%''))
   \<and> keyword_perf_line example_runtime '' | #'' (JObj [(''include_performance'', JBool True)])
       (measured 0)
     = Inr ((''   '' @ [CHR 0xE2, CHR 0x80, CHR 0xA2] @ '' **seo** | #3 | 5 clics | 100 impr''))"
proof -
  let ?R = "JObj [(''include_performance'', JBool True)]"
  let ?perf = "\<lambda>c. JObj [(''has_data'', JBool True), (''position'', JNum (Finite 3)),
                         (''clicks'', JNum (Finite 5)), (''impressions'', JNum (Finite 100)),
                         (''ctr'', JNum c)]"
  let ?c = "Finite (3458764513820541 / 2305843009213693952)"
  have ip: "get ?R ''include_performance'' = Inr (JBool True)" by simp
  have t: "truthy (JBool True)" by simp
  have pm1: "get (measured (15 / 10000)) ''performance_metrics'' = Inr (?perf ?c)"
    by (simp only: measured_metrics literal_0015)
  have pm0: "get (measured 0) ''performance_metrics'' = Inr (?perf (Finite 0))"
    by (simp only: measured_metrics round_double_0)
  have flag: "get (?perf c) ''has_data'' = Inr (JBool True)" for c
    by simp
  have ctr: "get (?perf c) ''ctr'' = Inr (JNum c)" for c
    by simp
  obtain l1 where l1: "keyword_perf_line example_runtime '' | #'' ?R (measured (15 / 10000)) = Inr l1"
    unfolding measured_line by blast
  obtain l0 where l0: "keyword_perf_line example_runtime '' | #'' ?R (measured 0) = Inr l0"
    unfolding measured_line by blast
  from ctr_field [OF ip t pm1 flag t ctr l1]
  obtain base pos cl im vol where
    b: "interp [Inr (''   '' @ [CHR 0xE2, CHR 0x80, CHR 0xA2] @ '' **''), tpl example_runtime (measured (15 / 10000)) ''keyword'', Inr ''**'']
        = Inr base"
    and p: "bindE (get (?perf ?c) ''position'')
              (\<lambda>p. to_str example_runtime (or_else p (JStr ''N/A''))) = Inr pos"
    and c: "tpl example_runtime (?perf ?c) ''clicks'' = Inr cl"
    and i: "tpl example_runtime (?perf ?c) ''impressions'' = Inr im"
    and v: "volume_part example_runtime (measured (15 / 10000)) = Inr vol"
    and l: "l1 = base @ '' | #'' @ pos @ '' | '' @ cl @ '' clics | '' @ im @ '' impr''
                 @ (if number_gt ?c 0
                    then '' | CTR: '' @ to_fixed example_runtime 1 (number_multiply ?c (Finite 100))
                         @ ''%''
                    else [])
                 @ vol"
    by (elim exE conjE)
  from b have b': "base = (''   '' @ [CHR 0xE2, CHR 0x80, CHR 0xA2] @ '' **seo**'')" unfolding measured_name by simp
  from p have p': "pos = ''3''" by (simp add: or_else_def small_numerals)
  from c have c': "cl = ''5''" by (simp add: tpl_def small_numerals)
  from i have i': "im = ''100''" by (simp add: tpl_def small_numerals)
  from v have v': "vol = []" unfolding measured_volume by simp
  have "l1 = (''   '' @ [CHR 0xE2, CHR 0x80, CHR 0xA2] @ '' **seo** | #3 | 5 clics | 100 impr | CTR: 0.1%'')"
    unfolding l b' p' c' i' v' percent_0015 by (simp add: fixed_0015)
  with l1 have a: "keyword_perf_line example_runtime '' | #'' ?R (measured (15 / 10000))
                   = Inr ((''   '' @ [CHR 0xE2, CHR 0x80, CHR 0xA2] @ '' **seo** | #3 | 5 clics | 100 impr | CTR: 0.1%''))"
    by (simp only:)
  from ctr_field [OF ip t pm0 flag t ctr l0]
  obtain base0 pos0 cl0 im0 vol0 where
    b0: "interp [Inr (''   '' @ [CHR 0xE2, CHR 0x80, CHR 0xA2] @ '' **''), tpl example_runtime (measured 0) ''keyword'', Inr ''**'']
        = Inr base0"
    and p0: "bindE (get (?perf (Finite 0)) ''position'')
              (\<lambda>p. to_str example_runtime (or_else p (JStr ''N/A''))) = Inr pos0"
    and c0: "tpl example_runtime (?perf (Finite 0)) ''clicks'' = Inr cl0"
    and i0: "tpl example_runtime (?perf (Finite 0)) ''impressions'' = Inr im0"
    and v0: "volume_part example_runtime (measured 0) = Inr vol0"
    and ll: "l0 = base0 @ '' | #'' @ pos0 @ '' | '' @ cl0 @ '' clics | '' @ im0 @ '' impr''
                 @ (if number_gt (Finite 0) 0
                    then '' | CTR: ''
                         @ to_fixed example_runtime 1 (number_multiply (Finite 0) (Finite 100))
                         @ ''%''
                    else [])
                 @ vol0"
    by (elim exE conjE)
  from b0 have b0': "base0 = (''   '' @ [CHR 0xE2, CHR 0x80, CHR 0xA2] @ '' **seo**'')" unfolding measured_name by simp
  from p0 have p0': "pos0 = ''3''" by (simp add: or_else_def small_numerals)
  from c0 have c0': "cl0 = ''5''" by (simp add: tpl_def small_numerals)
  from i0 have i0': "im0 = ''100''" by (simp add: tpl_def small_numerals)
  from v0 have v0': "vol0 = []" unfolding measured_volume by simp
  have "l0 = (''   '' @ [CHR 0xE2, CHR 0x80, CHR 0xA2] @ '' **seo** | #3 | 5 clics | 100 impr'')"
    unfolding ll b0' p0' c0' i0' v0' by simp
  with l0 have z: "keyword_perf_line example_runtime '' | #'' ?R (measured 0)
                   = Inr ((''   '' @ [CHR 0xE2, CHR 0x80, CHR 0xA2] @ '' **seo** | #3 | 5 clics | 100 impr''))"
    by (simp only:)
  from a z show ?thesis by (rule conjI)
qed

section \<open>The average position\<close>










































lemma push_to_lookup:
  "map_of g c = Some ks \<Longrightarrow> map_of (push_to c k g) c = Some (ks @ [k])"
  by (induction g) (auto split: if_splits)

lemma push_to_other: "c' \<noteq> c \<Longrightarrow> map_of (push_to c k g) c' = map_of g c'"
  by (induction g) auto

lemma push_to_names: "map fst (push_to c k g) = map fst g"
  by (induction g) auto

lemma foldE_snoc: "foldE f a (xs @ [x]) = bindE (foldE f a xs) (\<lambda>b. f b x)"
proof (induction xs arbitrary: a)
  case Nil
  show ?case by (cases "f a x") simp_all
next
  case (Cons y ys)
  then show ?case by (cases "f a y") simp_all
qed

lemma mapE_snoc:
  "mapE f xs = Inr ys \<Longrightarrow> f x = Inr y \<Longrightarrow> mapE f (xs @ [x]) = Inr (ys @ [y])"
proof (induction xs arbitrary: ys)
  case Nil
  then show ?case by simp
next
  case (Cons z zs)
  then show ?case by (auto simp: bindE_eq_Inr)
qed

lemma group_keyword_Inr:
  assumes "group_keyword P g k = Inr g'"
  shows "\<exists>c. category_key P k = Inr c
           \<and> map fst g' = (if c \<in> set (map fst g) then map fst g else map fst g @ [c])
           \<and> (\<forall>c'. members g' c' = members g c' @ (if c' = c then [k] else []))"
proof -
  from assms obtain v c where v: "get k ''category_name'' = Inr v"
    and c: "to_str P (or_else v (JStr non_categorise)) = Inr c"
    and g': "(case map_of g c of
                Some ks \<Rightarrow> Inr (push_to c k g)
              | None \<Rightarrow> if c \<in> set object_prototype_names
                        then Inl (TypeError ''byCategory[catName].push is not a function'')
                        else Inr (g @ [(c, [k])])) = Inr g'"
    unfolding group_keyword_def bindE_eq_Inr by blast
  from v c have key: "category_key P k = Inr c"
    by (simp add: category_key_def)
  show ?thesis
  proof (cases "map_of g c")
    case None
    with g' have eq: "g' = g @ [(c, [k])]"
      by (simp split: if_splits)
    from None have notin: "c \<notin> set (map fst g)"
      by (simp add: map_of_eq_None_iff)
    have "members g' c' = members g c' @ (if c' = c then [k] else [])" for c'
      using None by (cases "map_of g c'") (auto simp: eq members_def map_add_def)
    with key eq notin show ?thesis by simp
  next
    case (Some ks)
    with g' have eq: "g' = push_to c k g" by simp
    from Some have isin: "c \<in> set (map fst g)"
      by (metis map_of_eq_None_iff option.distinct(1) set_map)
    have "members g' c' = members g c' @ (if c' = c then [k] else [])" for c'
      using Some by (cases "c' = c") (simp_all add: eq members_def push_to_lookup push_to_other)
    with key eq isin show ?thesis by (simp add: push_to_names)
  qed
qed

lemma first_occurrences_snoc:
  "first_occurrences (cs @ [c])
   = (if c \<in> set cs then first_occurrences cs else first_occurrences cs @ [c])"
  by (simp add: first_occurrences_def)

lemma set_first_occurrences: "set (first_occurrences cs) = set cs"
  by (simp add: first_occurrences_def)

lemma keywords_under_snoc:
  "length cs = length kl \<Longrightarrow>
   keywords_under c' (cs @ [c]) (kl @ [k])
   = keywords_under c' cs kl @ (if c' = c then [k] else [])"
  by (simp add: keywords_under_def)

text \<open>
  The groups built by the \<^verbatim>\<open>forEach\<close>, when no keyword makes it throw: one group for each
  name, the names in the order of their first occurrence, and under each name the
  keywords filed under it, in the order received. Every keyword is in the group of its
  name and in no other.
\<close>

lemma grouping:
  "foldE (group_keyword P) [] kl = Inr g \<Longrightarrow>
   \<exists>cs. mapE (category_key P) kl = Inr cs
        \<and> map fst g = first_occurrences cs
        \<and> (\<forall>c. members g c = keywords_under c cs kl)"
proof (induction kl arbitrary: g rule: rev_induct)
  case Nil
  then show ?case
    by (auto simp: first_occurrences_def members_def keywords_under_def)
next
  case (snoc k kl)
  from snoc.prems obtain g0 where g0: "foldE (group_keyword P) [] kl = Inr g0"
    and step: "group_keyword P g0 k = Inr g"
    unfolding foldE_snoc bindE_eq_Inr by blast
  from snoc.IH [OF g0] obtain cs where cs: "mapE (category_key P) kl = Inr cs"
    and names: "map fst g0 = first_occurrences cs"
    and mem: "\<And>c. members g0 c = keywords_under c cs kl"
    by blast
  from group_keyword_Inr [OF step] obtain c where c: "category_key P k = Inr c"
    and names': "map fst g = (if c \<in> set (map fst g0) then map fst g0 else map fst g0 @ [c])"
    and mem': "\<And>c'. members g c' = members g0 c' @ (if c' = c then [k] else [])"
    by blast
  from cs have len: "length cs = length kl" by (rule mapE_length)
  have 1: "mapE (category_key P) (kl @ [k]) = Inr (cs @ [c])"
    using cs c by (rule mapE_snoc)
  have 2: "map fst g = first_occurrences (cs @ [c])"
    unfolding names' names first_occurrences_snoc set_first_occurrences by (rule refl)
  have 3: "members g c' = keywords_under c' (cs @ [c]) (kl @ [k])" for c'
    unfolding mem' mem keywords_under_snoc [OF len] by (rule refl)
  from 1 2 3 show ?case by blast
qed


lemma distinct_first_occurrences: "distinct (first_occurrences cs)"
  by (simp add: first_occurrences_def)

lemma members_Cons:
  "members ((c, ks) # g) c' = (if c' = c then ks else members g c')"
  by (simp add: members_def)

lemma groups_by_name:
  "distinct (map fst g) \<Longrightarrow> g = map (\<lambda>c. (c, members g c)) (map fst g)"
proof (induction g)
  case Nil
  show ?case by simp
next
  case (Cons e g)
  obtain c ks where e: "e = (c, ks)" by (cases e)
  from Cons.prems have d: "distinct (map fst g)" and n: "c \<notin> fst ` set g"
    by (simp_all add: e)
  have "map (\<lambda>c'. (c', members (e # g) c')) (map fst g) = map (\<lambda>c'. (c', members g c')) (map fst g)"
  proof (rule map_cong [OF refl])
    fix c' assume "c' \<in> set (map fst g)"
    with n have "c' \<noteq> c" by auto
    then show "(c', members (e # g) c') = (c', members g c')"
      by (simp add: e members_Cons)
  qed
  with Cons.IH [OF d] show ?case
    by (simp add: e members_Cons)
qed

lemma mapE_map: "mapE f (map h xs) = mapE (\<lambda>x. f (h x)) xs"
  by (induction xs) simp_all

text \<open>
  When no name is an array index, the groups are rendered in the order of their first
  occurrence.
\<close>

lemma first_occurrence_order:
  assumes "keywords_list P result = Inr listing"
    and "get result ''keywords'' = Inr (JArr kl)"
    and "mapE (category_key P) kl = Inr cs"
    and "\<forall>c\<in>set cs. array_index c = None"
  shows "\<exists>blocks.
           mapE (\<lambda>c. group_block P result (c, keywords_under c cs kl)) (first_occurrences cs)
             = Inr blocks
           \<and> listing = join_with nl blocks"
proof -
  from assms(1,2) obtain g blocks where g: "foldE (group_keyword P) [] kl = Inr g"
    and b: "mapE (group_block P result) (entries g) = Inr blocks"
    and l: "listing = join_with nl blocks"
    unfolding keywords_list_def bindE_eq_Inr by auto
  from grouping [OF g] assms(3) have names: "map fst g = first_occurrences cs"
    and mem: "\<And>c. members g c = keywords_under c cs kl"
    by auto
  from assms(4) names have "\<forall>e\<in>set g. array_index (fst e) = None"
    by (metis image_eqI set_first_occurrences set_map)
  then have "entries g = g"
    by (simp add: entries_def)
  moreover have "g = map (\<lambda>c. (c, keywords_under c cs kl)) (first_occurrences cs)"
    using groups_by_name [of g] names distinct_first_occurrences [of cs] by (simp add: mem)
  ultimately have "entries g = map (\<lambda>c. (c, keywords_under c cs kl)) (first_occurrences cs)"
    by simp
  with b l show ?thesis
    by (simp add: mapE_map)
qed

lemma index_2024: "array_index ''2024'' = Some 2024"
  by (simp add: array_index_def nat_str.simps digit_char_def)

lemma index_blog: "array_index ''blog'' = None"
  by (simp add: array_index_def)

lemma group_in_category:
  "catName \<noteq> [] \<Longrightarrow> catName \<notin> set object_prototype_names \<Longrightarrow> map_of g catName = None \<Longrightarrow>
   group_keyword P g (in_category catName s) = Inr (g @ [(catName, [in_category catName s])])"
  by (simp add: group_keyword_def in_category_def or_else_def)

lemma in_category_line:
  "keyword_line example_runtime (keywords_answer ks) (in_category c s) = Inr ((''   '' @ [CHR 0xE2, CHR 0x80, CHR 0xA2] @ '' '') @ s)"
  by (simp add: keyword_line_def in_category_def keywords_answer_def tpl_def)

lemma one_keyword_block:
  "group_block example_runtime (keywords_answer ks) (c, [in_category c s])
   = Inr (nl @ ''**'' @ c @ (''** (1 mots-cl'' @ [CHR 0xC3, CHR 0xA9] @ ''s):'' @ [CHR 0x0A]) @ (''   '' @ [CHR 0xE2, CHR 0x80, CHR 0xA2] @ '' '') @ s)"
  by (simp add: group_block_def in_category_line nat_str.simps digit_char_def)

lemma example_groups:
  "foldE (group_keyword example_runtime) [] [in_category ''blog'' ''a'', in_category ''2024'' ''c'']
   = Inr [(''blog'', [in_category ''blog'' ''a'']), (''2024'', [in_category ''2024'' ''c''])]"
  by (simp add: group_in_category object_prototype_names_def)

lemma example_entries:
  "entries [(''blog'', [in_category ''blog'' ''a'']), (''2024'', [in_category ''2024'' ''c''])]
   = [(''2024'', [in_category ''2024'' ''c'']), (''blog'', [in_category ''blog'' ''a''])]"
  by (simp add: entries_def index_2024 index_blog)

text \<open>
  C8, on the code. \<^verbatim>\<open>list_keywords_by_website\<close> collects the groups as the properties of
  a plain object and lists them with \<^verbatim>\<open>Object.entries\<close>, which yields the names that are
  array indices first, in ascending numeric order, before the other names in the order
  of their creation. For the keyword \<open>a\<close> of the category \<open>blog\<close> followed by the keyword
  \<open>c\<close> of the category \<open>2024\<close>, the rendered list shows the category \<open>2024\<close> before the
  category \<open>blog\<close>: the order of first occurrence is not preserved.
\<close>

theorem numeric_category_is_listed_first:
  "keywords_list example_runtime
     (keywords_answer [in_category ''blog'' ''a'', in_category ''2024'' ''c''])
   = Inr (([CHR 0x0A] @ ''**2024** (1 mots-cl'' @ [CHR 0xC3, CHR 0xA9] @ ''s):'' @ [CHR 0x0A] @ ''   '' @ [CHR 0xE2, CHR 0x80, CHR 0xA2] @ '' c'') @ nl @ ([CHR 0x0A] @ ''**blog** (1 mots-cl'' @ [CHR 0xC3, CHR 0xA9] @ ''s):'' @ [CHR 0x0A] @ ''   '' @ [CHR 0xE2, CHR 0x80, CHR 0xA2] @ '' a''))"
proof -
  let ?ks = "[in_category ''blog'' ''a'', in_category ''2024'' ''c'']"
  have k: "get (keywords_answer ?ks) ''keywords'' = Inr (JArr ?ks)"
    by (simp add: keywords_answer_def)
  have a: "as_array ''result.keywords'' ''forEach'' (JArr ?ks) = Inr ?ks"
    by simp
  have b: "mapE (group_block example_runtime (keywords_answer ?ks))
             [(''2024'', [in_category ''2024'' ''c'']), (''blog'', [in_category ''blog'' ''a''])]
           = Inr [([CHR 0x0A] @ ''**2024** (1 mots-cl'' @ [CHR 0xC3, CHR 0xA9] @ ''s):'' @ [CHR 0x0A] @ ''   '' @ [CHR 0xE2, CHR 0x80, CHR 0xA2] @ '' c''), ([CHR 0x0A] @ ''**blog** (1 mots-cl'' @ [CHR 0xC3, CHR 0xA9] @ ''s):'' @ [CHR 0x0A] @ ''   '' @ [CHR 0xE2, CHR 0x80, CHR 0xA2] @ '' a'')]"
    by (simp add: one_keyword_block)
  show ?thesis
    unfolding keywords_list_def k a example_groups example_entries b bindE.simps
    by simp
qed

text \<open>A keyword whose \<^verbatim>\<open>category_name\<close> is falsy is appended to the default group, which
  is created if the keyword is its first.\<close>

lemma falsy_category:
  assumes "get k ''category_name'' = Inr c" and "\<not> truthy c"
  shows "\<exists>g'. group_keyword P g k = Inr g'
           \<and> map_of g' non_categorise
               = Some ((case map_of g non_categorise of None \<Rightarrow> [] | Some ks \<Rightarrow> ks) @ [k])"
proof (cases "map_of g non_categorise")
  case None
  have "non_categorise \<notin> set object_prototype_names"
    by (simp add: non_categorise_def object_prototype_names_def)
  with assms None show ?thesis
    by (simp add: group_keyword_def or_else_def map_add_def)
next
  case (Some ks)
  with assms show ?thesis
    by (simp add: group_keyword_def or_else_def push_to_lookup)
qed

lemma inherited_name:
  "group_keyword P [] (in_category ''constructor'' s)
   = Inl (TypeError ''byCategory[catName].push is not a function'')"
  by (simp add: group_keyword_def in_category_def or_else_def object_prototype_names_def)

text \<open>
  C9, on the code. The groups are the properties of a plain object, and a keyword is
  filed with \<^verbatim>\<open>if (!byCategory[catName]) byCategory[catName] = []\<close> followed by
  \<^verbatim>\<open>push\<close>. For the category \<open>constructor\<close> the test finds the function every object
  inherits, no array is created, and \<^verbatim>\<open>push\<close> is not a function: the call answers with
  the error report, and the keyword is in no displayed group.
\<close>

theorem inherited_name_fails_the_call:
  "fst (call_tool V2_0_0 example_runtime
          (answering (success_with (keywords_answer [in_category ''constructor'' ''maison''])))
          \<lparr>name = ''list_keywords_by_website'',
           arguments = JObj [(''website_id'', JNum (Finite 7))]\<rparr>)
   = error_report (TypeError ''byCategory[catName].push is not a function'')"
proof -
  let ?result = "keywords_answer [in_category ''constructor'' ''maison'']"
  let ?rq = "\<lparr>name = ''list_keywords_by_website'',
              arguments = JObj [(''website_id'', JNum (Finite 7))]\<rparr>"
  have "keywords_list example_runtime ?result
        = Inl (TypeError ''byCategory[catName].push is not a function'')"
    by (simp add: keywords_list_def keywords_answer_def inherited_name)
  then have f: "format_list_keywords_by_website example_runtime ?result data
        = Inl (TypeError ''byCategory[catName].push is not a function'')" for data
    by (simp add: format_list_keywords_by_website_def)
  have "dispatch (tools_of V2_0_0) (endpoints_of V2_0_0) example_runtime
          (answering (success_with ?result)) ?rq
        = (Inl (TypeError ''byCategory[catName].push is not a function''),
           [example_keywords_request
              (JObj [(''website_id'', JNum (Finite 7)), (''include_metrics'', JBool False)])])"
    by (simp add: dispatch_def tool_case_def tools_def Let_def example_default f
        callReferencimeAPI_def getApiKey_def answering_def endpoints_def baseURL_def
        example_keywords_request_def unwrap_response_def success_with_def response_ok_def
        del: safeParse.simps)
  then show ?thesis
    by (simp add: call_tool_def finish_Inl)
qed

end
